theory Spec2Isabelle
  imports Complex_Main "HOL-Library.Word"
begin

unbundle bit_operations_syntax

section \<open>IEEE 754 binary32 arithmetic, as used by the C type \<open>float\<close>\<close>

text \<open>
  \<open>main.c\<close> computes in \<open>float\<close>. A finite binary32 value is the rational number it
  denotes; every arithmetic operation returns the exact result rounded to the nearest
  binary32 value, ties to the even significand (the default rounding mode), one rounding
  per C operator: a product is rounded before it is added, not fused with the sum. The
  unit in the last place of the binade of \<open>x\<close> is found by doubling
  from the subnormal spacing \<open>2^-149\<close>; the search stops at the spacing \<open>2^104\<close> of the
  largest binade, so the model is exact for results below \<open>2^128\<close>. The samples are
  32-bit integers and the filter averages them, so no larger value arises.
\<close>

definition round_half_even :: "rat \<Rightarrow> int" where
  "round_half_even y = (let n = \<lfloor>y\<rfloor>; d = y - of_int n in
     if d < 1/2 then n else if 1/2 < d then n + 1 else if even n then n else n + 1)"

fun ulp_from :: "nat \<Rightarrow> rat \<Rightarrow> rat \<Rightarrow> rat" where
  "ulp_from 0 u a = u"
| "ulp_from (Suc n) u a = (if a < 2 ^ 24 * u then u else ulp_from n (2 * u) a)"

definition ulp_min :: rat where
  "ulp_min = 1 / 2 ^ 149"

definition ulp32 :: "rat \<Rightarrow> rat" where
  "ulp32 x = ulp_from 253 ulp_min \<bar>x\<bar>"

definition f32 :: "rat \<Rightarrow> rat" where
  "f32 x = ulp32 x * of_int (round_half_even (x / ulp32 x))"

definition f32_add :: "rat \<Rightarrow> rat \<Rightarrow> rat" where
  "f32_add a b = f32 (a + b)"

definition f32_sub :: "rat \<Rightarrow> rat \<Rightarrow> rat" where
  "f32_sub a b = f32 (a - b)"

definition f32_mul :: "rat \<Rightarrow> rat \<Rightarrow> rat" where
  "f32_mul a b = f32 (a * b)"

definition f32_div :: "rat \<Rightarrow> rat \<Rightarrow> rat" where
  "f32_div a b = f32 (a / b)"

text \<open>The implicit conversion of an \<open>int\<close> operand to \<open>float\<close>.\<close>

definition f32_of_int :: "int \<Rightarrow> rat" where
  "f32_of_int i = f32 (of_int i)"

text \<open>
  The cast \<open>(uint8_t)x\<close> discards the fractional part. C leaves the conversion undefined
  when the truncated value does not fit the target type; that case is \<open>None\<close>.
\<close>

definition u8_of_f32 :: "rat \<Rightarrow> 8 word option" where
  "u8_of_f32 x = (if - 1 < x \<and> x < 256
     then Some (word_of_int (if 0 \<le> x then \<lfloor>x\<rfloor> else \<lceil>x\<rceil>)) else None)"

section \<open>Configuration and state of \<open>main.c\<close>\<close>

text \<open>
  The enumerators \<open>ADC_CHANNEL_9\<close>, \<open>ADC_CHANNEL_8\<close> and \<open>ADC_CHANNEL_2\<close> belong to the
  ADC driver, whose header is not part of the repository; they are taken to be the
  numbers in their names. Nothing below depends on their values.
\<close>

definition ADC_CHANNEL1 :: nat where "ADC_CHANNEL1 = 9"
definition ADC_CHANNEL2 :: nat where "ADC_CHANNEL2 = 8"
definition ADC_CHANNEL3 :: nat where "ADC_CHANNEL3 = 2"

definition MIDI_CC_CHANNEL :: "8 word" where "MIDI_CC_CHANNEL = 0"
definition MIDI_CC1 :: "8 word" where "MIDI_CC1 = 1"
definition MIDI_CC2 :: "8 word" where "MIDI_CC2 = 2"
definition MIDI_CC3 :: "8 word" where "MIDI_CC3 = 3"
definition CC_MESSAGE :: "8 word" where "CC_MESSAGE = 0xB0"

definition ALPHA :: rat where "ALPHA = 1 / 4"

record analog_input_t =
  channel :: nat
  filtered_value :: rat
  last_midi_value :: "8 word"
  cc_number :: "8 word"

definition analog_inputs :: "analog_input_t list" where
  "analog_inputs =
    [\<lparr>channel = ADC_CHANNEL1, filtered_value = 0, last_midi_value = 0, cc_number = MIDI_CC1\<rparr>,
     \<lparr>channel = ADC_CHANNEL2, filtered_value = 0, last_midi_value = 0, cc_number = MIDI_CC2\<rparr>,
     \<lparr>channel = ADC_CHANNEL3, filtered_value = 0, last_midi_value = 0, cc_number = MIDI_CC3\<rparr>]"

section \<open>The platform\<close>

text \<open>
  The ADC driver and the USB stack are outside \<open>main.c\<close>. One pass of
  \<open>process_analog_inputs\<close> sees them through what their calls return: \<open>adc1_get_raw\<close>
  for the ADC channel read, and \<open>tud_midi_mounted\<close> as asked while input \<open>i\<close> is
  processed. What the program hands to \<open>tud_midi_stream_write\<close> is collected as a list
  of calls, each the cable number and the bytes of the buffer.
\<close>

record platform =
  adc1_get_raw :: "nat \<Rightarrow> int"
  tud_midi_mounted :: "nat \<Rightarrow> bool"

type_synonym usb_write = "8 word \<times> 8 word list"

section \<open>The program\<close>

definition send_midi_cc :: "bool \<Rightarrow> 8 word \<Rightarrow> 8 word \<Rightarrow> usb_write list" where
  "send_midi_cc mounted cc val =
     (if mounted then [(0, [CC_MESSAGE OR MIDI_CC_CHANNEL, cc, val])] else [])"

text \<open>Lines 103-104: the exponential moving average.\<close>

definition ema :: "int \<Rightarrow> rat \<Rightarrow> rat" where
  "ema raw_value filtered =
     f32_add (f32_mul ALPHA (f32_of_int raw_value)) (f32_mul (f32_sub 1 ALPHA) filtered)"

text \<open>Line 107: the conversion to the MIDI range.\<close>

definition midi_of :: "rat \<Rightarrow> 8 word option" where
  "midi_of filtered = u8_of_f32 (f32_mul (f32_div filtered 4095) 127)"

text \<open>
  The body of the loop of \<open>process_analog_inputs\<close> for one element of the array, given
  the sample read and the answer of \<open>tud_midi_mounted\<close>.
\<close>

definition process_input ::
  "int \<Rightarrow> bool \<Rightarrow> analog_input_t \<Rightarrow> (usb_write list \<times> analog_input_t) option" where
  "process_input raw_value mounted a =
     (let a1 = a\<lparr>filtered_value := ema raw_value (filtered_value a)\<rparr> in
      case midi_of (filtered_value a1) of
        None \<Rightarrow> None
      | Some midi_value \<Rightarrow>
          if midi_value \<noteq> last_midi_value a1
          then Some (send_midi_cc mounted (cc_number a1) midi_value,
                     a1\<lparr>last_midi_value := midi_value\<rparr>)
          else Some ([], a1))"

definition process_channel ::
  "platform \<Rightarrow> nat \<Rightarrow> analog_input_t list \<Rightarrow> (usb_write list \<times> analog_input_t list) option" where
  "process_channel p i inputs =
     (case process_input (adc1_get_raw p (channel (inputs ! i))) (tud_midi_mounted p i) (inputs ! i) of
        None \<Rightarrow> None
      | Some (out, a) \<Rightarrow> Some (out, inputs[i := a]))"

function process_loop ::
  "platform \<Rightarrow> nat \<Rightarrow> analog_input_t list \<Rightarrow> (usb_write list \<times> analog_input_t list) option" where
  "process_loop p i inputs =
     (if i < 3 then
        (case process_channel p i inputs of
           None \<Rightarrow> None
         | Some (out, inputs1) \<Rightarrow>
             (case process_loop p (i + 1) inputs1 of
                None \<Rightarrow> None
              | Some (outs, inputs2) \<Rightarrow> Some (out @ outs, inputs2)))
      else Some ([], inputs))"
  by pat_completeness auto
termination
  by (relation "measure (\<lambda>(p, i, inputs). 3 - i)") auto

definition process_analog_inputs ::
  "platform \<Rightarrow> analog_input_t list \<Rightarrow> (usb_write list \<times> analog_input_t list) option" where
  "process_analog_inputs p inputs = process_loop p 0 inputs"

text \<open>
  \<open>midi_controller_task\<close> repeats \<open>process_analog_inputs\<close> for ever; its first cycles
  are run here, one for each platform behaviour listed.
\<close>

fun midi_controller_task ::
  "platform list \<Rightarrow> analog_input_t list \<Rightarrow> (usb_write list \<times> analog_input_t list) option" where
  "midi_controller_task [] inputs = Some ([], inputs)"
| "midi_controller_task (p # ps) inputs =
     (case process_analog_inputs p inputs of
        None \<Rightarrow> None
      | Some (out, inputs1) \<Rightarrow>
          (case midi_controller_task ps inputs1 of
             None \<Rightarrow> None
           | Some (outs, inputs2) \<Rightarrow> Some (out @ outs, inputs2)))"

text \<open>The successive cycles as one input sees them: its sample and the mount answer.\<close>

fun run_input ::
  "(int \<times> bool) list \<Rightarrow> analog_input_t \<Rightarrow> (usb_write list \<times> analog_input_t) option" where
  "run_input [] a = Some ([], a)"
| "run_input ((raw_value, mounted) # cs) a =
     (case process_input raw_value mounted a of
        None \<Rightarrow> None
      | Some (out, a1) \<Rightarrow>
          (case run_input cs a1 of
             None \<Rightarrow> None
           | Some (outs, a2) \<Rightarrow> Some (out @ outs, a2)))"

section \<open>The formulas of the specification\<close>

text \<open>
  The specification states the filter and the quantization as formulas over the real
  numbers. They are written here as it words them, in exact rational arithmetic, to be
  compared with what the program computes in binary32.
\<close>

definition ema_exact :: "int \<Rightarrow> rat \<Rightarrow> rat" where
  "ema_exact raw_value filtered = ALPHA * of_int raw_value + (1 - ALPHA) * filtered"

definition midi_exact :: "rat \<Rightarrow> int" where
  "midi_exact filtered = \<lfloor>filtered / 4095 * 127\<rfloor>"

section \<open>Invariant of the array of inputs\<close>

text \<open>
  The array keeps its three elements and their controller numbers, and every
  \<open>filtered_value\<close> stays within the range of the 12-bit samples.
\<close>

definition inputs_ok :: "analog_input_t list \<Rightarrow> bool" where
  "inputs_ok inputs \<longleftrightarrow> length inputs = 3
     \<and> (\<forall>j<3. cc_number (inputs ! j) = cc_number (analog_inputs ! j)
           \<and> 0 \<le> filtered_value (inputs ! j) \<and> filtered_value (inputs ! j) \<le> 4095)"

section \<open>Rounding to the nearest integer\<close>

lemma rhe_of_int: "round_half_even (of_int k) = k"
  by (simp add: round_half_even_def)

lemma rhe_floor_le: "\<lfloor>y\<rfloor> \<le> round_half_even y"
  by (simp add: round_half_even_def Let_def)

lemma rhe_le_floor: "round_half_even y \<le> \<lfloor>y\<rfloor> + 1"
  by (simp add: round_half_even_def Let_def)

lemma rhe_mono: "x \<le> y \<Longrightarrow> round_half_even x \<le> round_half_even y"
proof -
  assume xy: "x \<le> y"
  have fm: "\<lfloor>x\<rfloor> \<le> \<lfloor>y\<rfloor>" using xy by (rule floor_mono)
  show ?thesis
  proof (cases "\<lfloor>x\<rfloor> = \<lfloor>y\<rfloor>")
    case True
    then show ?thesis using xy by (auto simp: round_half_even_def Let_def)
  next
    case False
    then have "\<lfloor>x\<rfloor> + 1 \<le> \<lfloor>y\<rfloor>" using fm by simp
    then show ?thesis using rhe_le_floor [of x] rhe_floor_le [of y] by linarith
  qed
qed

lemma rhe_err: "\<bar>of_int (round_half_even y) - y\<bar> \<le> 1/2"
proof -
  have "of_int \<lfloor>y\<rfloor> \<le> y" "y < of_int \<lfloor>y\<rfloor> + 1" by linarith+
  then show ?thesis by (auto simp: round_half_even_def Let_def)
qed

lemma rhe_ge: "of_int k \<le> y \<Longrightarrow> k \<le> round_half_even y"
  using rhe_mono [of "of_int k" y] by (simp add: rhe_of_int)

lemma rhe_le: "y \<le> of_int k \<Longrightarrow> round_half_even y \<le> k"
  using rhe_mono [of y "of_int k"] by (simp add: rhe_of_int)

section \<open>The unit in the last place\<close>

lemma ulp_from_stop: "a < 2 ^ 24 * u \<Longrightarrow> ulp_from n u a = u"
  by (cases n) simp_all

lemma ulp_from_eq:
  "k \<le> n \<Longrightarrow> (0 < k \<longrightarrow> 2 ^ 23 * (u * 2 ^ k) \<le> a) \<Longrightarrow> (k < n \<longrightarrow> a < 2 ^ 24 * (u * 2 ^ k)) \<Longrightarrow> 0 < u
   \<Longrightarrow> ulp_from n u a = u * 2 ^ k"
proof (induction k arbitrary: n u)
  case 0
  then show ?case by (cases n) simp_all
next
  case (Suc k)
  then obtain m where n: "n = Suc m" by (cases n) auto
  have "2 ^ 24 * u \<le> 2 ^ 23 * (u * 2 ^ Suc k)" using Suc.prems(4) by simp
  then have ge: "\<not> a < 2 ^ 24 * u" using Suc.prems(2) by simp
  have "ulp_from m (2 * u) a = (2 * u) * 2 ^ k"
  proof (rule Suc.IH)
    show "k \<le> m" using Suc.prems(1) n by simp
    show "0 < k \<longrightarrow> 2 ^ 23 * (2 * u * 2 ^ k) \<le> a" using Suc.prems(2) by (simp add: mult_ac)
    show "k < m \<longrightarrow> a < 2 ^ 24 * (2 * u * 2 ^ k)" using Suc.prems(3) n by (simp add: mult_ac)
    show "0 < 2 * u" using Suc.prems(4) by simp
  qed
  then show ?case using ge n by (simp add: mult_ac)
qed

lemma ulp_from_char:
  "0 < u \<Longrightarrow> \<exists>k\<le>n. ulp_from n u a = u * 2 ^ k \<and> (0 < k \<longrightarrow> 2 ^ 23 * (u * 2 ^ k) \<le> a) \<and> (k < n \<longrightarrow> a < 2 ^ 24 * (u * 2 ^ k))"
proof (induction n arbitrary: u)
  case 0
  then show ?case by simp
next
  case (Suc n)
  show ?case
  proof (cases "a < 2 ^ 24 * u")
    case True
    then show ?thesis by (intro exI [of _ 0]) simp
  next
    case False
    from Suc.IH [of "2 * u"] Suc.prems obtain k where k: "k \<le> n" "ulp_from n (2 * u) a = 2 * u * 2 ^ k"
      "0 < k \<longrightarrow> 2 ^ 23 * (2 * u * 2 ^ k) \<le> a" "k < n \<longrightarrow> a < 2 ^ 24 * (2 * u * 2 ^ k)" by auto
    have "2 ^ 23 * (u * 2 ^ Suc k) \<le> a"
    proof (cases k)
      case 0
      then show ?thesis using False by simp
    next
      case (Suc j)
      then show ?thesis using k(3) by (simp add: mult_ac)
    qed
    then show ?thesis using k False by (intro exI [of _ "Suc k"]) (simp add: mult_ac)
  qed
qed



lemma ulp_min_pos: "0 < ulp_min"
  by (simp add: ulp_min_def)

lemma ulp32_char:
  obtains k where "k \<le> 253" and "ulp32 x = ulp_min * 2 ^ k"
    and "0 < k \<longrightarrow> 2 ^ 23 * ulp32 x \<le> \<bar>x\<bar>" and "k < 253 \<longrightarrow> \<bar>x\<bar> < 2 ^ 24 * ulp32 x"
proof -
  have "\<exists>k\<le>253. ulp_from 253 ulp_min \<bar>x\<bar> = ulp_min * 2 ^ k
      \<and> (0 < k \<longrightarrow> 2 ^ 23 * (ulp_min * 2 ^ k) \<le> \<bar>x\<bar>)
      \<and> (k < 253 \<longrightarrow> \<bar>x\<bar> < 2 ^ 24 * (ulp_min * 2 ^ k))"
    using ulp_min_pos by (rule ulp_from_char)
  then obtain k where kk: "k \<le> 253 \<and> ulp_from 253 ulp_min \<bar>x\<bar> = ulp_min * 2 ^ k
      \<and> (0 < k \<longrightarrow> 2 ^ 23 * (ulp_min * 2 ^ k) \<le> \<bar>x\<bar>)
      \<and> (k < 253 \<longrightarrow> \<bar>x\<bar> < 2 ^ 24 * (ulp_min * 2 ^ k))" ..
  note k = conjunct1 [OF kk] conjunct1 [OF conjunct2 [OF kk]]
    conjunct1 [OF conjunct2 [OF conjunct2 [OF kk]]] conjunct2 [OF conjunct2 [OF conjunct2 [OF kk]]]
  have e: "ulp32 x = ulp_min * 2 ^ k" unfolding ulp32_def by (rule k(2))
  show ?thesis
  proof (rule that [of k])
    show "k \<le> 253" by (rule k(1))
    show "ulp32 x = ulp_min * 2 ^ k" by (rule e)
    show "0 < k \<longrightarrow> 2 ^ 23 * ulp32 x \<le> \<bar>x\<bar>" unfolding e by (rule k(3))
    show "k < 253 \<longrightarrow> \<bar>x\<bar> < 2 ^ 24 * ulp32 x" unfolding e by (rule k(4))
  qed
qed

lemma ulp32_eq:
  assumes "k \<le> 253" and "0 < k \<longrightarrow> 2 ^ 23 * (ulp_min * 2 ^ k) \<le> \<bar>x\<bar>"
    and "k < 253 \<longrightarrow> \<bar>x\<bar> < 2 ^ 24 * (ulp_min * 2 ^ k)"
  shows "ulp32 x = ulp_min * 2 ^ k"
  unfolding ulp32_def using assms ulp_min_pos by (intro ulp_from_eq)

lemma ulp32_pos: "0 < ulp32 x"
proof (rule ulp32_char [of x])
  fix k assume "ulp32 x = ulp_min * 2 ^ k"
  then show ?thesis using ulp_min_pos by simp
qed

lemma ulp32_ratio:
  assumes "\<bar>x\<bar> \<le> \<bar>y\<bar>"
  obtains d where "ulp32 y = ulp32 x * 2 ^ d"
proof -
  obtain j where j: "j \<le> 253" "ulp32 x = ulp_min * 2 ^ j"
    "0 < j \<longrightarrow> 2 ^ 23 * ulp32 x \<le> \<bar>x\<bar>" "j < 253 \<longrightarrow> \<bar>x\<bar> < 2 ^ 24 * ulp32 x"
    by (rule ulp32_char)
  obtain k where k: "k \<le> 253" "ulp32 y = ulp_min * 2 ^ k"
    "0 < k \<longrightarrow> 2 ^ 23 * ulp32 y \<le> \<bar>y\<bar>" "k < 253 \<longrightarrow> \<bar>y\<bar> < 2 ^ 24 * ulp32 y"
    by (rule ulp32_char)
  have "j \<le> k"
  proof (rule ccontr)
    assume "\<not> j \<le> k"
    then have lt: "k < j" by simp
    then have "Suc k \<le> j" by simp
    then have "(2::rat) ^ Suc k \<le> 2 ^ j" by (rule power_increasing) simp
    then have "ulp_min * 2 ^ Suc k \<le> ulp_min * 2 ^ j"
      using ulp_min_pos by (intro mult_left_mono) simp_all
    then have "2 * ulp32 y \<le> ulp32 x" unfolding j(2) k(2) by simp
    then have "2 ^ 24 * ulp32 y \<le> 2 ^ 23 * ulp32 x" by simp
    moreover have "\<bar>y\<bar> < 2 ^ 24 * ulp32 y" using k(4) lt j(1) by simp
    moreover have "2 ^ 23 * ulp32 x \<le> \<bar>x\<bar>" using j(3) lt by simp
    ultimately show False using assms by linarith
  qed
  then have "(2::rat) ^ k = 2 ^ j * 2 ^ (k - j)" by (simp flip: power_add)
  then have "ulp32 y = ulp32 x * 2 ^ (k - j)" unfolding j(2) k(2) by simp
  then show ?thesis by (rule that)
qed

lemma ulp32_mono: "\<bar>x\<bar> \<le> \<bar>y\<bar> \<Longrightarrow> ulp32 x \<le> ulp32 y"
proof -
  assume "\<bar>x\<bar> \<le> \<bar>y\<bar>"
  then obtain d where d: "ulp32 y = ulp32 x * 2 ^ d" by (rule ulp32_ratio)
  have "(1::rat) \<le> 2 ^ d" by simp
  then have "ulp32 x * 1 \<le> ulp32 x * 2 ^ d"
    using ulp32_pos [of x] by (intro mult_left_mono) simp_all
  then show ?thesis using d by simp
qed

lemma ulp32_le:
  assumes "k \<le> 253" and "\<bar>x\<bar> < 2 ^ 24 * (ulp_min * 2 ^ k)"
  shows "ulp32 x \<le> ulp_min * 2 ^ k"
proof -
  obtain j where j: "j \<le> 253" "ulp32 x = ulp_min * 2 ^ j"
    "0 < j \<longrightarrow> 2 ^ 23 * ulp32 x \<le> \<bar>x\<bar>" "j < 253 \<longrightarrow> \<bar>x\<bar> < 2 ^ 24 * ulp32 x"
    by (rule ulp32_char)
  have "j \<le> k"
  proof (rule ccontr)
    assume "\<not> j \<le> k"
    then have sk: "Suc k \<le> j" by simp
    then have "(2::rat) ^ Suc k \<le> 2 ^ j" by (rule power_increasing) simp
    then have "ulp_min * 2 ^ Suc k \<le> ulp_min * 2 ^ j"
      using ulp_min_pos by (intro mult_left_mono) simp_all
    then have "2 * (ulp_min * 2 ^ k) \<le> ulp32 x" unfolding j(2) by simp
    then have "2 ^ 24 * (ulp_min * 2 ^ k) \<le> 2 ^ 23 * ulp32 x" by simp
    moreover have "2 ^ 23 * ulp32 x \<le> \<bar>x\<bar>" using j(3) sk by simp
    ultimately show False using assms(2) by linarith
  qed
  then have "(2::rat) ^ j \<le> 2 ^ k" by (intro power_increasing) simp_all
  then have "ulp_min * 2 ^ j \<le> ulp_min * 2 ^ k"
    using ulp_min_pos by (intro mult_left_mono) simp_all
  then show ?thesis unfolding j(2) .
qed

section \<open>Properties of binary32 rounding\<close>

lemma f32_nonneg: "0 \<le> x \<Longrightarrow> 0 \<le> f32 x"
proof -
  assume "0 \<le> x"
  then have "of_int 0 \<le> x / ulp32 x" using ulp32_pos [of x] by simp
  then have "0 \<le> round_half_even (x / ulp32 x)" by (rule rhe_ge)
  then show ?thesis using ulp32_pos [of x] by (simp add: f32_def)
qed

lemma f32_err: "\<bar>f32 x - x\<bar> \<le> ulp32 x / 2"
proof -
  let ?u = "ulp32 x"
  have u: "0 < ?u" by (rule ulp32_pos)
  have "f32 x - x = ?u * (of_int (round_half_even (x / ?u)) - x / ?u)"
    using u by (simp add: f32_def algebra_simps)
  then have "\<bar>f32 x - x\<bar> = ?u * \<bar>of_int (round_half_even (x / ?u)) - x / ?u\<bar>"
    using u by (simp add: abs_mult)
  also have "\<dots> \<le> ?u * (1/2)"
    using u rhe_err [of "x / ?u"] by (intro mult_left_mono) simp_all
  finally show ?thesis by simp
qed

lemma f32_of_multiple: "x / ulp32 x = of_int m \<Longrightarrow> f32 x = x"
proof -
  assume h: "x / ulp32 x = of_int m"
  have u: "ulp32 x \<noteq> 0" using ulp32_pos [of x] by simp
  have "f32 x = ulp32 x * of_int m" by (simp add: f32_def h rhe_of_int)
  also have "\<dots> = ulp32 x * (x / ulp32 x)" by (simp only: h)
  also have "\<dots> = x" using u by simp
  finally show ?thesis .
qed

lemma f32_le:
  assumes "x \<le> c" and "\<bar>x\<bar> \<le> \<bar>c\<bar>" and "f32 c = c"
  shows "f32 x \<le> c"
proof -
  let ?u = "ulp32 x"
  have u: "0 < ?u" by (rule ulp32_pos)
  obtain d where d: "ulp32 c = ?u * 2 ^ d" using assms(2) by (rule ulp32_ratio)
  define r where "r = round_half_even (c / ulp32 c)"
  define m where "m = r * 2 ^ d"
  have "ulp32 c * of_int r = c" using assms(3) unfolding f32_def r_def .
  then have "?u * 2 ^ d * of_int r = c" unfolding d .
  then have c: "?u * of_int m = c" by (simp add: m_def mult_ac)
  have "?u * of_int m / ?u = of_int m" using u by simp
  then have "c / ?u = of_int m" unfolding c .
  moreover have "x / ?u \<le> c / ?u" using assms(1) u by (simp add: divide_right_mono)
  ultimately have "x / ?u \<le> of_int m" by simp
  then have "round_half_even (x / ?u) \<le> m" by (rule rhe_le)
  then have "?u * of_int (round_half_even (x / ?u)) \<le> ?u * of_int m" using u by simp
  then show ?thesis unfolding c f32_def .
qed



lemma ulp32_index_le:
  assumes "n \<le> 253" and "\<bar>x\<bar> < 2 ^ 24 * (ulp_min * 2 ^ n)"
  obtains k where "k \<le> n" and "ulp32 x = ulp_min * 2 ^ k"
proof -
  obtain j where j: "j \<le> 253" "ulp32 x = ulp_min * 2 ^ j"
    "0 < j \<longrightarrow> 2 ^ 23 * ulp32 x \<le> \<bar>x\<bar>" "j < 253 \<longrightarrow> \<bar>x\<bar> < 2 ^ 24 * ulp32 x"
    by (rule ulp32_char)
  have "j \<le> n"
  proof (rule ccontr)
    assume "\<not> j \<le> n"
    then have sk: "Suc n \<le> j" by simp
    then have "(2::rat) ^ Suc n \<le> 2 ^ j" by (rule power_increasing) simp
    then have "ulp_min * 2 ^ Suc n \<le> ulp_min * 2 ^ j"
      using ulp_min_pos by (intro mult_left_mono) simp_all
    then have "2 * (ulp_min * 2 ^ n) \<le> ulp32 x" unfolding j(2) by simp
    then have "2 ^ 24 * (ulp_min * 2 ^ n) \<le> 2 ^ 23 * ulp32 x" by simp
    moreover have "2 ^ 23 * ulp32 x \<le> \<bar>x\<bar>" using j(3) sk by simp
    ultimately show False using assms(2) by linarith
  qed
  then show ?thesis using j(2) by (rule that)
qed

lemma f32_fix_multiple:
  assumes "\<bar>c\<bar> \<le> \<bar>x\<bar>" and "c = ulp32 x * of_int m"
  shows "f32 c = c"
proof -
  obtain d where d: "ulp32 x = ulp32 c * 2 ^ d" using assms(1) by (rule ulp32_ratio)
  have u: "ulp32 c \<noteq> 0" using ulp32_pos [of c] by simp
  have "c / ulp32 c = ulp32 c * 2 ^ d * of_int m / ulp32 c"
    using assms(2) unfolding d by (rule arg_cong)
  also have "\<dots> = of_int (2 ^ d * m)" using u by simp
  finally show ?thesis by (rule f32_of_multiple)
qed

lemma f32_ge:
  assumes "c \<le> x" and "0 \<le> c" and "f32 c = c"
  shows "c \<le> f32 x"
proof -
  let ?u = "ulp32 x"
  have u: "0 < ?u" by (rule ulp32_pos)
  have uc: "0 < ulp32 c" by (rule ulp32_pos)
  have x0: "0 \<le> x" using assms by simp
  have "\<bar>c\<bar> \<le> \<bar>x\<bar>" using assms by simp
  then obtain d where d: "?u = ulp32 c * 2 ^ d" by (rule ulp32_ratio)
  define r where "r = round_half_even (c / ulp32 c)"
  have cr: "ulp32 c * of_int r = c" using assms(3) unfolding f32_def r_def .
  show ?thesis
  proof (cases d)
    case 0
    then have same: "?u = ulp32 c" using d by simp
    have "ulp32 c * of_int r / ulp32 c = of_int r" using uc by simp
    then have "c / ?u = of_int r" unfolding cr same .
    moreover have "c / ?u \<le> x / ?u" using assms(1) u by (simp add: divide_right_mono)
    ultimately have "of_int r \<le> x / ?u" by simp
    then have "r \<le> round_half_even (x / ?u)" by (rule rhe_ge)
    then have "?u * of_int r \<le> ?u * of_int (round_half_even (x / ?u))" using u by simp
    then show ?thesis unfolding f32_def using cr same by simp
  next
    case (Suc e)
    have two: "2 * ulp32 c \<le> ?u"
    proof -
      have "(2::rat) ^ 1 \<le> 2 ^ d" using Suc by (intro power_increasing) simp_all
      then have "ulp32 c * 2 ^ 1 \<le> ulp32 c * 2 ^ d" using uc by (intro mult_left_mono) simp_all
      then show ?thesis unfolding d by simp
    qed
    obtain j where j: "j \<le> 253" "ulp32 c = ulp_min * 2 ^ j"
      "0 < j \<longrightarrow> 2 ^ 23 * ulp32 c \<le> \<bar>c\<bar>" "j < 253 \<longrightarrow> \<bar>c\<bar> < 2 ^ 24 * ulp32 c"
      by (rule ulp32_char)
    obtain k where k: "k \<le> 253" "?u = ulp_min * 2 ^ k"
      "0 < k \<longrightarrow> 2 ^ 23 * ?u \<le> \<bar>x\<bar>" "k < 253 \<longrightarrow> \<bar>x\<bar> < 2 ^ 24 * ?u"
      by (rule ulp32_char)
    have jk: "j < k"
    proof (rule ccontr)
      assume "\<not> j < k"
      then have "k \<le> j" by simp
      then have "(2::rat) ^ k \<le> 2 ^ j" by (intro power_increasing) simp_all
      then have "ulp_min * 2 ^ k \<le> ulp_min * 2 ^ j"
        using ulp_min_pos by (intro mult_left_mono) simp_all
      then have "?u \<le> ulp32 c" unfolding j(2) k(2) .
      then show False using two uc by linarith
    qed
    have "2 ^ 23 * ?u \<le> x" using k(3) jk x0 by simp
    then have "of_int (2 ^ 23) \<le> x / ?u" using u by (simp add: le_divide_eq)
    then have "2 ^ 23 \<le> round_half_even (x / ?u)" by (rule rhe_ge)
    then have "(2 ^ 23 :: rat) \<le> of_int (round_half_even (x / ?u))"
      by (metis of_int_le_iff of_int_numeral of_int_power)
    then have "?u * 2 ^ 23 \<le> ?u * of_int (round_half_even (x / ?u))" using u by (intro mult_left_mono) simp_all
    then have "2 ^ 23 * ?u \<le> f32 x" unfolding f32_def by (simp add: mult_ac)
    moreover have "2 ^ 24 * ulp32 c \<le> 2 ^ 23 * ?u" using two by simp
    moreover have "c < 2 ^ 24 * ulp32 c" using j(4) jk k(1) assms(2) by simp
    ultimately show ?thesis by (meson less_le_trans less_imp_le order_trans)
  qed
qed

lemma f32_grid: "\<exists>m::int. f32 x = ulp_min * of_int m"
proof -
  obtain k where k: "ulp32 x = ulp_min * 2 ^ k" by (rule ulp32_char)
  have "f32 x = ulp_min * of_int (2 ^ k * round_half_even (x / ulp32 x))"
    unfolding f32_def k by simp
  then show ?thesis ..
qed

lemma f32_eval:
  assumes "k \<le> 253" and "2 ^ 23 * (ulp_min * 2 ^ k) \<le> \<bar>x\<bar>"
    and "\<bar>x\<bar> < 2 ^ 24 * (ulp_min * 2 ^ k)"
  shows "f32 x = ulp_min * 2 ^ k * of_int (round_half_even (x / (ulp_min * 2 ^ k)))"
proof -
  have "ulp32 x = ulp_min * 2 ^ k" using assms by (intro ulp32_eq) simp_all
  then show ?thesis unfolding f32_def by simp
qed

lemma f32_0: "f32 0 = 0"
  by (simp add: f32_def round_half_even_def)


section \<open>Evaluating binary32 rounding in a known binade\<close>

lemma f32_binade_m8:
  "1 / 256 \<le> \<bar>x\<bar> \<Longrightarrow> \<bar>x\<bar> < 1 / 128 \<Longrightarrow> f32 x = of_int (round_half_even (x * 2147483648)) / 2147483648"
  using f32_eval [of 118 x] by (simp add: ulp_min_def)

lemma f32_binade_m7:
  "1 / 128 \<le> \<bar>x\<bar> \<Longrightarrow> \<bar>x\<bar> < 1 / 64 \<Longrightarrow> f32 x = of_int (round_half_even (x * 1073741824)) / 1073741824"
  using f32_eval [of 119 x] by (simp add: ulp_min_def)

lemma f32_binade_m6:
  "1 / 64 \<le> \<bar>x\<bar> \<Longrightarrow> \<bar>x\<bar> < 1 / 32 \<Longrightarrow> f32 x = of_int (round_half_even (x * 536870912)) / 536870912"
  using f32_eval [of 120 x] by (simp add: ulp_min_def)

lemma f32_binade_m5:
  "1 / 32 \<le> \<bar>x\<bar> \<Longrightarrow> \<bar>x\<bar> < 1 / 16 \<Longrightarrow> f32 x = of_int (round_half_even (x * 268435456)) / 268435456"
  using f32_eval [of 121 x] by (simp add: ulp_min_def)

lemma f32_binade_m4:
  "1 / 16 \<le> \<bar>x\<bar> \<Longrightarrow> \<bar>x\<bar> < 1 / 8 \<Longrightarrow> f32 x = of_int (round_half_even (x * 134217728)) / 134217728"
  using f32_eval [of 122 x] by (simp add: ulp_min_def)

lemma f32_binade_m3:
  "1 / 8 \<le> \<bar>x\<bar> \<Longrightarrow> \<bar>x\<bar> < 1 / 4 \<Longrightarrow> f32 x = of_int (round_half_even (x * 67108864)) / 67108864"
  using f32_eval [of 123 x] by (simp add: ulp_min_def)

lemma f32_binade_m2:
  "1 / 4 \<le> \<bar>x\<bar> \<Longrightarrow> \<bar>x\<bar> < 1 / 2 \<Longrightarrow> f32 x = of_int (round_half_even (x * 33554432)) / 33554432"
  using f32_eval [of 124 x] by (simp add: ulp_min_def)

lemma f32_binade_m1:
  "1 / 2 \<le> \<bar>x\<bar> \<Longrightarrow> \<bar>x\<bar> < 1 \<Longrightarrow> f32 x = of_int (round_half_even (x * 16777216)) / 16777216"
  using f32_eval [of 125 x] by (simp add: ulp_min_def)

lemma f32_binade_0:
  "1 \<le> \<bar>x\<bar> \<Longrightarrow> \<bar>x\<bar> < 2 \<Longrightarrow> f32 x = of_int (round_half_even (x * 8388608)) / 8388608"
  using f32_eval [of 126 x] by (simp add: ulp_min_def)

lemma f32_binade_1:
  "2 \<le> \<bar>x\<bar> \<Longrightarrow> \<bar>x\<bar> < 4 \<Longrightarrow> f32 x = of_int (round_half_even (x * 4194304)) / 4194304"
  using f32_eval [of 127 x] by (simp add: ulp_min_def)

lemma f32_binade_2:
  "4 \<le> \<bar>x\<bar> \<Longrightarrow> \<bar>x\<bar> < 8 \<Longrightarrow> f32 x = of_int (round_half_even (x * 2097152)) / 2097152"
  using f32_eval [of 128 x] by (simp add: ulp_min_def)

lemma f32_binade_3:
  "8 \<le> \<bar>x\<bar> \<Longrightarrow> \<bar>x\<bar> < 16 \<Longrightarrow> f32 x = of_int (round_half_even (x * 1048576)) / 1048576"
  using f32_eval [of 129 x] by (simp add: ulp_min_def)

lemma f32_binade_4:
  "16 \<le> \<bar>x\<bar> \<Longrightarrow> \<bar>x\<bar> < 32 \<Longrightarrow> f32 x = of_int (round_half_even (x * 524288)) / 524288"
  using f32_eval [of 130 x] by (simp add: ulp_min_def)

lemma f32_binade_5:
  "32 \<le> \<bar>x\<bar> \<Longrightarrow> \<bar>x\<bar> < 64 \<Longrightarrow> f32 x = of_int (round_half_even (x * 262144)) / 262144"
  using f32_eval [of 131 x] by (simp add: ulp_min_def)

lemma f32_binade_6:
  "64 \<le> \<bar>x\<bar> \<Longrightarrow> \<bar>x\<bar> < 128 \<Longrightarrow> f32 x = of_int (round_half_even (x * 131072)) / 131072"
  using f32_eval [of 132 x] by (simp add: ulp_min_def)

lemma f32_binade_7:
  "128 \<le> \<bar>x\<bar> \<Longrightarrow> \<bar>x\<bar> < 256 \<Longrightarrow> f32 x = of_int (round_half_even (x * 65536)) / 65536"
  using f32_eval [of 133 x] by (simp add: ulp_min_def)

lemma f32_binade_8:
  "256 \<le> \<bar>x\<bar> \<Longrightarrow> \<bar>x\<bar> < 512 \<Longrightarrow> f32 x = of_int (round_half_even (x * 32768)) / 32768"
  using f32_eval [of 134 x] by (simp add: ulp_min_def)

lemma f32_binade_9:
  "512 \<le> \<bar>x\<bar> \<Longrightarrow> \<bar>x\<bar> < 1024 \<Longrightarrow> f32 x = of_int (round_half_even (x * 16384)) / 16384"
  using f32_eval [of 135 x] by (simp add: ulp_min_def)

lemma f32_binade_10:
  "1024 \<le> \<bar>x\<bar> \<Longrightarrow> \<bar>x\<bar> < 2048 \<Longrightarrow> f32 x = of_int (round_half_even (x * 8192)) / 8192"
  using f32_eval [of 136 x] by (simp add: ulp_min_def)

lemma f32_binade_11:
  "2048 \<le> \<bar>x\<bar> \<Longrightarrow> \<bar>x\<bar> < 4096 \<Longrightarrow> f32 x = of_int (round_half_even (x * 4096)) / 4096"
  using f32_eval [of 137 x] by (simp add: ulp_min_def)

lemma f32_binade_12:
  "4096 \<le> \<bar>x\<bar> \<Longrightarrow> \<bar>x\<bar> < 8192 \<Longrightarrow> f32 x = of_int (round_half_even (x * 2048)) / 2048"
  using f32_eval [of 138 x] by (simp add: ulp_min_def)

lemmas f32_binades = f32_binade_m8 f32_binade_m7 f32_binade_m6 f32_binade_m5 f32_binade_m4 f32_binade_m3 f32_binade_m2 f32_binade_m1 f32_binade_0 f32_binade_1 f32_binade_2 f32_binade_3 f32_binade_4 f32_binade_5 f32_binade_6 f32_binade_7 f32_binade_8 f32_binade_9 f32_binade_10 f32_binade_11 f32_binade_12

lemmas f32_ops = f32_add_def f32_sub_def f32_mul_def f32_div_def f32_of_int_def



lemma floor_rat_numeral: "\<lfloor>numeral a / numeral b :: rat\<rfloor> = numeral a div numeral b"
  using floor_divide_of_int_eq [of "numeral a" "numeral b", where ?'a = rat] by simp

lemmas f32_evals = f32_ops f32_binades f32_0 round_half_even_def floor_rat_numeral

text \<open>
  Three values every binary32 implementation agrees on: the constant \<open>0.1f\<close>, whose bit
  pattern is \<open>0x3DCCCCCD\<close>, and the two ties next to \<open>2^24\<close>, which go to the even
  significand.
\<close>

lemma f32_one_tenth: "f32 (1 / 10) = 13421773 / 134217728"
  by (simp add: f32_evals)

lemma f32_tie_down: "f32 16777217 = 16777216"
  using f32_eval [of 150 16777217] by (simp add: ulp_min_def round_half_even_def floor_rat_numeral)

lemma f32_tie_up: "f32 16777219 = 16777220"
  using f32_eval [of 150 16777219] by (simp add: ulp_min_def round_half_even_def floor_rat_numeral)

section \<open>The loop body\<close>

lemma process_input_Some:
  assumes "process_input raw_value mounted a = Some (out, a')"
  shows "\<exists>q. midi_of (ema raw_value (filtered_value a)) = Some q
    \<and> a' = a\<lparr>filtered_value := ema raw_value (filtered_value a), last_midi_value := q\<rparr>
    \<and> out = (if q \<noteq> last_midi_value a then send_midi_cc mounted (cc_number a) q else [])"
proof (cases "midi_of (ema raw_value (filtered_value a))")
  case None
  then show ?thesis using assms by (simp add: process_input_def)
next
  case (Some q)
  then show ?thesis using assms by (auto simp: process_input_def)
qed

lemma process_input_eq:
  assumes "midi_of (ema raw_value (filtered_value a)) = Some q"
  shows "process_input raw_value mounted a =
    Some (if q \<noteq> last_midi_value a then send_midi_cc mounted (cc_number a) q else [],
          a\<lparr>filtered_value := ema raw_value (filtered_value a), last_midi_value := q\<rparr>)"
  using assms by (simp add: process_input_def)

lemma process_input_fields:
  assumes "process_input raw_value mounted a = Some (out, a')"
  shows "filtered_value a' = ema raw_value (filtered_value a)"
    and "midi_of (filtered_value a') = Some (last_midi_value a')"
    and "channel a' = channel a" and "cc_number a' = cc_number a"
    and "out = (if last_midi_value a' \<noteq> last_midi_value a
                then send_midi_cc mounted (cc_number a) (last_midi_value a') else [])"
  using process_input_Some [OF assms] by auto

lemma send_midi_cc_length: "length (send_midi_cc mounted cc v) \<le> 1"
  by (simp add: send_midi_cc_def)

section \<open>Claims on the loop body\<close>

text \<open>
  C8. Processing one channel of the array changes that element only: for distinct
  channels A and B among the three, updating A with any sample leaves the
  \<open>filtered_value\<close> and the \<open>last_midi_value\<close> of B (its whole record) as they were,
  and of A's record the ADC channel and the controller number stay fixed, so that only
  its \<open>filtered_value\<close> and \<open>last_midi_value\<close> can change.
\<close>

theorem channel_independence:
  assumes "process_channel p i inputs = Some (out, inputs')"
    and "length inputs = 3" and "i < 3" and "j < 3" and "j \<noteq> i"
  shows "filtered_value (inputs' ! j) = filtered_value (inputs ! j)
    \<and> last_midi_value (inputs' ! j) = last_midi_value (inputs ! j)
    \<and> inputs' ! j = inputs ! j
    \<and> length inputs' = 3
    \<and> channel (inputs' ! i) = channel (inputs ! i)
    \<and> cc_number (inputs' ! i) = cc_number (inputs ! i)"
proof -
  from assms(1) obtain a where
    a: "process_input (adc1_get_raw p (channel (inputs ! i))) (tud_midi_mounted p i) (inputs ! i) = Some (out, a)"
    and inputs': "inputs' = inputs[i := a]"
    by (auto simp: process_channel_def split: option.splits)
  have "inputs' ! j = inputs ! j" using inputs' assms(5) by simp
  moreover have "inputs' ! i = a" using inputs' assms(2,3) by simp
  moreover have "length inputs' = 3" using inputs' assms(2) by simp
  ultimately show ?thesis using process_input_fields(3,4) [OF a] by simp
qed

theorem channel_independence_witness:
  "process_channel \<lparr>adc1_get_raw = (\<lambda>c. 4095), tud_midi_mounted = (\<lambda>i. True)\<rparr> 0 analog_inputs
     = Some ([(0, [0xB0, 1, 31])],
         analog_inputs[0 := \<lparr>channel = 9, filtered_value = 4095 / 4, last_midi_value = 31, cc_number = 1\<rparr>])
   \<and> length analog_inputs = 3 \<and> (0::nat) < 3 \<and> (1::nat) < 3 \<and> (1::nat) \<noteq> 0
   \<and> filtered_value ((analog_inputs[0 := \<lparr>channel = 9, filtered_value = 4095 / 4, last_midi_value = 31, cc_number = 1\<rparr>]) ! 1)
       = filtered_value (analog_inputs ! 1)
   \<and> last_midi_value ((analog_inputs[0 := \<lparr>channel = 9, filtered_value = 4095 / 4, last_midi_value = 31, cc_number = 1\<rparr>]) ! 1)
       = last_midi_value (analog_inputs ! 1)"
proof -
  have e: "ema 4095 0 = 4095 / 4" by (simp add: ema_def ALPHA_def f32_evals)
  have m: "midi_of (4095 / 4) = Some 31" by (simp add: midi_of_def u8_of_f32_def f32_evals)
  have h: "process_channel \<lparr>adc1_get_raw = (\<lambda>c. 4095), tud_midi_mounted = (\<lambda>i. True)\<rparr> 0 analog_inputs
     = Some ([(0, [0xB0, 1, 31])],
         analog_inputs[0 := \<lparr>channel = 9, filtered_value = 4095 / 4, last_midi_value = 31, cc_number = 1\<rparr>])"
    by (simp add: process_channel_def process_input_def analog_inputs_def e m send_midi_cc_def
        CC_MESSAGE_def MIDI_CC_CHANNEL_def MIDI_CC1_def ADC_CHANNEL1_def)
  have l: "length analog_inputs = 3" by (simp add: analog_inputs_def)
  show ?thesis using h l channel_independence [OF h l, of 1] by simp
qed

lemma ema_4095_0: "ema 4095 0 = 4095 / 4"
  by (simp add: ema_def ALPHA_def f32_evals)

lemma midi_of_1023_75: "midi_of (4095 / 4) = Some 31"
  by (simp add: midi_of_def u8_of_f32_def f32_evals)

lemma ema_1024: "ema 1024 (4095 / 4) = 16381 / 16"
  by (simp add: ema_def ALPHA_def f32_evals)

lemma midi_of_1023_8125: "midi_of (16381 / 16) = Some 31"
  by (simp add: midi_of_def u8_of_f32_def f32_evals)

lemmas consts_defs = CC_MESSAGE_def MIDI_CC_CHANNEL_def MIDI_CC1_def MIDI_CC2_def MIDI_CC3_def
  ADC_CHANNEL1_def ADC_CHANNEL2_def ADC_CHANNEL3_def

lemma cold_4095_mounted:
  "process_input 4095 True (analog_inputs ! 0) =
     Some ([(0, [0xB0, 1, 31])],
           \<lparr>channel = 9, filtered_value = 4095 / 4, last_midi_value = 31, cc_number = 1\<rparr>)"
  by (simp add: process_input_def analog_inputs_def ema_4095_0 midi_of_1023_75 send_midi_cc_def consts_defs)

lemma cold_4095_unmounted:
  "process_input 4095 False (analog_inputs ! 0) =
     Some ([], \<lparr>channel = 9, filtered_value = 4095 / 4, last_midi_value = 31, cc_number = 1\<rparr>)"
  by (simp add: process_input_def analog_inputs_def ema_4095_0 midi_of_1023_75 send_midi_cc_def consts_defs)

lemma second_1024:
  "process_input 1024 True \<lparr>channel = 9, filtered_value = 4095 / 4, last_midi_value = 31, cc_number = 1\<rparr> =
     Some ([], \<lparr>channel = 9, filtered_value = 16381 / 16, last_midi_value = 31, cc_number = 1\<rparr>)"
  by (simp add: process_input_def ema_1024 midi_of_1023_8125 send_midi_cc_def consts_defs)

text \<open>
  C4. A message is handed to the USB stack only in a cycle whose newly quantized value
  differs from the channel's \<open>last_midi_value\<close>; and when two consecutive cycles
  produce the same quantized value, the second hands over nothing, so that at most one
  message is emitted across the two.
\<close>

theorem change_gating:
  assumes "process_input r1 m1 a = Some (o1, a1)"
    and "process_input r2 m2 a1 = Some (o2, a2)"
  shows "(o1 \<noteq> [] \<longrightarrow> midi_of (filtered_value a1) \<noteq> Some (last_midi_value a))
    \<and> (o2 \<noteq> [] \<longrightarrow> midi_of (filtered_value a2) \<noteq> Some (last_midi_value a1))
    \<and> (midi_of (filtered_value a2) = midi_of (filtered_value a1) \<longrightarrow> o2 = [] \<and> length (o1 @ o2) \<le> 1)"
proof -
  note f1 = process_input_fields [OF assms(1)]
  note f2 = process_input_fields [OF assms(2)]
  have "o1 \<noteq> [] \<longrightarrow> midi_of (filtered_value a1) \<noteq> Some (last_midi_value a)"
    using f1(2,5) by (auto split: if_splits)
  moreover have "o2 \<noteq> [] \<longrightarrow> midi_of (filtered_value a2) \<noteq> Some (last_midi_value a1)"
    using f2(2,5) by (auto split: if_splits)
  moreover have "length o1 \<le> 1" using f1(5) send_midi_cc_length by simp
  moreover have "midi_of (filtered_value a2) = midi_of (filtered_value a1) \<longrightarrow> o2 = []"
    using f1(2) f2(2,5) by (auto split: if_splits)
  ultimately show ?thesis by auto
qed

theorem change_gating_witness:
  "process_input 4095 True (analog_inputs ! 0) =
     Some ([(0, [0xB0, 1, 31])],
           \<lparr>channel = 9, filtered_value = 4095 / 4, last_midi_value = 31, cc_number = 1\<rparr>)
   \<and> process_input 1024 True \<lparr>channel = 9, filtered_value = 4095 / 4, last_midi_value = 31, cc_number = 1\<rparr> =
     Some ([], \<lparr>channel = 9, filtered_value = 16381 / 16, last_midi_value = 31, cc_number = 1\<rparr>)
   \<and> midi_of (16381 / 16) = midi_of (4095 / 4)
   \<and> midi_of (4095 / 4) \<noteq> Some (last_midi_value (analog_inputs ! 0))
   \<and> length ([(0, [0xB0, 1, 31])] @ ([] :: usb_write list)) \<le> 1"
  using change_gating [OF cold_4095_mounted second_1024]
    cold_4095_mounted second_1024 midi_of_1023_8125 midi_of_1023_75
  by (simp add: analog_inputs_def)

text \<open>
  C1, as stated, fails: a cycle in which the quantized value has changed while the USB
  stack reports not mounted emits nothing but does store the new value in
  \<open>last_midi_value\<close>; a later mounted cycle with the same quantized value then sees
  no change and sends nothing. From the initial state, the sample 4095 read while not
  mounted sets \<open>last_midi_value\<close> to 31, and the sample 1024 read next while mounted
  quantizes to 31 again and is not sent.
\<close>

theorem unmounted_updates_last_counterexample:
  "process_input 4095 False (analog_inputs ! 0) =
     Some ([], \<lparr>channel = 9, filtered_value = 4095 / 4, last_midi_value = 31, cc_number = 1\<rparr>)
   \<and> last_midi_value (analog_inputs ! 0) = 0
   \<and> midi_of (4095 / 4) = Some 31
   \<and> process_input 1024 True \<lparr>channel = 9, filtered_value = 4095 / 4, last_midi_value = 31, cc_number = 1\<rparr> =
     Some ([], \<lparr>channel = 9, filtered_value = 16381 / 16, last_midi_value = 31, cc_number = 1\<rparr>)
   \<and> midi_of (16381 / 16) = Some 31"
  using cold_4095_unmounted second_1024 midi_of_1023_8125 midi_of_1023_75
  by (simp add: analog_inputs_def)

section \<open>Bounds of the filter and of the quantization\<close>

lemma ulp_4096: "2 ^ 24 * (ulp_min * 2 ^ 137) = 4096"
  by (simp add: ulp_min_def)

lemma ulp_quarter: "ulp_min * 2 ^ 147 = 1 / 4"
  by (simp add: ulp_min_def)

lemma ulp32_below_4096:
  assumes "\<bar>x\<bar> < 4096"
  obtains k where "k \<le> 137" and "ulp32 x = ulp_min * 2 ^ k"
proof -
  have b: "\<bar>x\<bar> < 2 ^ 24 * (ulp_min * 2 ^ 137)" using assms unfolding ulp_4096 .
  have n: "(137::nat) \<le> 253" by simp
  from n b obtain k where "k \<le> 137" "ulp32 x = ulp_min * 2 ^ k" by (rule ulp32_index_le)
  then show ?thesis by (rule that)
qed

lemma f32_quarters:
  assumes "\<bar>n\<bar> \<le> 16383"
  shows "f32 (of_int n / 4) = of_int n / 4"
proof -
  let ?x = "of_int n / 4 :: rat"
  define u where "u = ulp32 ?x"
  have "\<bar>?x\<bar> = of_int \<bar>n\<bar> / 4" by simp
  also have "\<dots> < 4096" using assms by simp
  finally obtain k where k: "k \<le> 137" "ulp32 ?x = ulp_min * 2 ^ k" by (rule ulp32_below_4096)
  have uk: "u = ulp_min * 2 ^ k" unfolding u_def by (rule k(2))
  have "(2::rat) ^ 147 = 2 ^ k * 2 ^ (147 - k)" using k(1) by (simp flip: power_add)
  then have "ulp_min * 2 ^ 147 = u * 2 ^ (147 - k)" unfolding uk by simp
  then have q: "u * 2 ^ (147 - k) = 1 / 4" unfolding ulp_quarter by simp
  have u: "u \<noteq> 0" unfolding u_def using ulp32_pos [of ?x] by simp
  have "of_int n * (u * 2 ^ (147 - k)) / u = of_int (n * 2 ^ (147 - k))" using u by simp
  then have "?x / u = of_int (n * 2 ^ (147 - k))" unfolding q by simp
  then show ?thesis unfolding u_def by (rule f32_of_multiple)
qed

lemma f32_small_int: "\<bar>i\<bar> \<le> 4095 \<Longrightarrow> f32 (of_int i) = of_int i"
  using f32_quarters [of "4 * i"] by simp

lemma f32_three_quarters: "f32 (3 / 4) = 3 / 4"
  using f32_quarters [of 3] by simp

lemma ema_eq:
  assumes "0 \<le> raw_value" and "raw_value \<le> 4095"
  shows "ema raw_value f = f32 (of_int raw_value / 4 + f32 (3 / 4 * f))"
  using assms
  by (simp add: ema_def ALPHA_def f32_ops f32_small_int f32_quarters f32_three_quarters)

lemma ema_bounds:
  assumes "0 \<le> raw_value" and "raw_value \<le> v" and "v \<le> 4095" and "0 \<le> f" and "f \<le> of_int v"
  shows "0 \<le> ema raw_value f" and "ema raw_value f \<le> of_int v"
proof -
  let ?t = "f32 (3 / 4 * f)"
  have e: "ema raw_value f = f32 (of_int raw_value / 4 + ?t)"
    using assms by (intro ema_eq) simp_all
  have t0: "0 \<le> ?t" using assms(4) by (intro f32_nonneg) simp
  have c: "f32 (of_int (3 * v) / 4) = of_int (3 * v) / 4"
    using assms by (intro f32_quarters) simp
  have "3 / 4 * f \<le> of_int (3 * v) / 4" using assms(5) by simp
  moreover have "\<bar>3 / 4 * f\<bar> \<le> \<bar>of_int (3 * v) / 4 :: rat\<bar>" using assms(4,5) by simp
  ultimately have t1: "?t \<le> of_int (3 * v) / 4" using c by (rule f32_le)
  have r0: "(0::rat) \<le> of_int raw_value" using assms(1) by simp
  have r1: "(of_int raw_value :: rat) \<le> of_int v" using assms(2) by simp
  show "0 \<le> ema raw_value f" unfolding e using t0 r0 by (intro f32_nonneg) simp
  have v: "f32 (of_int v) = of_int v" using assms by (intro f32_small_int) simp
  have s: "of_int raw_value / 4 + ?t \<le> of_int v" using t1 r1 by simp
  have s0: "0 \<le> of_int raw_value / 4 + ?t" using t0 r0 by simp
  have "\<bar>of_int raw_value / 4 + ?t\<bar> \<le> \<bar>of_int v :: rat\<bar>" using s s0 by linarith
  with s show "ema raw_value f \<le> of_int v" unfolding e using v by (rule f32_le)
qed

lemma midi_product_bounds:
  assumes "0 \<le> f" and "f \<le> 4095"
  shows "0 \<le> f32_mul (f32_div f 4095) 127" and "f32_mul (f32_div f 4095) 127 \<le> 127"
proof -
  let ?q = "f32 (f / 4095)"
  have one: "f32 1 = 1" using f32_small_int [of 1] by simp
  have c127: "f32 127 = 127" using f32_small_int [of 127] by simp
  have q0: "0 \<le> ?q" using assms(1) by (intro f32_nonneg) simp
  have "f / 4095 \<le> 1" using assms(2) by simp
  moreover have "\<bar>f / 4095\<bar> \<le> \<bar>1 :: rat\<bar>" using assms by simp
  ultimately have q1: "?q \<le> 1" using one by (rule f32_le)
  show "0 \<le> f32_mul (f32_div f 4095) 127"
    unfolding f32_mul_def f32_div_def using q0 by (intro f32_nonneg) simp
  have "?q * 127 \<le> 127" using q1 by simp
  moreover have "\<bar>?q * 127\<bar> \<le> \<bar>127 :: rat\<bar>" using q0 q1 by simp
  ultimately show "f32_mul (f32_div f 4095) 127 \<le> 127"
    unfolding f32_mul_def f32_div_def using c127 by (rule f32_le)
qed

lemma word8_of_int_le:
  assumes "0 \<le> n" and "n \<le> 127"
  shows "(word_of_int n :: 8 word) \<le> 127"
proof -
  have "uint (word_of_int n :: 8 word) = n" using assms by (simp add: uint_word_of_int take_bit_eq_mod)
  then show ?thesis using assms by (simp add: word_le_def)
qed

lemma midi_of_bounds:
  assumes "0 \<le> f" and "f \<le> 4095"
  shows "\<exists>q. midi_of f = Some q \<and> q \<le> 127"
proof -
  let ?p = "f32_mul (f32_div f 4095) 127"
  note b = midi_product_bounds [OF assms]
  have "0 \<le> \<lfloor>?p\<rfloor>" using b(1) by simp
  moreover have "\<lfloor>?p\<rfloor> \<le> 127" using b(2) by (simp add: floor_le_iff)
  ultimately have "(word_of_int \<lfloor>?p\<rfloor> :: 8 word) \<le> 127" by (rule word8_of_int_le)
  moreover have "midi_of f = Some (word_of_int \<lfloor>?p\<rfloor>)"
    using b by (simp add: midi_of_def u8_of_f32_def)
  ultimately show ?thesis by simp
qed

lemma process_input_bounded:
  assumes "0 \<le> raw_value" and "raw_value \<le> 4095"
    and "0 \<le> filtered_value a" and "filtered_value a \<le> 4095"
  shows "\<exists>out a'. process_input raw_value mounted a = Some (out, a')
    \<and> 0 \<le> filtered_value a' \<and> filtered_value a' \<le> 4095 \<and> last_midi_value a' \<le> 127"
proof -
  let ?f = "ema raw_value (filtered_value a)"
  have f: "0 \<le> ?f" "?f \<le> 4095"
    using ema_bounds [of raw_value 4095 "filtered_value a"] assms by simp_all
  then obtain q where q: "midi_of ?f = Some q" "q \<le> 127" using midi_of_bounds by blast
  show ?thesis using f q(2) by (simp add: process_input_eq [OF q(1)])
qed

section \<open>Claims on sequences of cycles\<close>

lemma run_input_snoc_step:
  "run_input ((raw_value, mounted) # cs) a = Some (out, a') \<longleftrightarrow>
    (\<exists>out1 a1 out2. process_input raw_value mounted a = Some (out1, a1)
       \<and> run_input cs a1 = Some (out2, a') \<and> out = out1 @ out2)"
  by (auto split: option.splits)

lemma run_input_bounded:
  assumes "\<forall>c\<in>set cs. 0 \<le> fst c \<and> fst c \<le> 4095"
    and "0 \<le> filtered_value a" and "filtered_value a \<le> 4095"
  shows "\<exists>out a'. run_input cs a = Some (out, a')
    \<and> 0 \<le> filtered_value a' \<and> filtered_value a' \<le> 4095"
  using assms
proof (induction cs arbitrary: a)
  case Nil
  then show ?case by simp
next
  case (Cons c cs)
  obtain r m where c: "c = (r, m)" by (cases c)
  have r: "0 \<le> r" "r \<le> 4095" using Cons.prems(1) c by simp_all
  from process_input_bounded [OF r Cons.prems(2,3), of m] obtain out1 a1 where
    1: "process_input r m a = Some (out1, a1)" "0 \<le> filtered_value a1" "filtered_value a1 \<le> 4095"
    by blast
  have "\<forall>c\<in>set cs. 0 \<le> fst c \<and> fst c \<le> 4095" using Cons.prems(1) by simp
  from Cons.IH [OF this 1(2,3)] obtain out2 a2 where
    2: "run_input cs a1 = Some (out2, a2)" "0 \<le> filtered_value a2" "filtered_value a2 \<le> 4095"
    by blast
  show ?case using 1(1) 2 c by simp
qed

text \<open>
  C2. For every finite sequence of samples, each in [0,4095], applied to a channel that
  starts with \<open>filtered_value\<close> 0, every update is defined, and after each of them
  (after the first \<open>n\<close> samples, for every \<open>n\<close>) \<open>filtered_value\<close> lies in [0,4095] and
  the quantized value computed from it lies in [0,127].
\<close>

theorem boundedness:
  assumes "filtered_value a = 0"
    and "\<forall>c\<in>set cs. 0 \<le> fst c \<and> fst c \<le> 4095"
    and "n \<le> length cs"
  shows "\<exists>out a' q. run_input (take n cs) a = Some (out, a')
    \<and> 0 \<le> filtered_value a' \<and> filtered_value a' \<le> 4095
    \<and> midi_of (filtered_value a') = Some q \<and> q \<le> 127"
proof -
  have "\<forall>c\<in>set (take n cs). 0 \<le> fst c \<and> fst c \<le> 4095"
    using assms(2) by (meson in_set_takeD)
  moreover have "0 \<le> filtered_value a" "filtered_value a \<le> 4095" using assms(1) by simp_all
  ultimately obtain out a' where
    r: "run_input (take n cs) a = Some (out, a')" "0 \<le> filtered_value a'" "filtered_value a' \<le> 4095"
    using run_input_bounded by blast
  from midi_of_bounds [OF r(2,3)] obtain q where "midi_of (filtered_value a') = Some q" "q \<le> 127"
    by blast
  then show ?thesis using r by blast
qed

lemma ema_4095_1023_75: "ema 4095 (4095 / 4) = 28665 / 16"
  by (simp add: ema_def ALPHA_def f32_evals)

lemma midi_of_1791_5625: "midi_of (28665 / 16) = Some 55"
  by (simp add: midi_of_def u8_of_f32_def f32_evals)

lemma second_4095:
  "process_input 4095 True \<lparr>channel = 9, filtered_value = 4095 / 4, last_midi_value = 31, cc_number = 1\<rparr> =
     Some ([(0, [0xB0, 1, 55])],
           \<lparr>channel = 9, filtered_value = 28665 / 16, last_midi_value = 55, cc_number = 1\<rparr>)"
  by (simp add: process_input_def ema_4095_1023_75 midi_of_1791_5625 send_midi_cc_def consts_defs)

lemma cold_two_cycles:
  "run_input [(4095, True), (4095, True)] (analog_inputs ! 0) =
     Some ([(0, [0xB0, 1, 31]), (0, [0xB0, 1, 55])],
           \<lparr>channel = 9, filtered_value = 28665 / 16, last_midi_value = 55, cc_number = 1\<rparr>)"
  by (simp add: cold_4095_mounted second_4095)

theorem boundedness_witness:
  "filtered_value (analog_inputs ! 0) = 0
   \<and> (0::int) \<le> 4095 \<and> (4095::int) \<le> 4095 \<and> (2::nat) \<le> length [(4095::int, True), (4095, True), (0, False)]
   \<and> run_input (take 2 [(4095, True), (4095, True), (0, False)]) (analog_inputs ! 0) =
       Some ([(0, [0xB0, 1, 31]), (0, [0xB0, 1, 55])],
             \<lparr>channel = 9, filtered_value = 28665 / 16, last_midi_value = 55, cc_number = 1\<rparr>)
   \<and> (0::rat) \<le> 28665 / 16 \<and> (28665 / 16 :: rat) \<le> 4095
   \<and> midi_of (28665 / 16) = Some 55 \<and> (55 :: 8 word) \<le> 127"
proof -
  have a: "filtered_value (analog_inputs ! 0) = 0" by (simp add: analog_inputs_def)
  have b: "\<forall>c\<in>set [(4095::int, True), (4095, True), (0, False)]. 0 \<le> fst c \<and> fst c \<le> 4095" by simp
  have c: "(2::nat) \<le> length [(4095::int, True), (4095, True), (0, False)]" by simp
  have r: "run_input (take 2 [(4095, True), (4095, True), (0, False)]) (analog_inputs ! 0) =
       Some ([(0, [0xB0, 1, 31]), (0, [0xB0, 1, 55])],
             \<lparr>channel = 9, filtered_value = 28665 / 16, last_midi_value = 55, cc_number = 1\<rparr>)"
  proof -
    have t: "take 2 [(4095::int, True), (4095, True), (0, False)] = [(4095, True), (4095, True)]"
      by simp
    show ?thesis unfolding t by (rule cold_two_cycles)
  qed
  have rest: ?thesis
    by (intro conjI; (rule r | simp add: a midi_of_1791_5625))
  show ?thesis using boundedness [OF a b c] by - (rule rest)
qed

lemma ema_0_0: "ema 0 0 = 0"
  by (simp add: ema_def ALPHA_def f32_ops f32_0)

lemma midi_of_0: "midi_of 0 = Some 0"
  by (simp add: midi_of_def u8_of_f32_def f32_ops f32_0)

lemma run_input_Cons_Some:
  assumes "run_input ((raw_value, mounted) # cs) a = Some (out, a')"
  obtains out1 a1 out2 where "process_input raw_value mounted a = Some (out1, a1)"
    and "run_input cs a1 = Some (out2, a')" and "out = out1 @ out2"
  using assms by (auto split: option.splits)

lemma run_input_quiet:
  assumes "last_midi_value a = 0"
    and "run_input cs a = Some (out, a')"
    and "\<forall>n\<le>length cs. \<forall>ws s. run_input (take n cs) a = Some (ws, s) \<longrightarrow> midi_of (filtered_value s) = Some 0"
  shows "out = [] \<and> last_midi_value a' = 0"
  using assms
proof (induction cs arbitrary: a out)
  case Nil
  then show ?case by simp
next
  case (Cons c cs)
  obtain r m where c: "c = (r, m)" by (cases c)
  from Cons.prems(2) [unfolded c] obtain out1 a1 out2 where
    1: "process_input r m a = Some (out1, a1)" and 2: "run_input cs a1 = Some (out2, a')"
    and out: "out = out1 @ out2"
    by (rule run_input_Cons_Some)
  have p1: "run_input (take 1 (c # cs)) a = Some (out1, a1)" using 1 c by simp
  have n1: "1 \<le> length (c # cs)" by simp
  have m0: "midi_of (filtered_value a1) = Some 0"
    by (rule Cons.prems(3) [rule_format, OF n1 p1])
  note f = process_input_fields [OF 1]
  have l1: "last_midi_value a1 = 0" using f(2) m0 by simp
  have o1: "out1 = []" using f(5) l1 Cons.prems(1) by simp
  have "\<forall>n\<le>length cs. \<forall>ws s. run_input (take n cs) a1 = Some (ws, s) \<longrightarrow> midi_of (filtered_value s) = Some 0"
  proof (intro allI impI)
    fix n ws s assume n: "n \<le> length cs" and r: "run_input (take n cs) a1 = Some (ws, s)"
    have p: "run_input (take (Suc n) (c # cs)) a = Some (out1 @ ws, s)" using 1 r c by simp
    have sn: "Suc n \<le> length (c # cs)" using n by simp
    show "midi_of (filtered_value s) = Some 0"
      by (rule Cons.prems(3) [rule_format, OF sn p])
  qed
  from Cons.IH [OF l1 2 this] show ?case using out o1 by simp
qed

text \<open>
  C9. From the initial state (\<open>filtered_value\<close> 0, \<open>last_midi_value\<close> 0) a cycle whose
  sample is 0 quantizes to 0, which equals \<open>last_midi_value\<close>: nothing is emitted and
  the state is unchanged. Whatever the samples, as long as every cycle so far has
  quantized to 0 no message has been emitted: the first message comes only once a sample
  has moved the quantized value away from 0.
\<close>

theorem zero_start:
  assumes "filtered_value a = 0" and "last_midi_value a = 0"
  shows "midi_of (ema 0 (filtered_value a)) = Some (last_midi_value a)
    \<and> process_input 0 mounted a = Some ([], a)
    \<and> (\<forall>cs out a'. run_input cs a = Some (out, a')
          \<and> (\<forall>n\<le>length cs. \<forall>ws s. run_input (take n cs) a = Some (ws, s)
                \<longrightarrow> midi_of (filtered_value s) = Some 0)
          \<longrightarrow> out = [])"
proof -
  have 1: "midi_of (ema 0 (filtered_value a)) = Some (last_midi_value a)"
    using assms by (simp add: ema_0_0 midi_of_0)
  have "process_input 0 mounted a = Some ([], a\<lparr>filtered_value := 0, last_midi_value := 0\<rparr>)"
    using assms by (simp add: process_input_def ema_0_0 midi_of_0)
  moreover have "a\<lparr>filtered_value := 0, last_midi_value := 0\<rparr> = a" using assms by simp
  ultimately have 2: "process_input 0 mounted a = Some ([], a)" by simp
  show ?thesis using 1 2 run_input_quiet [OF assms(2)] by (intro conjI allI impI) (simp_all, metis)
qed

theorem zero_start_witness:
  "filtered_value (analog_inputs ! 0) = 0 \<and> last_midi_value (analog_inputs ! 0) = 0
   \<and> midi_of (ema 0 (filtered_value (analog_inputs ! 0))) = Some (last_midi_value (analog_inputs ! 0))
   \<and> process_input 0 True (analog_inputs ! 0) = Some ([], analog_inputs ! 0)"
proof -
  have a: "filtered_value (analog_inputs ! 0) = 0" by (simp add: analog_inputs_def)
  have b: "last_midi_value (analog_inputs ! 0) = 0" by (simp add: analog_inputs_def)
  show ?thesis using zero_start [OF a b, of True] a b by simp
qed

lemma run_input_unchanged:
  assumes "last_midi_value a = q"
    and "run_input cs a = Some (out, a')"
    and "\<forall>n\<le>length cs. \<forall>ws s. run_input (take n cs) a = Some (ws, s) \<longrightarrow> midi_of (filtered_value s) = Some q"
  shows "out = [] \<and> last_midi_value a' = q"
  using assms
proof (induction cs arbitrary: a out)
  case Nil
  then show ?case by simp
next
  case (Cons c cs)
  obtain r m where c: "c = (r, m)" by (cases c)
  from Cons.prems(2) [unfolded c] obtain out1 a1 out2 where
    1: "process_input r m a = Some (out1, a1)" and 2: "run_input cs a1 = Some (out2, a')"
    and out: "out = out1 @ out2"
    by (rule run_input_Cons_Some)
  have p1: "run_input (take 1 (c # cs)) a = Some (out1, a1)" using 1 c by simp
  have n1: "1 \<le> length (c # cs)" by simp
  have m0: "midi_of (filtered_value a1) = Some q"
    by (rule Cons.prems(3) [rule_format, OF n1 p1])
  note f = process_input_fields [OF 1]
  have l1: "last_midi_value a1 = q" using f(2) m0 by simp
  have o1: "out1 = []" using f(5) l1 Cons.prems(1) by simp
  have "\<forall>n\<le>length cs. \<forall>ws s. run_input (take n cs) a1 = Some (ws, s) \<longrightarrow> midi_of (filtered_value s) = Some q"
  proof (intro allI impI)
    fix n ws s assume n: "n \<le> length cs" and r: "run_input (take n cs) a1 = Some (ws, s)"
    have p: "run_input (take (Suc n) (c # cs)) a = Some (out1 @ ws, s)" using 1 r c by simp
    have sn: "Suc n \<le> length (c # cs)" using n by simp
    show "midi_of (filtered_value s) = Some q"
      by (rule Cons.prems(3) [rule_format, OF sn p])
  qed
  from Cons.IH [OF l1 2 this] show ?case using out o1 by simp
qed

lemma ema_1000: "ema 1000 (16381 / 16) = 65143 / 64"
  by (simp add: ema_def ALPHA_def f32_evals)

lemma midi_of_1017: "midi_of (65143 / 64) = Some 31"
  by (simp add: midi_of_def u8_of_f32_def f32_evals)

lemma third_1000:
  "process_input 1000 True \<lparr>channel = 9, filtered_value = 16381 / 16, last_midi_value = 31, cc_number = 1\<rparr> =
     Some ([], \<lparr>channel = 9, filtered_value = 65143 / 64, last_midi_value = 31, cc_number = 1\<rparr>)"
  by (simp add: process_input_def ema_1000 midi_of_1017 send_midi_cc_def consts_defs)

lemma later_run_31:
  "run_input [(1024, True), (1000, True)]
      \<lparr>channel = 9, filtered_value = 4095 / 4, last_midi_value = 31, cc_number = 1\<rparr> =
     Some ([], \<lparr>channel = 9, filtered_value = 65143 / 64, last_midi_value = 31, cc_number = 1\<rparr>)"
  by (simp add: second_1024 third_1000)

text \<open>
  C1, amended. In every cycle in which the quantized value of a channel differs from
  its \<open>last_midi_value\<close> while the USB stack reports not mounted, the emit is skipped
  and \<open>last_midi_value\<close> is set to the new quantized value all the same. The change
  is therefore not detected again: as long as no new quantized value arrives in
  between (every cycle of a later run produces the same quantized value), no later
  cycle emits anything, mounted or not, and \<open>last_midi_value\<close> stays at that value;
  this holds for the next cycle in particular.
\<close>

theorem unmounted_updates_last:
  assumes "process_input raw_value False a = Some (out, a')"
    and "midi_of (filtered_value a') \<noteq> Some (last_midi_value a)"
  shows "out = []
    \<and> midi_of (filtered_value a') = Some (last_midi_value a')
    \<and> last_midi_value a' \<noteq> last_midi_value a
    \<and> (\<forall>raw2 mounted2 out2 a2.
          process_input raw2 mounted2 a' = Some (out2, a2)
          \<and> midi_of (filtered_value a2) = midi_of (filtered_value a') \<longrightarrow> out2 = [])
    \<and> (\<forall>cs out2 a2.
          run_input cs a' = Some (out2, a2)
          \<and> (\<forall>n\<le>length cs. \<forall>ws s. run_input (take n cs) a' = Some (ws, s)
                \<longrightarrow> midi_of (filtered_value s) = midi_of (filtered_value a'))
          \<longrightarrow> out2 = [] \<and> last_midi_value a2 = last_midi_value a')"
proof -
  note f = process_input_fields [OF assms(1)]
  have 1: "out = []" using f(5) by (simp add: send_midi_cc_def)
  have 2: "last_midi_value a' \<noteq> last_midi_value a" using f(2) assms(2) by auto
  have 3: "out2 = []"
    if "process_input raw2 mounted2 a' = Some (out2, a2)"
      and "midi_of (filtered_value a2) = midi_of (filtered_value a')"
    for raw2 mounted2 out2 a2
    using process_input_fields(2,5) [OF that(1)] that(2) f(2) by (auto split: if_splits)
  have 4: "out2 = [] \<and> last_midi_value a2 = last_midi_value a'"
    if r: "run_input cs a' = Some (out2, a2)"
      and q: "\<forall>n\<le>length cs. \<forall>ws s. run_input (take n cs) a' = Some (ws, s)
                \<longrightarrow> midi_of (filtered_value s) = midi_of (filtered_value a')"
    for cs out2 a2
  proof -
    have "\<forall>n\<le>length cs. \<forall>ws s. run_input (take n cs) a' = Some (ws, s)
                \<longrightarrow> midi_of (filtered_value s) = Some (last_midi_value a')"
      using q unfolding f(2) .
    with refl r show ?thesis by (rule run_input_unchanged)
  qed
  show ?thesis
  proof (intro conjI allI impI)
    show "out = []" by (rule 1)
    show "midi_of (filtered_value a') = Some (last_midi_value a')" by (rule f(2))
    show "last_midi_value a' \<noteq> last_midi_value a" by (rule 2)
  next
    fix raw2 mounted2 out2 a2
    assume "process_input raw2 mounted2 a' = Some (out2, a2)
          \<and> midi_of (filtered_value a2) = midi_of (filtered_value a')"
    then show "out2 = []" using 3 by (elim conjE)
  next
    fix cs out2 a2
    assume h: "run_input cs a' = Some (out2, a2)
          \<and> (\<forall>n\<le>length cs. \<forall>ws s. run_input (take n cs) a' = Some (ws, s)
                \<longrightarrow> midi_of (filtered_value s) = midi_of (filtered_value a'))"
    from 4 [OF conjunct1 [OF h] conjunct2 [OF h]]
    show "out2 = []" and "last_midi_value a2 = last_midi_value a'" by (rule conjunct1, rule conjunct2)
  qed
qed

theorem unmounted_updates_last_witness:
  "process_input 4095 False (analog_inputs ! 0) =
     Some ([], \<lparr>channel = 9, filtered_value = 4095 / 4, last_midi_value = 31, cc_number = 1\<rparr>)
   \<and> midi_of (4095 / 4) \<noteq> Some (last_midi_value (analog_inputs ! 0))
   \<and> last_midi_value \<lparr>channel = 9, filtered_value = 4095 / 4, last_midi_value = 31, cc_number = 1\<rparr>
       \<noteq> last_midi_value (analog_inputs ! 0)
   \<and> midi_of (filtered_value \<lparr>channel = 9, filtered_value = 4095 / 4, last_midi_value = 31, cc_number = 1\<rparr>)
       = Some (last_midi_value \<lparr>channel = 9, filtered_value = 4095 / 4, last_midi_value = 31, cc_number = 1\<rparr>)
   \<and> run_input [(1024, True), (1000, True)]
         \<lparr>channel = 9, filtered_value = 4095 / 4, last_midi_value = 31, cc_number = 1\<rparr> =
       Some ([], \<lparr>channel = 9, filtered_value = 65143 / 64, last_midi_value = 31, cc_number = 1\<rparr>)
   \<and> midi_of (16381 / 16) = midi_of (4095 / 4)
   \<and> midi_of (65143 / 64) = midi_of (4095 / 4)"
proof -
  have h2: "midi_of (filtered_value \<lparr>channel = 9, filtered_value = 4095 / 4, last_midi_value = 31, cc_number = 1\<rparr>)
     \<noteq> Some (last_midi_value (analog_inputs ! 0))"
    by (simp add: midi_of_1023_75 analog_inputs_def)
  have 1: "midi_of (4095 / 4) \<noteq> Some (last_midi_value (analog_inputs ! 0))" using h2 by simp
  have 2: "last_midi_value \<lparr>channel = 9, filtered_value = 4095 / 4, last_midi_value = 31, cc_number = 1\<rparr>
       \<noteq> last_midi_value (analog_inputs ! 0)" by (simp add: analog_inputs_def)
  have 3: "midi_of (filtered_value \<lparr>channel = 9, filtered_value = 4095 / 4, last_midi_value = 31, cc_number = 1\<rparr>)
       = Some (last_midi_value \<lparr>channel = 9, filtered_value = 4095 / 4, last_midi_value = 31, cc_number = 1\<rparr>)"
    by (simp add: midi_of_1023_75)
  have 4: "midi_of (16381 / 16) = midi_of (4095 / 4)" by (simp add: midi_of_1023_8125 midi_of_1023_75)
  have 5: "midi_of (65143 / 64) = midi_of (4095 / 4)" by (simp add: midi_of_1017 midi_of_1023_75)
  have rest: ?thesis
    by (intro conjI) (rule cold_4095_unmounted 1 2 3 4 5 later_run_31)+
  show ?thesis using unmounted_updates_last [OF cold_4095_unmounted h2] by - (rule rest)
qed

section \<open>Claims on the whole task\<close>

lemma inputs_ok_init: "inputs_ok analog_inputs"
  by (simp add: inputs_ok_def analog_inputs_def less_Suc_eq numeral_3_eq_3)

lemma process_channel_Some:
  assumes "process_channel p i inputs = Some (out, inputs')"
  obtains a where
    "process_input (adc1_get_raw p (channel (inputs ! i))) (tud_midi_mounted p i) (inputs ! i) = Some (out, a)"
    and "inputs' = inputs[i := a]"
  using assms by (auto simp: process_channel_def split: option.splits)

lemma process_channel_format:
  assumes "process_channel p i inputs = Some (out, inputs')" and "i < length inputs"
    and "w \<in> set out"
  shows "w = (0, [CC_MESSAGE OR MIDI_CC_CHANNEL, cc_number (inputs ! i), last_midi_value (inputs' ! i)])"
    and "midi_of (filtered_value (inputs' ! i)) = Some (last_midi_value (inputs' ! i))"
proof -
  from assms(1) obtain a where
    a: "process_input (adc1_get_raw p (channel (inputs ! i))) (tud_midi_mounted p i) (inputs ! i) = Some (out, a)"
    and i: "inputs' = inputs[i := a]"
    by (rule process_channel_Some)
  note f = process_input_fields [OF a]
  have ia: "inputs' ! i = a" using i assms(2) by simp
  show "w = (0, [CC_MESSAGE OR MIDI_CC_CHANNEL, cc_number (inputs ! i), last_midi_value (inputs' ! i)])"
    unfolding ia using f(5) assms(3) by (auto simp: send_midi_cc_def split: if_splits)
  show "midi_of (filtered_value (inputs' ! i)) = Some (last_midi_value (inputs' ! i))"
    unfolding ia by (rule f(2))
qed

lemma process_channel_ok:
  assumes "inputs_ok inputs" and "i < 3"
    and "\<forall>c. 0 \<le> adc1_get_raw p c \<and> adc1_get_raw p c \<le> 4095"
  shows "\<exists>out inputs'. process_channel p i inputs = Some (out, inputs') \<and> inputs_ok inputs'
    \<and> (\<forall>w\<in>set out. \<exists>v\<le>127. w = (0, [CC_MESSAGE OR MIDI_CC_CHANNEL, cc_number (analog_inputs ! i), v]))"
proof -
  let ?a = "inputs ! i"
  let ?r = "adc1_get_raw p (channel ?a)"
  have len: "length inputs = 3" using assms(1) by (simp add: inputs_ok_def)
  have ai: "cc_number ?a = cc_number (analog_inputs ! i)" "0 \<le> filtered_value ?a" "filtered_value ?a \<le> 4095"
    using assms(1,2) by (simp_all add: inputs_ok_def)
  have r: "0 \<le> ?r" "?r \<le> 4095" using assms(3) by simp_all
  from process_input_bounded [OF r ai(2,3), of "tud_midi_mounted p i"] obtain out a' where
    1: "process_input ?r (tud_midi_mounted p i) ?a = Some (out, a')"
    and b: "0 \<le> filtered_value a'" "filtered_value a' \<le> 4095" "last_midi_value a' \<le> 127"
    by blast
  note f = process_input_fields [OF 1]
  have pc: "process_channel p i inputs = Some (out, inputs[i := a'])"
    using 1 by (simp add: process_channel_def)
  have ok: "inputs_ok (inputs[i := a'])"
    unfolding inputs_ok_def
  proof (intro conjI allI impI)
    show "length (inputs[i := a']) = 3" using len by simp
  next
    fix j :: nat assume j: "j < 3"
    have old: "cc_number (inputs ! j) = cc_number (analog_inputs ! j)"
      "0 \<le> filtered_value (inputs ! j)" "filtered_value (inputs ! j) \<le> 4095"
      using assms(1) j by (simp_all add: inputs_ok_def)
    have nth: "inputs[i := a'] ! j = (if j = i then a' else inputs ! j)"
      using len j by (simp add: nth_list_update)
    show "cc_number (inputs[i := a'] ! j) = cc_number (analog_inputs ! j)"
      unfolding nth using old(1) f(4) ai(1) by simp
    show "0 \<le> filtered_value (inputs[i := a'] ! j)" unfolding nth using old(2) b(1) by simp
    show "filtered_value (inputs[i := a'] ! j) \<le> 4095" unfolding nth using old(3) b(2) by simp
  qed
  have fmt: "\<exists>v\<le>127. w = (0, [CC_MESSAGE OR MIDI_CC_CHANNEL, cc_number (analog_inputs ! i), v])"
    if "w \<in> set out" for w
  proof -
    have il: "i < length inputs" using len assms(2) by simp
    have "w = (0, [CC_MESSAGE OR MIDI_CC_CHANNEL, cc_number ?a, last_midi_value (inputs[i := a'] ! i)])"
      by (rule process_channel_format(1) [OF pc il that])
    moreover have "inputs[i := a'] ! i = a'" using il by simp
    ultimately have "w = (0, [CC_MESSAGE OR MIDI_CC_CHANNEL, cc_number (analog_inputs ! i), last_midi_value a'])"
      using ai(1) by simp
    then show ?thesis using b(3) by blast
  qed
  show ?thesis using pc ok fmt by blast
qed

lemma process_loop_ok:
  assumes "inputs_ok inputs"
    and "\<forall>c. 0 \<le> adc1_get_raw p c \<and> adc1_get_raw p c \<le> 4095"
  shows "\<exists>out inputs'. process_loop p i inputs = Some (out, inputs') \<and> inputs_ok inputs'
    \<and> (\<forall>w\<in>set out. \<exists>j<3. \<exists>v\<le>127.
          w = (0, [CC_MESSAGE OR MIDI_CC_CHANNEL, cc_number (analog_inputs ! j), v]))"
  using assms
proof (induction p i inputs rule: process_loop.induct)
  case (1 p i inputs)
  show ?case
  proof (cases "i < 3")
    case False
    then show ?thesis using "1.prems"(1) by (subst process_loop.simps) simp
  next
    case True
    from process_channel_ok [OF "1.prems"(1) True "1.prems"(2)] obtain out inputs1 where
      pc: "process_channel p i inputs = Some (out, inputs1)" and ok1: "inputs_ok inputs1"
      and fmt1: "\<forall>w\<in>set out. \<exists>v\<le>127. w = (0, [CC_MESSAGE OR MIDI_CC_CHANNEL, cc_number (analog_inputs ! i), v])"
      by blast
    from "1.IH" [OF True pc refl ok1 "1.prems"(2)] obtain outs inputs2 where
      pl: "process_loop p (i + 1) inputs1 = Some (outs, inputs2)" and ok2: "inputs_ok inputs2"
      and fmt2: "\<forall>w\<in>set outs. \<exists>j<3. \<exists>v\<le>127.
          w = (0, [CC_MESSAGE OR MIDI_CC_CHANNEL, cc_number (analog_inputs ! j), v])"
      by blast
    have eq: "process_loop p i inputs = Some (out @ outs, inputs2)"
      using True pc pl by (subst process_loop.simps) simp
    have "\<forall>w\<in>set (out @ outs). \<exists>j<3. \<exists>v\<le>127.
          w = (0, [CC_MESSAGE OR MIDI_CC_CHANNEL, cc_number (analog_inputs ! j), v])"
      using fmt1 fmt2 True by auto
    then show ?thesis using eq ok2 by blast
  qed
qed

lemma midi_controller_task_ok:
  assumes "inputs_ok inputs"
    and "\<forall>p\<in>set ps. \<forall>c. 0 \<le> adc1_get_raw p c \<and> adc1_get_raw p c \<le> 4095"
  shows "\<exists>out inputs'. midi_controller_task ps inputs = Some (out, inputs') \<and> inputs_ok inputs'
    \<and> (\<forall>w\<in>set out. \<exists>j<3. \<exists>v\<le>127.
          w = (0, [CC_MESSAGE OR MIDI_CC_CHANNEL, cc_number (analog_inputs ! j), v]))"
  using assms
proof (induction ps arbitrary: inputs)
  case Nil
  then show ?case by simp
next
  case (Cons p ps)
  have rp: "\<forall>c. 0 \<le> adc1_get_raw p c \<and> adc1_get_raw p c \<le> 4095" using Cons.prems(2) by simp
  from process_loop_ok [OF Cons.prems(1) rp, of 0] obtain out inputs1 where
    1: "process_analog_inputs p inputs = Some (out, inputs1)" and ok1: "inputs_ok inputs1"
    and fmt1: "\<forall>w\<in>set out. \<exists>j<3. \<exists>v\<le>127.
          w = (0, [CC_MESSAGE OR MIDI_CC_CHANNEL, cc_number (analog_inputs ! j), v])"
    unfolding process_analog_inputs_def by blast
  have "\<forall>p\<in>set ps. \<forall>c. 0 \<le> adc1_get_raw p c \<and> adc1_get_raw p c \<le> 4095"
    using Cons.prems(2) by simp
  from Cons.IH [OF ok1 this] obtain outs inputs2 where
    2: "midi_controller_task ps inputs1 = Some (outs, inputs2)" and ok2: "inputs_ok inputs2"
    and fmt2: "\<forall>w\<in>set outs. \<exists>j<3. \<exists>v\<le>127.
          w = (0, [CC_MESSAGE OR MIDI_CC_CHANNEL, cc_number (analog_inputs ! j), v])"
    by blast
  have eq: "midi_controller_task (p # ps) inputs = Some (out @ outs, inputs2)" using 1 2 by simp
  have "\<forall>w\<in>set (out @ outs). \<exists>j<3. \<exists>v\<le>127.
          w = (0, [CC_MESSAGE OR MIDI_CC_CHANNEL, cc_number (analog_inputs ! j), v])"
    using fmt1 fmt2 by auto
  then show ?case using eq ok2 by blast
qed

text \<open>
  C6. Every message handed to the USB stack goes to cable 0 and has exactly three
  bytes: \<open>0xB0\<close> (Control Change on MIDI channel 0), the controller number of the
  channel being processed (1, 2 and 3 for the three inputs), and the quantized value,
  which is at most 127 whenever the samples are in [0,4095]. The first part is about
  all the cycles of the task from the initial state, the last about one channel step.
\<close>

theorem cc_message_format:
  assumes "\<forall>p\<in>set ps. \<forall>c. 0 \<le> adc1_get_raw p c \<and> adc1_get_raw p c \<le> 4095"
  shows "map cc_number analog_inputs = [1, 2, 3]
    \<and> (\<exists>out inputs'. midi_controller_task ps analog_inputs = Some (out, inputs')
          \<and> (\<forall>w\<in>set out. \<exists>j<3. \<exists>v\<le>127. w = (0, [0xB0, cc_number (analog_inputs ! j), v])))
    \<and> (\<forall>p i inputs out inputs' w. process_channel p i inputs = Some (out, inputs')
          \<and> i < length inputs \<and> w \<in> set out
          \<longrightarrow> w = (0, [0xB0, cc_number (inputs ! i), last_midi_value (inputs' ! i)])
              \<and> midi_of (filtered_value (inputs' ! i)) = Some (last_midi_value (inputs' ! i)))"
proof -
  have b: "CC_MESSAGE OR MIDI_CC_CHANNEL = 0xB0" by (simp add: consts_defs)
  have 1: "map cc_number analog_inputs = [1, 2, 3]" by (simp add: analog_inputs_def consts_defs)
  have 2: "\<exists>out inputs'. midi_controller_task ps analog_inputs = Some (out, inputs')
          \<and> (\<forall>w\<in>set out. \<exists>j<3. \<exists>v\<le>127. w = (0, [0xB0, cc_number (analog_inputs ! j), v]))"
    using midi_controller_task_ok [OF inputs_ok_init assms] unfolding b by blast
  have 3: "w = (0, [0xB0, cc_number (inputs ! i), last_midi_value (inputs' ! i)])
      \<and> midi_of (filtered_value (inputs' ! i)) = Some (last_midi_value (inputs' ! i))"
    if "process_channel p i inputs = Some (out, inputs')" "i < length inputs" "w \<in> set out"
    for p i inputs out inputs' w
    using process_channel_format [OF that] unfolding b by simp
  show ?thesis using 1 2 3 by blast
qed


lemma process_loop_step:
  "i < 3 \<Longrightarrow> process_loop p i inputs =
     (case process_channel p i inputs of
        None \<Rightarrow> None
      | Some (out, inputs1) \<Rightarrow>
          (case process_loop p (i + 1) inputs1 of
             None \<Rightarrow> None
           | Some (outs, inputs2) \<Rightarrow> Some (out @ outs, inputs2)))"
  by (subst process_loop.simps) simp

lemma process_loop_end: "\<not> i < 3 \<Longrightarrow> process_loop p i inputs = Some ([], inputs)"
  by (subst process_loop.simps) simp

lemma process_analog_inputs_eq:
  "process_analog_inputs p inputs =
     (case process_channel p 0 inputs of
        None \<Rightarrow> None
      | Some (out0, s0) \<Rightarrow>
          (case process_channel p 1 s0 of
             None \<Rightarrow> None
           | Some (out1, s1) \<Rightarrow>
               (case process_channel p 2 s1 of
                  None \<Rightarrow> None
                | Some (out2, s2) \<Rightarrow> Some (out0 @ out1 @ out2, s2))))"
proof -
  have s3: "process_loop p 3 s = Some ([], s)" for s
    using process_loop_end [of 3 p s] by simp
  have s2: "process_loop p 2 s =
      (case process_channel p 2 s of None \<Rightarrow> None
       | Some (out, inputs1) \<Rightarrow>
           (case process_loop p 3 inputs1 of None \<Rightarrow> None
            | Some (outs, inputs2) \<Rightarrow> Some (out @ outs, inputs2)))" for s
  proof -
    have lt: "(2::nat) < 3" by simp
    have e: "(2::nat) + 1 = 3" by simp
    show ?thesis using process_loop_step [OF lt, of p s] unfolding e .
  qed
  have s1: "process_loop p 1 s =
      (case process_channel p 1 s of None \<Rightarrow> None
       | Some (out, inputs1) \<Rightarrow>
           (case process_loop p 2 inputs1 of None \<Rightarrow> None
            | Some (outs, inputs2) \<Rightarrow> Some (out @ outs, inputs2)))" for s
  proof -
    have lt: "(1::nat) < 3" by simp
    have e: "(1::nat) + 1 = 2" by simp
    show ?thesis using process_loop_step [OF lt, of p s] unfolding e .
  qed
  have s0: "process_loop p 0 s =
      (case process_channel p 0 s of None \<Rightarrow> None
       | Some (out, inputs1) \<Rightarrow>
           (case process_loop p 1 inputs1 of None \<Rightarrow> None
            | Some (outs, inputs2) \<Rightarrow> Some (out @ outs, inputs2)))" for s
  proof -
    have lt: "(0::nat) < 3" by simp
    have e: "(0::nat) + 1 = 1" by simp
    show ?thesis using process_loop_step [OF lt, of p s] unfolding e .
  qed
  show ?thesis
    unfolding process_analog_inputs_def s0 s1 s2 s3
    by (simp split: option.splits)
qed

theorem cc_message_format_witness:
  "(0::int) \<le> 4095 \<and> (4095::int) \<le> 4095
   \<and> map cc_number analog_inputs = [1, 2, 3]
   \<and> midi_controller_task [\<lparr>adc1_get_raw = (\<lambda>c. 4095), tud_midi_mounted = (\<lambda>i. True)\<rparr>] analog_inputs =
       Some ([(0, [0xB0, 1, 31]), (0, [0xB0, 2, 31]), (0, [0xB0, 3, 31])],
             [\<lparr>channel = 9, filtered_value = 4095 / 4, last_midi_value = 31, cc_number = 1\<rparr>,
              \<lparr>channel = 8, filtered_value = 4095 / 4, last_midi_value = 31, cc_number = 2\<rparr>,
              \<lparr>channel = 2, filtered_value = 4095 / 4, last_midi_value = 31, cc_number = 3\<rparr>])"
proof -
  have h: "\<forall>p\<in>set [\<lparr>adc1_get_raw = (\<lambda>c. 4095), tud_midi_mounted = (\<lambda>i. True)\<rparr>].
      \<forall>c. 0 \<le> adc1_get_raw p c \<and> adc1_get_raw p c \<le> 4095"
    by simp
  have rest: ?thesis
    by (simp add: process_analog_inputs_eq process_channel_def process_input_def analog_inputs_def
        ema_4095_0 midi_of_1023_75 send_midi_cc_def consts_defs)
  show ?thesis using cc_message_format [OF h] by - (rule rest)
qed

text \<open>
  What the task does to input \<open>i\<close> is \<open>run_input\<close> on the samples read from its ADC
  channel and the mount answers given while it was processed.
\<close>

lemma process_analog_inputs_input:
  assumes "process_analog_inputs p inputs = Some (out, inputs')" and "length inputs = 3" and "i < 3"
  shows "\<exists>ws. process_input (adc1_get_raw p (channel (inputs ! i))) (tud_midi_mounted p i) (inputs ! i)
      = Some (ws, inputs' ! i) \<and> length inputs' = 3"
proof -
  from assms(1) obtain out0 s0 out1 s1 out2 where
    c0: "process_channel p 0 inputs = Some (out0, s0)"
    and c1: "process_channel p 1 s0 = Some (out1, s1)"
    and c2: "process_channel p 2 s1 = Some (out2, inputs')"
    unfolding process_analog_inputs_eq by (auto split: option.splits)
  from c0 obtain a0 where a0: "process_input (adc1_get_raw p (channel (inputs ! 0))) (tud_midi_mounted p 0) (inputs ! 0) = Some (out0, a0)"
    and s0: "s0 = inputs[0 := a0]" by (rule process_channel_Some)
  from c1 obtain a1 where a1: "process_input (adc1_get_raw p (channel (s0 ! 1))) (tud_midi_mounted p 1) (s0 ! 1) = Some (out1, a1)"
    and s1: "s1 = s0[1 := a1]" by (rule process_channel_Some)
  from c2 obtain a2 where a2: "process_input (adc1_get_raw p (channel (s1 ! 2))) (tud_midi_mounted p 2) (s1 ! 2) = Some (out2, a2)"
    and s2: "inputs' = s1[2 := a2]" by (rule process_channel_Some)
  have l: "length inputs' = 3" using s0 s1 s2 assms(2) by simp
  consider "i = 0" | "i = 1" | "i = 2" using assms(3) by linarith
  then show ?thesis
  proof cases
    case 1
    then show ?thesis using a0 s0 s1 s2 assms(2) l by simp
  next
    case 2
    then show ?thesis using a1 s0 s1 s2 assms(2) l by simp
  next
    case 3
    then show ?thesis using a2 s0 s1 s2 assms(2) l by simp
  qed
qed

lemma midi_controller_task_input:
  assumes "midi_controller_task ps inputs = Some (out, inputs')" and "length inputs = 3" and "i < 3"
  shows "\<exists>ws. run_input (map (\<lambda>p. (adc1_get_raw p (channel (inputs ! i)), tud_midi_mounted p i)) ps)
      (inputs ! i) = Some (ws, inputs' ! i)"
  using assms(1,2)
proof (induction ps arbitrary: inputs out)
  case Nil
  then show ?case by simp
next
  case (Cons p ps)
  from Cons.prems(1) obtain out1 inputs1 outs where
    1: "process_analog_inputs p inputs = Some (out1, inputs1)"
    and 2: "midi_controller_task ps inputs1 = Some (outs, inputs')"
    by (auto split: option.splits)
  from process_analog_inputs_input [OF 1 Cons.prems(2) assms(3)] obtain ws1 where
    s: "process_input (adc1_get_raw p (channel (inputs ! i))) (tud_midi_mounted p i) (inputs ! i)
      = Some (ws1, inputs1 ! i)" and l: "length inputs1 = 3"
    by blast
  have ch: "channel (inputs1 ! i) = channel (inputs ! i)" by (rule process_input_fields(3) [OF s])
  from Cons.IH [OF 2 l] obtain ws2 where
    "run_input (map (\<lambda>p. (adc1_get_raw p (channel (inputs1 ! i)), tud_midi_mounted p i)) ps)
      (inputs1 ! i) = Some (ws2, inputs' ! i)"
    by blast
  then show ?case using s ch by simp
qed

section \<open>Claims on the arithmetic\<close>

lemma ema_exact_iterate: "(ema_exact 4095 ^^ n) 0 = 4095 * (1 - (3 / 4) ^ n)"
proof (induction n)
  case 0
  then show ?case by simp
next
  case (Suc n)
  then show ?case by (simp add: ema_exact_def ALPHA_def algebra_simps)
qed

lemma midi_exact_127:
  assumes "0 \<le> f" and "f \<le> 4095"
  shows "midi_exact f = 127 \<longleftrightarrow> f = 4095"
proof
  assume "midi_exact f = 127"
  then have "127 \<le> f / 4095 * 127" unfolding midi_exact_def by linarith
  then have "4095 \<le> f" by simp
  then show "f = 4095" using assms(2) by simp
next
  assume "f = 4095"
  then show "midi_exact f = 127" by (simp add: midi_exact_def)
qed

lemma midi_exact_below:
  assumes "0 \<le> f" and "f < 4095"
  shows "midi_exact f \<le> 126"
proof -
  have "f / 4095 * 127 < 127" using assms(2) by simp
  then have "midi_exact f < 127" unfolding midi_exact_def by (simp add: floor_less_iff)
  then show ?thesis by simp
qed

text \<open>
  C10. In exact (rational) arithmetic the quantized value is 127 only when
  \<open>filtered_value\<close> is exactly 4095; from \<open>filtered_value\<close> 0 and the sample 4095 held
  constant, \<open>filtered_value\<close> is \<open>4095 * (1 - 0.75^n)\<close> after \<open>n\<close> cycles, which is below
  4095 for every \<open>n\<close>, so that the quantized value never exceeds 126.
\<close>

theorem exact_never_127:
  "(0 \<le> f \<and> f \<le> 4095 \<longrightarrow> (midi_exact f = 127 \<longleftrightarrow> f = 4095))
   \<and> (ema_exact 4095 ^^ n) 0 = 4095 * (1 - (3 / 4) ^ n)
   \<and> (ema_exact 4095 ^^ n) 0 < 4095
   \<and> midi_exact ((ema_exact 4095 ^^ n) 0) \<le> 126"
proof -
  have p: "(0::rat) < (3 / 4) ^ n" by simp
  have le1: "((3 / 4) ^ n :: rat) \<le> 1" by (rule power_le_one) simp_all
  have lt: "(ema_exact 4095 ^^ n) 0 < 4095" unfolding ema_exact_iterate using p by simp
  have ge: "0 \<le> (ema_exact 4095 ^^ n) 0" unfolding ema_exact_iterate using le1 by simp
  show ?thesis using midi_exact_127 ema_exact_iterate lt midi_exact_below [OF ge lt] by blast
qed

theorem exact_never_127_witness:
  "(0::rat) \<le> 4095 \<and> (4095::rat) \<le> 4095 \<and> midi_exact 4095 = 127
   \<and> (ema_exact 4095 ^^ 2) 0 = 4095 * (1 - (3 / 4) ^ 2)
   \<and> (ema_exact 4095 ^^ 2) 0 = 28665 / 16
   \<and> midi_exact (28665 / 16) = 55"
proof -
  have rest: ?thesis
    by (simp add: midi_exact_def ema_exact_def ALPHA_def numeral_2_eq_2 floor_rat_numeral power2_eq_square)
  show ?thesis using exact_never_127 [of 4095 2] by - (rule rest)
qed


lemma f32_err_le:
  assumes "k \<le> 253" and "\<bar>x\<bar> < 2 ^ 24 * (ulp_min * 2 ^ k)"
  shows "\<bar>f32 x - x\<bar> \<le> ulp_min * 2 ^ k / 2"
proof -
  have "ulp32 x \<le> ulp_min * 2 ^ k" using assms by (rule ulp32_le)
  then have "ulp32 x / 2 \<le> ulp_min * 2 ^ k / 2" by simp
  then show ?thesis using f32_err [of x] by (rule order_trans [rotated])
qed

lemma f32_err_4096: "\<bar>x\<bar> < 4096 \<Longrightarrow> \<bar>f32 x - x\<bar> \<le> 1 / 8192"
  using f32_err_le [of 137 x] by (simp add: ulp_min_def)

lemma f32_err_128: "\<bar>x\<bar> < 128 \<Longrightarrow> \<bar>f32 x - x\<bar> \<le> 1 / 262144"
  using f32_err_le [of 132 x] by (simp add: ulp_min_def)

lemma f32_err_1: "\<bar>x\<bar> < 1 \<Longrightarrow> \<bar>f32 x - x\<bar> \<le> 1 / 33554432"
  using f32_err_le [of 125 x] by (simp add: ulp_min_def)

lemma ema_error:
  assumes "0 \<le> raw_value" and "raw_value \<le> 4095" and "0 \<le> f" and "f \<le> 4095"
  shows "\<bar>ema raw_value f - ema_exact raw_value f\<bar> \<le> 1 / 4096"
proof -
  let ?t = "f32 (3 / 4 * f)"
  let ?s = "of_int raw_value / 4 + ?t"
  have e: "ema raw_value f = f32 ?s" using assms(1,2) by (rule ema_eq)
  have x: "ema_exact raw_value f = of_int raw_value / 4 + 3 / 4 * f"
    by (simp add: ema_exact_def ALPHA_def)
  have "\<bar>3 / 4 * f\<bar> < 4096" using assms(3,4) by simp
  then have t: "\<bar>?t - 3 / 4 * f\<bar> \<le> 1 / 8192" by (rule f32_err_4096)
  have t0: "0 \<le> ?t" using assms(3) by (intro f32_nonneg) simp
  have c: "f32 (of_int 12285 / 4) = of_int 12285 / 4" by (rule f32_quarters) simp
  have "3 / 4 * f \<le> of_int 12285 / 4" using assms(4) by simp
  moreover have "\<bar>3 / 4 * f\<bar> \<le> \<bar>of_int 12285 / 4 :: rat\<bar>" using assms(3,4) by simp
  ultimately have t1: "?t \<le> of_int 12285 / 4" using c by (rule f32_le)
  have r: "(0::rat) \<le> of_int raw_value" "(of_int raw_value :: rat) \<le> 4095" using assms(1,2) by simp_all
  have "\<bar>?s\<bar> < 4096" using t0 t1 r by simp
  then have s: "\<bar>f32 ?s - ?s\<bar> \<le> 1 / 8192" by (rule f32_err_4096)
  show ?thesis unfolding e x using s t by linarith
qed

lemma midi_product_error:
  assumes "0 \<le> f" and "f \<le> 4095"
  shows "\<bar>f32_mul (f32_div f 4095) 127 - f / 4095 * 127\<bar> \<le> 1 / 131072"
proof -
  let ?q = "f32 (f / 4095)"
  have q: "\<bar>?q - f / 4095\<bar> \<le> 1 / 33554432"
  proof (cases "f = 4095")
    case True
    then show ?thesis using f32_small_int [of 1] by simp
  next
    case False
    then have "\<bar>f / 4095\<bar> < 1" using assms by simp
    then show ?thesis by (rule f32_err_1)
  qed
  have one: "f32 1 = 1" using f32_small_int [of 1] by simp
  have q0: "0 \<le> ?q" using assms(1) by (intro f32_nonneg) simp
  have "f / 4095 \<le> 1" using assms(2) by simp
  moreover have "\<bar>f / 4095\<bar> \<le> \<bar>1 :: rat\<bar>" using assms by simp
  ultimately have q1: "?q \<le> 1" using one by (rule f32_le)
  have "\<bar>?q * 127\<bar> < 128" using q0 q1 by simp
  then have p: "\<bar>f32 (?q * 127) - ?q * 127\<bar> \<le> 1 / 262144" by (rule f32_err_128)
  have eq: "?q * 127 - f / 4095 * 127 = 127 * (?q - f / 4095)" by (simp add: algebra_simps)
  have "\<bar>?q * 127 - f / 4095 * 127\<bar> = \<bar>127 * (?q - f / 4095)\<bar>" by (simp only: eq)
  also have "\<dots> = 127 * \<bar>?q - f / 4095\<bar>" by (simp only: abs_mult abs_numeral)
  also have "\<dots> \<le> 127 * (1 / 33554432)" using q by (intro mult_left_mono) simp_all
  finally have "\<bar>?q * 127 - f / 4095 * 127\<bar> \<le> 127 / 33554432" by simp
  then show ?thesis unfolding f32_mul_def f32_div_def using p by linarith
qed

lemma midi_of_eq:
  assumes "0 \<le> f" and "f \<le> 4095"
  shows "midi_of f = Some (word_of_int \<lfloor>f32_mul (f32_div f 4095) 127\<rfloor>)"
  using midi_product_bounds [OF assms] by (simp add: midi_of_def u8_of_f32_def)

lemma midi_near_exact:
  assumes "0 \<le> f" and "f \<le> 4095"
  shows "midi_exact f - 1 \<le> \<lfloor>f32_mul (f32_div f 4095) 127\<rfloor>"
    and "\<lfloor>f32_mul (f32_div f 4095) 127\<rfloor> \<le> midi_exact f + 1"
proof -
  let ?p = "f32_mul (f32_div f 4095) 127"
  let ?e = "f / 4095 * 127"
  note d = midi_product_error [OF assms]
  have lo: "?e - 1 \<le> ?p" using d by linarith
  have hi: "?p \<le> ?e + 1" using d by linarith
  have "\<lfloor>?e - 1\<rfloor> \<le> \<lfloor>?p\<rfloor>" using lo by (rule floor_mono)
  moreover have "\<lfloor>?p\<rfloor> \<le> \<lfloor>?e + 1\<rfloor>" using hi by (rule floor_mono)
  ultimately show "midi_exact f - 1 \<le> \<lfloor>?p\<rfloor>" "\<lfloor>?p\<rfloor> \<le> midi_exact f + 1"
    unfolding midi_exact_def by simp_all
qed

text \<open>
  C3, amended. For every channel state with \<open>filtered_value\<close> in [0,4095] and every
  sample in [0,4095], one update step first sets \<open>filtered_value\<close> to the binary32
  value of \<open>0.25 * raw + 0.75 * filtered_value\<close> (the product and the sum each rounded to
  nearest), which is within \<open>2^-12\<close> of the exact value; it then takes the binary32
  product \<open>p\<close> of \<open>(filtered_value / 4095) * 127\<close>, which is within \<open>2^-17\<close> of the exact
  value and in [0,127], and truncates it: the quantized value is \<open>floor p\<close>, at most 1
  away from the floor of the exact product, and this is the value compared against
  \<open>last_midi_value\<close> and stored there.
\<close>

theorem update_step:
  assumes "0 \<le> raw_value" and "raw_value \<le> 4095"
    and "0 \<le> filtered_value a" and "filtered_value a \<le> 4095"
  shows "\<exists>out a' p. process_input raw_value mounted a = Some (out, a')
    \<and> filtered_value a' = f32 (of_int raw_value / 4 + f32 (3 / 4 * filtered_value a))
    \<and> \<bar>filtered_value a' - ema_exact raw_value (filtered_value a)\<bar> \<le> 1 / 4096
    \<and> p = f32 (f32 (filtered_value a' / 4095) * 127)
    \<and> \<bar>p - filtered_value a' / 4095 * 127\<bar> \<le> 1 / 131072
    \<and> 0 \<le> p \<and> p \<le> 127
    \<and> last_midi_value a' = word_of_int \<lfloor>p\<rfloor>
    \<and> midi_exact (filtered_value a') - 1 \<le> \<lfloor>p\<rfloor> \<and> \<lfloor>p\<rfloor> \<le> midi_exact (filtered_value a') + 1
    \<and> out = (if last_midi_value a' \<noteq> last_midi_value a
              then send_midi_cc mounted (cc_number a) (last_midi_value a') else [])"
proof -
  from process_input_bounded [OF assms, of mounted] obtain out a' where
    1: "process_input raw_value mounted a = Some (out, a')"
    and b: "0 \<le> filtered_value a'" "filtered_value a' \<le> 4095"
    by blast
  note f = process_input_fields [OF 1]
  let ?p = "f32 (f32 (filtered_value a' / 4095) * 127)"
  have pp: "f32_mul (f32_div (filtered_value a') 4095) 127 = ?p" by (simp add: f32_mul_def f32_div_def)
  have 2: "filtered_value a' = f32 (of_int raw_value / 4 + f32 (3 / 4 * filtered_value a))"
    unfolding f(1) using assms(1,2) by (rule ema_eq)
  have 3: "\<bar>filtered_value a' - ema_exact raw_value (filtered_value a)\<bar> \<le> 1 / 4096"
    unfolding f(1) using assms by (rule ema_error)
  have 4: "\<bar>?p - filtered_value a' / 4095 * 127\<bar> \<le> 1 / 131072"
    using midi_product_error [OF b] unfolding pp .
  have 5: "0 \<le> ?p" "?p \<le> 127" using midi_product_bounds [OF b] unfolding pp .
  have "Some (last_midi_value a') = Some (word_of_int \<lfloor>?p\<rfloor>)"
    using f(2) midi_of_eq [OF b] unfolding pp by simp
  then have 6: "last_midi_value a' = word_of_int \<lfloor>?p\<rfloor>" by simp
  have 7: "midi_exact (filtered_value a') - 1 \<le> \<lfloor>?p\<rfloor>" "\<lfloor>?p\<rfloor> \<le> midi_exact (filtered_value a') + 1"
    using midi_near_exact [OF b] unfolding pp .
  show ?thesis using 1 2 3 4 5 6 7 f(5) by blast
qed

lemma knob_step_1:
  "process_input 2628 True \<lparr>channel = 9, filtered_value = 0, last_midi_value = 0, cc_number = 1\<rparr> =
     Some ([(0, [0xB0, 1, 20])], \<lparr>channel = 9, filtered_value = 657, last_midi_value = 20, cc_number = 1\<rparr>)"
proof -
  have e: "ema 2628 0 = 657"
    by (simp add: ema_def ALPHA_def f32_evals)
  have m: "midi_of 657 = Some 20"
    by (simp add: midi_of_def u8_of_f32_def f32_evals)
  show ?thesis by (simp add: process_input_def e m send_midi_cc_def consts_defs)
qed

lemma knob_step_2:
  "process_input 4094 True \<lparr>channel = 9, filtered_value = 657, last_midi_value = 20, cc_number = 1\<rparr> =
     Some ([(0, [0xB0, 1, 47])], \<lparr>channel = 9, filtered_value = 6065 / 4, last_midi_value = 47, cc_number = 1\<rparr>)"
proof -
  have e: "ema 4094 657 = 6065 / 4"
    by (simp add: ema_def ALPHA_def f32_evals)
  have m: "midi_of (6065 / 4) = Some 47"
    by (simp add: midi_of_def u8_of_f32_def f32_evals)
  show ?thesis by (simp add: process_input_def e m send_midi_cc_def consts_defs)
qed

lemma knob_step_3:
  "process_input 4094 True \<lparr>channel = 9, filtered_value = 6065 / 4, last_midi_value = 47, cc_number = 1\<rparr> =
     Some ([(0, [0xB0, 1, 67])], \<lparr>channel = 9, filtered_value = 34571 / 16, last_midi_value = 67, cc_number = 1\<rparr>)"
proof -
  have e: "ema 4094 (6065 / 4) = 34571 / 16"
    by (simp add: ema_def ALPHA_def f32_evals)
  have m: "midi_of (34571 / 16) = Some 67"
    by (simp add: midi_of_def u8_of_f32_def f32_evals)
  show ?thesis by (simp add: process_input_def e m send_midi_cc_def consts_defs)
qed

lemma knob_step_4:
  "process_input 4094 True \<lparr>channel = 9, filtered_value = 34571 / 16, last_midi_value = 67, cc_number = 1\<rparr> =
     Some ([(0, [0xB0, 1, 82])], \<lparr>channel = 9, filtered_value = 169217 / 64, last_midi_value = 82, cc_number = 1\<rparr>)"
proof -
  have e: "ema 4094 (34571 / 16) = 169217 / 64"
    by (simp add: ema_def ALPHA_def f32_evals)
  have m: "midi_of (169217 / 64) = Some 82"
    by (simp add: midi_of_def u8_of_f32_def f32_evals)
  show ?thesis by (simp add: process_input_def e m send_midi_cc_def consts_defs)
qed

lemma knob_run:
  "run_input [(2628, True), (4094, True), (4094, True), (4094, True)] (analog_inputs ! 0) =
     Some ([(0, [0xB0, 1, 20]), (0, [0xB0, 1, 47]), (0, [0xB0, 1, 67]), (0, [0xB0, 1, 82])], \<lparr>channel = 9, filtered_value = 169217 / 64, last_midi_value = 82, cc_number = 1\<rparr>)"
  by (simp add: analog_inputs_def consts_defs knob_step_1 knob_step_2 knob_step_3 knob_step_4)


text \<open>
  C3, as stated, fails: the program computes in binary32, and neither formula holds
  exactly. After the samples 2628, 4094, 4094, 4094 from the initial state
  \<open>filtered_value\<close> is 2644.015625, for which the exact \<open>(filtered_value / 4095) * 127\<close> is
  just below 82 and its floor 81, while the program rounds the quotient and the product
  and sends 82. And from \<open>filtered_value\<close> 13787865/4096 (the state after six cycles of
  the sample 4095) the update gives 14534179/4096, not the exact 58136715/16384.
\<close>

theorem update_step_counterexample:
  "run_input [(2628, True), (4094, True), (4094, True), (4094, True)] (analog_inputs ! 0) =
     Some ([(0, [0xB0, 1, 20]), (0, [0xB0, 1, 47]), (0, [0xB0, 1, 67]), (0, [0xB0, 1, 82])],
           \<lparr>channel = 9, filtered_value = 169217 / 64, last_midi_value = 82, cc_number = 1\<rparr>)
   \<and> midi_of (169217 / 64) = Some 82
   \<and> midi_exact (169217 / 64) = 81
   \<and> ema 4095 (13787865 / 4096) = 14534179 / 4096
   \<and> ema_exact 4095 (13787865 / 4096) = 58136715 / 16384"
proof -
  have 1: "midi_of (169217 / 64) = Some 82"
    by (simp add: midi_of_def u8_of_f32_def f32_evals)
  have 2: "midi_exact (169217 / 64) = 81"
    by (simp add: midi_exact_def floor_rat_numeral)
  have 3: "ema 4095 (13787865 / 4096) = 14534179 / 4096"
    by (simp add: ema_def ALPHA_def f32_evals)
  have 4: "ema_exact 4095 (13787865 / 4096) = 58136715 / 16384"
    by (simp add: ema_exact_def ALPHA_def)
  show ?thesis by (intro conjI) (rule knob_run 1 2 3 4)+
qed

theorem update_step_witness:
  "(0::int) \<le> 4095 \<and> (4095::int) \<le> 4095
   \<and> 0 \<le> filtered_value (analog_inputs ! 0) \<and> filtered_value (analog_inputs ! 0) \<le> 4095
   \<and> process_input 4095 True (analog_inputs ! 0) =
       Some ([(0, [0xB0, 1, 31])],
             \<lparr>channel = 9, filtered_value = 4095 / 4, last_midi_value = 31, cc_number = 1\<rparr>)
   \<and> ema_exact 4095 (filtered_value (analog_inputs ! 0)) = 4095 / 4
   \<and> f32 (f32 (4095 / 4 / 4095) * 127) = 127 / 4
   \<and> midi_exact (4095 / 4) = 31"
proof -
  have a: "(0::int) \<le> 4095" "(4095::int) \<le> 4095" by simp_all
  have b: "0 \<le> filtered_value (analog_inputs ! 0)" "filtered_value (analog_inputs ! 0) \<le> 4095"
    by (simp_all add: analog_inputs_def)
  have c: "ema_exact 4095 (filtered_value (analog_inputs ! 0)) = 4095 / 4"
    by (simp add: ema_exact_def ALPHA_def analog_inputs_def)
  have d: "f32 (f32 (4095 / 4 / 4095) * 127) = 127 / 4"
    by (simp add: f32_evals)
  have e: "midi_exact (4095 / 4) = 31"
    by (simp add: midi_exact_def floor_rat_numeral)
  have rest: ?thesis
    by (intro conjI) (rule a b c d e cold_4095_mounted)+
  show ?thesis using update_step [OF a b, of True] by - (rule rest)
qed

section \<open>A constant sample: monotone approach and settling\<close>

lemma f32_idem:
  assumes "0 \<le> x"
  shows "f32 (f32 x) = f32 x"
proof -
  define u where "u = ulp32 x"
  define m where "m = round_half_even (x / u)"
  define y where "y = u * of_int m"
  have y: "f32 x = y" unfolding y_def m_def u_def f32_def ..
  have u: "0 < u" unfolding u_def by (rule ulp32_pos)
  obtain j where j: "j \<le> 253" "ulp32 x = ulp_min * 2 ^ j"
    "0 < j \<longrightarrow> 2 ^ 23 * ulp32 x \<le> \<bar>x\<bar>" "j < 253 \<longrightarrow> \<bar>x\<bar> < 2 ^ 24 * ulp32 x"
    by (rule ulp32_char)
  obtain k where k: "k \<le> 253" "ulp32 y = ulp_min * 2 ^ k"
    "0 < k \<longrightarrow> 2 ^ 23 * ulp32 y \<le> \<bar>y\<bar>" "k < 253 \<longrightarrow> \<bar>y\<bar> < 2 ^ 24 * ulp32 y"
    by (rule ulp32_char)
  have uj: "u = ulp_min * 2 ^ j" unfolding u_def by (rule j(2))
  have uy: "0 < ulp32 y" by (rule ulp32_pos)
  have y0: "0 \<le> y" using assms f32_nonneg [of x] y by simp
  have "\<exists>n::int. y / ulp32 y = of_int n"
  proof (cases "k \<le> j")
    case True
    then have "(2::rat) ^ j = 2 ^ k * 2 ^ (j - k)" by (simp flip: power_add)
    then have "u = ulp32 y * 2 ^ (j - k)" unfolding uj k(2) by simp
    then have "y = ulp32 y * of_int (2 ^ (j - k) * m)" unfolding y_def by simp
    then have "y / ulp32 y = ulp32 y * of_int (2 ^ (j - k) * m) / ulp32 y" by (rule arg_cong)
    also have "\<dots> = of_int (2 ^ (j - k) * m)" using uy by simp
    finally show ?thesis ..
  next
    case False
    then have jk: "Suc j \<le> k" by simp
    have "(2::rat) ^ Suc j \<le> 2 ^ k" using jk by (rule power_increasing) simp
    then have "ulp_min * 2 ^ Suc j \<le> ulp_min * 2 ^ k"
      using ulp_min_pos by (intro mult_left_mono) simp_all
    then have two: "2 * u \<le> ulp32 y" unfolding uj k(2) by simp
    have "x < 2 ^ 24 * u" using j(4) jk k(1) assms unfolding u_def by simp
    then have "x / u \<le> of_int (2 ^ 24)" using u by (simp add: divide_le_eq)
    then have "m \<le> 2 ^ 24" unfolding m_def by (rule rhe_le)
    then have "(of_int m :: rat) \<le> 2 ^ 24" by (metis of_int_le_iff of_int_numeral of_int_power)
    then have "u * of_int m \<le> u * 2 ^ 24" using u by (intro mult_left_mono) simp_all
    then have hi: "y \<le> 2 ^ 24 * u" unfolding y_def by (simp add: mult_ac)
    have lo: "2 ^ 23 * ulp32 y \<le> y" using k(3) jk y0 by simp
    have "2 ^ 24 * u \<le> 2 ^ 23 * ulp32 y" using two by simp
    then have a: "2 ^ 23 * ulp32 y = 2 ^ 24 * u" and b: "y = 2 ^ 24 * u" using hi lo by linarith+
    from a have "ulp32 y = 2 * u" by simp
    then have "y / ulp32 y = 2 ^ 24 * u / (2 * u)" unfolding b by simp
    also have "\<dots> = of_int (2 ^ 23)" using u by simp
    finally show ?thesis ..
  qed
  then obtain n :: int where "y / ulp32 y = of_int n" ..
  then have "f32 y = y" by (rule f32_of_multiple)
  then show ?thesis unfolding y .
qed


lemma ema_representable:
  assumes "0 \<le> raw_value" and "raw_value \<le> 4095" and "0 \<le> f"
  shows "f32 (ema raw_value f) = ema raw_value f"
proof -
  have t0: "0 \<le> f32 (3 / 4 * f)" using assms(3) by (intro f32_nonneg) simp
  have "(0::rat) \<le> of_int raw_value" using assms(1) by simp
  then have "0 \<le> of_int raw_value / 4 + f32 (3 / 4 * f)" using t0 by simp
  then show ?thesis unfolding ema_eq [OF assms(1,2)] by (rule f32_idem)
qed

lemma ema_ge:
  assumes "0 \<le> v" and "v \<le> 4095" and "f32 f = f" and "0 \<le> f" and "f \<le> of_int v"
  shows "f \<le> ema v f"
proof -
  let ?t = "f32 (3 / 4 * f)"
  have e: "ema v f = f32 (of_int v / 4 + ?t)" using assms(1,2) by (rule ema_eq)
  have t0: "0 \<le> ?t" using assms(4) by (intro f32_nonneg) simp
  have "f - of_int v / 4 \<le> ?t"
  proof (cases "f - of_int v / 4 \<le> 0")
    case True
    then show ?thesis using t0 by simp
  next
    case False
    define c where "c = f - of_int v / 4"
    have c0: "0 \<le> c" using False unfolding c_def by simp
    have v0: "(0::rat) \<le> of_int v" using assms(1) by simp
    have v1: "(of_int v :: rat) \<le> 4095" using assms(2) by simp
    have "\<bar>f\<bar> < 4096" using assms(4,5) v1 by simp
    then obtain k where k: "k \<le> 137" "ulp32 f = ulp_min * 2 ^ k" by (rule ulp32_below_4096)
    define u where "u = ulp32 f"
    have uk: "u = ulp_min * 2 ^ k" unfolding u_def by (rule k(2))
    have "(2::rat) ^ 147 = 2 ^ k * 2 ^ (147 - k)" using k(1) by (simp flip: power_add)
    then have "ulp_min * 2 ^ 147 = u * 2 ^ (147 - k)" unfolding uk by simp
    then have q: "1 / 4 = u * 2 ^ (147 - k)" unfolding ulp_quarter by simp
    define r where "r = round_half_even (f / u)"
    have fr: "u * of_int r = f" using assms(3) unfolding f32_def r_def u_def .
    have "c = u * of_int r - of_int v * (1 / 4)" unfolding c_def fr by simp
    also have "\<dots> = u * of_int r - of_int v * (u * 2 ^ (147 - k))" by (simp only: q)
    also have "\<dots> = u * of_int (r - v * 2 ^ (147 - k))" by (simp add: algebra_simps)
    finally have cm: "c = ulp32 f * of_int (r - v * 2 ^ (147 - k))" unfolding u_def .
    have "\<bar>c\<bar> \<le> \<bar>f\<bar>" using c0 v0 assms(4) unfolding c_def by simp
    then have fc: "f32 c = c" using cm by (rule f32_fix_multiple)
    have "c \<le> 3 / 4 * f" using assms(5) unfolding c_def by simp
    then have "c \<le> ?t" using c0 fc by (rule f32_ge)
    then show ?thesis unfolding c_def .
  qed
  then have "f \<le> of_int v / 4 + ?t" by simp
  then show ?thesis unfolding e using assms(4,3) by (rule f32_ge)
qed

lemma ema_strict:
  assumes "0 \<le> v" and "v \<le> 4095" and "0 \<le> f" and "f \<le> of_int v"
    and "1 / 1024 < of_int v - f"
  shows "f < ema v f"
proof -
  have v1: "(of_int v :: rat) \<le> 4095" using assms(2) by simp
  have "\<bar>ema v f - ema_exact v f\<bar> \<le> 1 / 4096"
    using assms(1,2,3) assms(4) v1 by (intro ema_error) simp_all
  moreover have "ema_exact v f = of_int v / 4 + 3 / 4 * f" by (simp add: ema_exact_def ALPHA_def)
  ultimately show ?thesis using assms(5) by linarith
qed

text \<open>A sequence on a grid that never decreases and stays bounded repeats a value.\<close>

lemma grid_sequence_repeats:
  fixes F :: "nat \<Rightarrow> rat"
  assumes "\<And>n. F n \<le> F (Suc n)" and "\<And>n. F n \<le> B"
    and "\<And>n. \<exists>m::int. F n = u * of_int m" and "0 < u"
  shows "\<exists>N. F (Suc N) = F N"
proof (rule ccontr)
  assume "\<not> (\<exists>N. F (Suc N) = F N)"
  then have ne: "F (Suc n) \<noteq> F n" for n by simp
  have step: "F n + u \<le> F (Suc n)" for n
  proof -
    obtain m :: int where m: "F n = u * of_int m" using assms(3) by blast
    obtain m' :: int where m': "F (Suc n) = u * of_int m'" using assms(3) by blast
    have "F n < F (Suc n)" using assms(1) [of n] ne [of n] by simp
    then have "u * of_int m < u * of_int m'" unfolding m m' .
    then have "(of_int m :: rat) < of_int m'" using assms(4) by simp
    then have "m + 1 \<le> m'" by simp
    then have "(of_int (m + 1) :: rat) \<le> of_int m'" by (simp only: of_int_le_iff)
    then have "u * of_int (m + 1) \<le> u * of_int m'" using assms(4) by (intro mult_left_mono) simp_all
    then show ?thesis unfolding m m' by (simp add: algebra_simps)
  qed
  have lin: "F 0 + of_nat n * u \<le> F n" for n
  proof (induction n)
    case 0
    then show ?case by simp
  next
    case (Suc n)
    have "F 0 + of_nat (Suc n) * u = (F 0 + of_nat n * u) + u" by (simp add: algebra_simps)
    also have "\<dots> \<le> F n + u" using Suc.IH by simp
    also have "\<dots> \<le> F (Suc n)" by (rule step)
    finally show ?case .
  qed
  obtain n :: nat where n: "(B - F 0) / u < of_nat n" using reals_Archimedean2 by blast
  then have "B - F 0 < of_nat n * u" using assms(4) by (simp add: divide_less_eq)
  then have "B < F 0 + of_nat n * u" by simp
  also have "\<dots> \<le> F n" by (rule lin)
  finally show False using assms(2) [of n] by simp
qed


lemma run_input_append:
  "run_input (xs @ ys) a =
     (case run_input xs a of
        None \<Rightarrow> None
      | Some (ws1, a1) \<Rightarrow>
          (case run_input ys a1 of
             None \<Rightarrow> None
           | Some (ws2, a2) \<Rightarrow> Some (ws1 @ ws2, a2)))"
proof (induction xs arbitrary: a)
  case Nil
  then show ?case by (simp split: option.splits)
next
  case (Cons c xs)
  obtain r m where c: "c = (r, m)" by (cases c)
  show ?case unfolding c by (simp add: Cons.IH split: option.splits)
qed

lemma run_filtered:
  assumes "run_input cs a = Some (ws, a')" and "\<forall>c\<in>set cs. fst c = v"
  shows "filtered_value a' = (ema v ^^ length cs) (filtered_value a)"
  using assms
proof (induction cs arbitrary: a ws)
  case Nil
  then show ?case by simp
next
  case (Cons c cs)
  obtain r m where c: "c = (r, m)" by (cases c)
  have r: "r = v" using Cons.prems(2) c by simp
  from Cons.prems(1) [unfolded c] obtain out1 a1 out2 where
    1: "process_input r m a = Some (out1, a1)" and 2: "run_input cs a1 = Some (out2, a')"
    by (rule run_input_Cons_Some)
  have f1: "filtered_value a1 = ema v (filtered_value a)"
    using process_input_fields(1) [OF 1] r by simp
  have "\<forall>c\<in>set cs. fst c = v" using Cons.prems(2) by simp
  from Cons.IH [OF 2 this] have "filtered_value a' = (ema v ^^ length cs) (ema v (filtered_value a))"
    unfolding f1 .
  then show ?case by (simp add: funpow_swap1)
qed

lemma run_last_settled:
  assumes "run_input cs a = Some (ws, a')" and "cs \<noteq> []"
  shows "midi_of (filtered_value a') = Some (last_midi_value a')"
  using assms
proof (induction cs arbitrary: a ws)
  case Nil
  then show ?case by simp
next
  case (Cons c cs)
  obtain r m where c: "c = (r, m)" by (cases c)
  from Cons.prems(1) [unfolded c] obtain out1 a1 out2 where
    1: "process_input r m a = Some (out1, a1)" and 2: "run_input cs a1 = Some (out2, a')"
    by (rule run_input_Cons_Some)
  show ?case
  proof (cases "cs = []")
    case True
    then have "a' = a1" using 2 by simp
    then show ?thesis using process_input_fields(2) [OF 1] by simp
  next
    case False
    from Cons.IH [OF 2 False] show ?thesis .
  qed
qed

lemma settled_run:
  assumes "ema v (filtered_value a) = filtered_value a"
    and "midi_of (filtered_value a) = Some (last_midi_value a)"
    and "\<forall>c\<in>set cs. fst c = v"
  shows "run_input cs a = Some ([], a)"
  using assms(3)
proof (induction cs)
  case Nil
  then show ?case by simp
next
  case (Cons c cs)
  obtain r m where c: "c = (r, m)" by (cases c)
  have r: "r = v" using Cons.prems c by simp
  have "midi_of (ema v (filtered_value a)) = Some (last_midi_value a)"
    unfolding assms(1) by (rule assms(2))
  from process_input_eq [OF this, of m]
  have "process_input v m a = Some ([], a\<lparr>filtered_value := filtered_value a,
      last_midi_value := last_midi_value a\<rparr>)"
    unfolding assms(1) by simp
  then have 1: "process_input v m a = Some ([], a)" by simp
  have "run_input cs a = Some ([], a)" using Cons by simp
  then show ?case unfolding c r using 1 by simp
qed

lemma ema_iterates:
  assumes "0 \<le> v" and "v \<le> 4095" and "f32 f = f" and "0 \<le> f" and "f \<le> of_int v"
  shows "f32 ((ema v ^^ n) f) = (ema v ^^ n) f \<and> 0 \<le> (ema v ^^ n) f
    \<and> (ema v ^^ n) f \<le> of_int v \<and> f \<le> (ema v ^^ n) f"
proof (induction n)
  case 0
  then show ?case using assms by simp
next
  case (Suc n)
  let ?g = "(ema v ^^ n) f"
  have s: "(ema v ^^ Suc n) f = ema v ?g" by simp
  have a: "f32 ?g = ?g" "0 \<le> ?g" "?g \<le> of_int v" "f \<le> ?g" using Suc.IH by simp_all
  have vv: "v \<le> v" by simp
  have 1: "f32 (ema v ?g) = ema v ?g" using assms(1,2) a(2) by (rule ema_representable)
  have 2: "0 \<le> ema v ?g" "ema v ?g \<le> of_int v"
    using ema_bounds [OF assms(1) vv assms(2) a(2,3)] by simp_all
  have 3: "?g \<le> ema v ?g" using assms(1,2) a(1,2,3) by (rule ema_ge)
  show ?case unfolding s using 1 2 3 a(4) by simp
qed

lemma ema_settles:
  assumes "0 \<le> v" and "v \<le> 4095" and "f32 f = f" and "0 \<le> f" and "f \<le> of_int v"
  shows "\<exists>N. (ema v ^^ Suc N) f = (ema v ^^ N) f"
proof (rule grid_sequence_repeats [where B = "of_int v" and u = ulp_min])
  fix n
  note i = ema_iterates [OF assms, of n]
  show "(ema v ^^ n) f \<le> (ema v ^^ Suc n) f"
    using ema_ge [OF assms(1,2), of "(ema v ^^ n) f"] i by simp
  show "(ema v ^^ n) f \<le> of_int v" using i by simp
  have "\<exists>m::int. f32 ((ema v ^^ n) f) = ulp_min * of_int m" by (rule f32_grid)
  then show "\<exists>m::int. (ema v ^^ n) f = ulp_min * of_int m" using i by simp
next
  show "0 < ulp_min" by (rule ulp_min_pos)
qed

lemma ema_down:
  assumes "0 \<le> v" and "v \<le> 4095" and "f32 f = f" and "of_int v \<le> f" and "f \<le> 4095"
  shows "of_int v \<le> ema v f" and "ema v f \<le> f"
proof -
  let ?t = "f32 (3 / 4 * f)"
  have e: "ema v f = f32 (of_int v / 4 + ?t)" using assms(1,2) by (rule ema_eq)
  have v0: "(0::rat) \<le> of_int v" using assms(1) by simp
  have f0: "0 \<le> f" using v0 assms(4) by simp
  have t0: "0 \<le> ?t" using f0 by (intro f32_nonneg) simp
  have c: "f32 (of_int (3 * v) / 4) = of_int (3 * v) / 4"
    using assms(1,2) by (intro f32_quarters) simp
  have "of_int (3 * v) / 4 \<le> 3 / 4 * f" using assms(4) by simp
  moreover have "(0::rat) \<le> of_int (3 * v) / 4" using assms(1) by simp
  ultimately have t1: "of_int (3 * v) / 4 \<le> ?t" using c by (rule f32_ge)
  have fv: "f32 (of_int v) = of_int v" using assms(1,2) by (intro f32_small_int) simp
  have "of_int v \<le> of_int v / 4 + ?t" using t1 by simp
  then show "of_int v \<le> ema v f" unfolding e using v0 fv by (rule f32_ge)
  define c' where "c' = f - of_int v / 4"
  have c0: "0 \<le> c'" using v0 assms(4) unfolding c'_def by simp
  have "\<bar>f\<bar> < 4096" using f0 assms(5) by simp
  then obtain k where k: "k \<le> 137" "ulp32 f = ulp_min * 2 ^ k" by (rule ulp32_below_4096)
  define u where "u = ulp32 f"
  have uk: "u = ulp_min * 2 ^ k" unfolding u_def by (rule k(2))
  have "(2::rat) ^ 147 = 2 ^ k * 2 ^ (147 - k)" using k(1) by (simp flip: power_add)
  then have "ulp_min * 2 ^ 147 = u * 2 ^ (147 - k)" unfolding uk by simp
  then have q: "1 / 4 = u * 2 ^ (147 - k)" unfolding ulp_quarter by simp
  define r where "r = round_half_even (f / u)"
  have fr: "u * of_int r = f" using assms(3) unfolding f32_def r_def u_def .
  have "c' = u * of_int r - of_int v * (1 / 4)" unfolding c'_def fr by simp
  also have "\<dots> = u * of_int r - of_int v * (u * 2 ^ (147 - k))" by (simp only: q)
  also have "\<dots> = u * of_int (r - v * 2 ^ (147 - k))" by (simp add: algebra_simps)
  finally have cm: "c' = ulp32 f * of_int (r - v * 2 ^ (147 - k))" unfolding u_def .
  have "\<bar>c'\<bar> \<le> \<bar>f\<bar>" using c0 v0 f0 unfolding c'_def by simp
  then have fc: "f32 c' = c'" using cm by (rule f32_fix_multiple)
  have le: "3 / 4 * f \<le> c'" using assms(4) unfolding c'_def by simp
  moreover have "\<bar>3 / 4 * f\<bar> \<le> \<bar>c'\<bar>" using le f0 by simp
  ultimately have "?t \<le> c'" using fc by (rule f32_le)
  then have s: "of_int v / 4 + ?t \<le> f" unfolding c'_def by simp
  have s0: "0 \<le> of_int v / 4 + ?t" using v0 t0 by simp
  have "\<bar>of_int v / 4 + ?t\<bar> \<le> \<bar>f\<bar>" using s s0 by linarith
  with s show "ema v f \<le> f" unfolding e using assms(3) by (rule f32_le)
qed

lemma ema_strict_down:
  assumes "0 \<le> v" and "v \<le> 4095" and "0 \<le> f" and "f \<le> 4095"
    and "1 / 1024 < f - of_int v"
  shows "ema v f < f"
proof -
  have "\<bar>ema v f - ema_exact v f\<bar> \<le> 1 / 4096" using assms(1,2,3,4) by (rule ema_error)
  moreover have "ema_exact v f = of_int v / 4 + 3 / 4 * f" by (simp add: ema_exact_def ALPHA_def)
  ultimately show ?thesis using assms(5) by linarith
qed

lemma ema_iterates_down:
  assumes "0 \<le> v" and "v \<le> 4095" and "f32 f = f" and "of_int v \<le> f" and "f \<le> 4095"
  shows "f32 ((ema v ^^ n) f) = (ema v ^^ n) f \<and> of_int v \<le> (ema v ^^ n) f
    \<and> (ema v ^^ n) f \<le> f"
proof (induction n)
  case 0
  then show ?case using assms by simp
next
  case (Suc n)
  let ?g = "(ema v ^^ n) f"
  have s: "(ema v ^^ Suc n) f = ema v ?g" by simp
  have a: "f32 ?g = ?g" "of_int v \<le> ?g" "?g \<le> f" using Suc.IH by simp_all
  have v0: "(0::rat) \<le> of_int v" using assms(1) by simp
  have g0: "0 \<le> ?g" using v0 a(2) by simp
  have g1: "?g \<le> 4095" using a(3) assms(5) by simp
  have 1: "f32 (ema v ?g) = ema v ?g" using assms(1,2) g0 by (rule ema_representable)
  have 2: "of_int v \<le> ema v ?g" "ema v ?g \<le> ?g"
    using ema_down [OF assms(1,2) a(1,2) g1] by simp_all
  show ?case unfolding s using 1 2 a(3) by simp
qed

lemma ema_settles_down:
  assumes "0 \<le> v" and "v \<le> 4095" and "f32 f = f" and "of_int v \<le> f" and "f \<le> 4095"
  shows "\<exists>N. (ema v ^^ Suc N) f = (ema v ^^ N) f"
proof -
  have "\<exists>N. - (ema v ^^ Suc N) f = - (ema v ^^ N) f"
  proof (rule grid_sequence_repeats [where B = "- of_int v" and u = ulp_min])
    fix n
    note i = ema_iterates_down [OF assms, of n]
    have i1: "f32 ((ema v ^^ n) f) = (ema v ^^ n) f" and i2: "of_int v \<le> (ema v ^^ n) f"
      and i3: "(ema v ^^ n) f \<le> f" using i by simp_all
    have g1: "(ema v ^^ n) f \<le> 4095" using i3 assms(5) by simp
    have "ema v ((ema v ^^ n) f) \<le> (ema v ^^ n) f"
      using assms(1,2) i1 i2 g1 by (rule ema_down(2))
    then show "- (ema v ^^ n) f \<le> - (ema v ^^ Suc n) f" by simp
    show "- (ema v ^^ n) f \<le> - of_int v" using i2 by simp
    obtain m :: int where m: "f32 ((ema v ^^ n) f) = ulp_min * of_int m"
      using f32_grid by blast
    have "- (ema v ^^ n) f = ulp_min * of_int (- m)" using m unfolding i1 by simp
    then show "\<exists>m::int. - (ema v ^^ n) f = ulp_min * of_int m" ..
  next
    show "0 < ulp_min" by (rule ulp_min_pos)
  qed
  then show ?thesis by simp
qed

text \<open>
  C7, amended. A constant sample \<open>v\<close> in [0,4095] is fed repeatedly to a channel whose
  \<open>filtered_value\<close> is a binary32 value in [0,4095]. Then every cycle is defined, and
  \<open>filtered_value\<close> moves monotonically toward \<open>v\<close> without crossing it. Started at
  or below \<open>v\<close>, after any number of cycles it is at least its initial value, and the
  next update does not decrease it and does not exceed \<open>v\<close>; started at or above
  \<open>v\<close>, it is at most its initial value, and the next update does not increase it
  and does not fall below \<open>v\<close>. The next update changes it strictly as long as it
  is more than \<open>2^-10\<close> away from \<open>v\<close>, on either side. There is a number \<open>N\<close> of
  cycles after which nothing changes any more: a longer run ends in the state reached
  after \<open>N\<close> cycles, with the messages emitted in those \<open>N\<close> cycles and no others, so
  that \<open>filtered_value\<close> and the quantized value are then fixed, whatever the USB stack
  answers.
\<close>

theorem constant_sample_settles:
  assumes "0 \<le> v" and "v \<le> 4095"
    and "f32 (filtered_value a) = filtered_value a"
    and "0 \<le> filtered_value a" and "filtered_value a \<le> 4095"
  shows "(\<forall>cs. (\<forall>c\<in>set cs. fst c = v) \<longrightarrow>
            (\<exists>ws a'. run_input cs a = Some (ws, a')
               \<and> (filtered_value a \<le> of_int v \<longrightarrow>
                     filtered_value a \<le> filtered_value a'
                     \<and> filtered_value a' \<le> ema v (filtered_value a')
                     \<and> ema v (filtered_value a') \<le> of_int v)
               \<and> (of_int v \<le> filtered_value a \<longrightarrow>
                     filtered_value a' \<le> filtered_value a
                     \<and> ema v (filtered_value a') \<le> filtered_value a'
                     \<and> of_int v \<le> ema v (filtered_value a'))
               \<and> (1 / 1024 < of_int v - filtered_value a'
                    \<longrightarrow> filtered_value a' < ema v (filtered_value a'))
               \<and> (1 / 1024 < filtered_value a' - of_int v
                    \<longrightarrow> ema v (filtered_value a') < filtered_value a')))
    \<and> (\<exists>N. \<forall>cs. (\<forall>c\<in>set cs. fst c = v) \<and> N \<le> length cs
            \<longrightarrow> run_input cs a = run_input (take N cs) a)"
proof (intro conjI allI impI)
  fix cs :: "(int \<times> bool) list"
  assume cs: "\<forall>c\<in>set cs. fst c = v"
  have "\<forall>c\<in>set cs. 0 \<le> fst c \<and> fst c \<le> 4095" using cs assms(1,2) by simp
  then obtain ws a' where r: "run_input cs a = Some (ws, a')"
    and b0: "0 \<le> filtered_value a'" and b1: "filtered_value a' \<le> 4095"
    using run_input_bounded [of cs a] assms(4,5) by blast
  have f: "filtered_value a' = (ema v ^^ length cs) (filtered_value a)"
    using r cs by (rule run_filtered)
  have vv: "v \<le> v" by simp
  have up: "filtered_value a \<le> filtered_value a'
      \<and> filtered_value a' \<le> ema v (filtered_value a')
      \<and> ema v (filtered_value a') \<le> of_int v"
    if le: "filtered_value a \<le> of_int v"
  proof -
    note i = ema_iterates [OF assms(1,2,3,4) le, of "length cs", folded f]
    have i1: "f32 (filtered_value a') = filtered_value a'"
      and i3: "filtered_value a' \<le> of_int v" and i4: "filtered_value a \<le> filtered_value a'"
      using i by simp_all
    have 1: "filtered_value a' \<le> ema v (filtered_value a')"
      using assms(1,2) i1 b0 i3 by (rule ema_ge)
    have 2: "ema v (filtered_value a') \<le> of_int v"
      using assms(1) vv assms(2) b0 i3 by (rule ema_bounds(2))
    show ?thesis using i4 1 2 by simp
  qed
  have down: "filtered_value a' \<le> filtered_value a
      \<and> ema v (filtered_value a') \<le> filtered_value a'
      \<and> of_int v \<le> ema v (filtered_value a')"
    if ge: "of_int v \<le> filtered_value a"
  proof -
    note i = ema_iterates_down [OF assms(1,2,3) ge assms(5), of "length cs", folded f]
    have i1: "f32 (filtered_value a') = filtered_value a'"
      and i2: "of_int v \<le> filtered_value a'" and i3: "filtered_value a' \<le> filtered_value a"
      using i by simp_all
    note d = ema_down [OF assms(1,2) i1 i2 b1]
    show ?thesis using i3 d by simp
  qed
  have s1: "filtered_value a' < ema v (filtered_value a')"
    if h: "1 / 1024 < of_int v - filtered_value a'"
  proof -
    have "filtered_value a' \<le> of_int v" using h by simp
    with assms(1,2) b0 show ?thesis using h by (rule ema_strict)
  qed
  have s2: "ema v (filtered_value a') < filtered_value a'"
    if h: "1 / 1024 < filtered_value a' - of_int v"
    using assms(1,2) b0 b1 h by (rule ema_strict_down)
  show "\<exists>ws a'. run_input cs a = Some (ws, a')
               \<and> (filtered_value a \<le> of_int v \<longrightarrow>
                     filtered_value a \<le> filtered_value a'
                     \<and> filtered_value a' \<le> ema v (filtered_value a')
                     \<and> ema v (filtered_value a') \<le> of_int v)
               \<and> (of_int v \<le> filtered_value a \<longrightarrow>
                     filtered_value a' \<le> filtered_value a
                     \<and> ema v (filtered_value a') \<le> filtered_value a'
                     \<and> of_int v \<le> ema v (filtered_value a'))
               \<and> (1 / 1024 < of_int v - filtered_value a'
                    \<longrightarrow> filtered_value a' < ema v (filtered_value a'))
               \<and> (1 / 1024 < filtered_value a' - of_int v
                    \<longrightarrow> ema v (filtered_value a') < filtered_value a')"
  proof (intro exI conjI impI)
    show "run_input cs a = Some (ws, a')" by (rule r)
  qed (use up down s1 s2 in simp_all)
next
  let ?F = "\<lambda>n. (ema v ^^ n) (filtered_value a)"
  have "\<exists>N0. ?F (Suc N0) = ?F N0"
  proof (cases "filtered_value a \<le> of_int v")
    case True
    with assms(1,2,3,4) show ?thesis by (rule ema_settles)
  next
    case False
    then have "of_int v \<le> filtered_value a" by simp
    with assms(1,2,3) show ?thesis using assms(5) by (rule ema_settles_down)
  qed
  then obtain N0 where N0: "?F (Suc N0) = ?F N0" ..
  have fixd: "ema v (?F (Suc N0)) = ?F (Suc N0)"
  proof -
    have "ema v (?F (Suc N0)) = ema v (?F N0)" by (simp only: N0)
    also have "\<dots> = ?F (Suc N0)" by simp
    finally show ?thesis .
  qed
  have "run_input cs a = run_input (take (Suc N0) cs) a"
    if cs: "\<forall>c\<in>set cs. fst c = v" and len: "Suc N0 \<le> length cs" for cs
  proof -
    let ?xs = "take (Suc N0) cs" and ?ys = "drop (Suc N0) cs"
    have xs: "\<forall>c\<in>set ?xs. fst c = v" using cs by (meson in_set_takeD)
    have ys: "\<forall>c\<in>set ?ys. fst c = v" using cs by (meson in_set_dropD)
    have "\<forall>c\<in>set ?xs. 0 \<le> fst c \<and> fst c \<le> 4095" using xs assms(1,2) by simp
    then obtain ws1 a1 where r1: "run_input ?xs a = Some (ws1, a1)"
      using run_input_bounded [of ?xs a] assms(4,5) by blast
    have lx: "length ?xs = Suc N0" using len by simp
    have f1: "filtered_value a1 = ?F (Suc N0)" using run_filtered [OF r1 xs] unfolding lx .
    have ne: "?xs \<noteq> []" using lx by auto
    have m1: "midi_of (filtered_value a1) = Some (last_midi_value a1)"
      using r1 ne by (rule run_last_settled)
    have e1: "ema v (filtered_value a1) = filtered_value a1" unfolding f1 by (rule fixd)
    have r2: "run_input ?ys a1 = Some ([], a1)" using e1 m1 ys by (rule settled_run)
    have "run_input (?xs @ ?ys) a = Some (ws1, a1)"
      unfolding run_input_append using r1 r2 by simp
    then show ?thesis using r1 by simp
  qed
  then show "\<exists>N. \<forall>cs. (\<forall>c\<in>set cs. fst c = v) \<and> N \<le> length cs
            \<longrightarrow> run_input cs a = run_input (take N cs) a"
    by blast
qed

section \<open>The cold start with the sample 4095, cycle by cycle\<close>

text \<open>
  Each cycle of the run is evaluated on the binary32 model: the state before, the sample
  4095 with the USB stack mounted, the message handed over and the state after.
\<close>

lemma cold_step_1:
  "process_input 4095 True \<lparr>channel = 9, filtered_value = 0, last_midi_value = 0, cc_number = 1\<rparr> =
     Some ([(0, [0xB0, 1, 31])], \<lparr>channel = 9, filtered_value = 4095 / 4, last_midi_value = 31, cc_number = 1\<rparr>)"
proof -
  have e: "ema 4095 0 = 4095 / 4"
    by (simp add: ema_def ALPHA_def f32_evals)
  have m: "midi_of (4095 / 4) = Some 31"
    by (simp add: midi_of_def u8_of_f32_def f32_evals)
  show ?thesis by (simp add: process_input_def e m send_midi_cc_def consts_defs)
qed

lemma cold_step_2:
  "process_input 4095 True \<lparr>channel = 9, filtered_value = 4095 / 4, last_midi_value = 31, cc_number = 1\<rparr> =
     Some ([(0, [0xB0, 1, 55])], \<lparr>channel = 9, filtered_value = 28665 / 16, last_midi_value = 55, cc_number = 1\<rparr>)"
proof -
  have e: "ema 4095 (4095 / 4) = 28665 / 16"
    by (simp add: ema_def ALPHA_def f32_evals)
  have m: "midi_of (28665 / 16) = Some 55"
    by (simp add: midi_of_def u8_of_f32_def f32_evals)
  show ?thesis by (simp add: process_input_def e m send_midi_cc_def consts_defs)
qed

lemma cold_step_3:
  "process_input 4095 True \<lparr>channel = 9, filtered_value = 28665 / 16, last_midi_value = 55, cc_number = 1\<rparr> =
     Some ([(0, [0xB0, 1, 73])], \<lparr>channel = 9, filtered_value = 151515 / 64, last_midi_value = 73, cc_number = 1\<rparr>)"
proof -
  have e: "ema 4095 (28665 / 16) = 151515 / 64"
    by (simp add: ema_def ALPHA_def f32_evals)
  have m: "midi_of (151515 / 64) = Some 73"
    by (simp add: midi_of_def u8_of_f32_def f32_evals)
  show ?thesis by (simp add: process_input_def e m send_midi_cc_def consts_defs)
qed

lemma cold_step_4:
  "process_input 4095 True \<lparr>channel = 9, filtered_value = 151515 / 64, last_midi_value = 73, cc_number = 1\<rparr> =
     Some ([(0, [0xB0, 1, 86])], \<lparr>channel = 9, filtered_value = 716625 / 256, last_midi_value = 86, cc_number = 1\<rparr>)"
proof -
  have e: "ema 4095 (151515 / 64) = 716625 / 256"
    by (simp add: ema_def ALPHA_def f32_evals)
  have m: "midi_of (716625 / 256) = Some 86"
    by (simp add: midi_of_def u8_of_f32_def f32_evals)
  show ?thesis by (simp add: process_input_def e m send_midi_cc_def consts_defs)
qed

lemma cold_step_5:
  "process_input 4095 True \<lparr>channel = 9, filtered_value = 716625 / 256, last_midi_value = 86, cc_number = 1\<rparr> =
     Some ([(0, [0xB0, 1, 96])], \<lparr>channel = 9, filtered_value = 3198195 / 1024, last_midi_value = 96, cc_number = 1\<rparr>)"
proof -
  have e: "ema 4095 (716625 / 256) = 3198195 / 1024"
    by (simp add: ema_def ALPHA_def f32_evals)
  have m: "midi_of (3198195 / 1024) = Some 96"
    by (simp add: midi_of_def u8_of_f32_def f32_evals)
  show ?thesis by (simp add: process_input_def e m send_midi_cc_def consts_defs)
qed

lemma cold_step_6:
  "process_input 4095 True \<lparr>channel = 9, filtered_value = 3198195 / 1024, last_midi_value = 96, cc_number = 1\<rparr> =
     Some ([(0, [0xB0, 1, 104])], \<lparr>channel = 9, filtered_value = 13787865 / 4096, last_midi_value = 104, cc_number = 1\<rparr>)"
proof -
  have e: "ema 4095 (3198195 / 1024) = 13787865 / 4096"
    by (simp add: ema_def ALPHA_def f32_evals)
  have m: "midi_of (13787865 / 4096) = Some 104"
    by (simp add: midi_of_def u8_of_f32_def f32_evals)
  show ?thesis by (simp add: process_input_def e m send_midi_cc_def consts_defs)
qed

lemma cold_step_7:
  "process_input 4095 True \<lparr>channel = 9, filtered_value = 13787865 / 4096, last_midi_value = 104, cc_number = 1\<rparr> =
     Some ([(0, [0xB0, 1, 110])], \<lparr>channel = 9, filtered_value = 14534179 / 4096, last_midi_value = 110, cc_number = 1\<rparr>)"
proof -
  have e: "ema 4095 (13787865 / 4096) = 14534179 / 4096"
    by (simp add: ema_def ALPHA_def f32_evals)
  have m: "midi_of (14534179 / 4096) = Some 110"
    by (simp add: midi_of_def u8_of_f32_def f32_evals)
  show ?thesis by (simp add: process_input_def e m send_midi_cc_def consts_defs)
qed

lemma cold_step_8:
  "process_input 4095 True \<lparr>channel = 9, filtered_value = 14534179 / 4096, last_midi_value = 110, cc_number = 1\<rparr> =
     Some ([(0, [0xB0, 1, 114])], \<lparr>channel = 9, filtered_value = 7546957 / 2048, last_midi_value = 114, cc_number = 1\<rparr>)"
proof -
  have e: "ema 4095 (14534179 / 4096) = 7546957 / 2048"
    by (simp add: ema_def ALPHA_def f32_evals)
  have m: "midi_of (7546957 / 2048) = Some 114"
    by (simp add: midi_of_def u8_of_f32_def f32_evals)
  show ?thesis by (simp add: process_input_def e m send_midi_cc_def consts_defs)
qed

lemma cold_step_9:
  "process_input 4095 True \<lparr>channel = 9, filtered_value = 7546957 / 2048, last_midi_value = 114, cc_number = 1\<rparr> =
     Some ([(0, [0xB0, 1, 117])], \<lparr>channel = 9, filtered_value = 3878429 / 1024, last_midi_value = 117, cc_number = 1\<rparr>)"
proof -
  have e: "ema 4095 (7546957 / 2048) = 3878429 / 1024"
    by (simp add: ema_def ALPHA_def f32_evals)
  have m: "midi_of (3878429 / 1024) = Some 117"
    by (simp add: midi_of_def u8_of_f32_def f32_evals)
  show ?thesis by (simp add: process_input_def e m send_midi_cc_def consts_defs)
qed

lemma cold_step_10:
  "process_input 4095 True \<lparr>channel = 9, filtered_value = 3878429 / 1024, last_midi_value = 117, cc_number = 1\<rparr> =
     Some ([(0, [0xB0, 1, 119])], \<lparr>channel = 9, filtered_value = 15828567 / 4096, last_midi_value = 119, cc_number = 1\<rparr>)"
proof -
  have e: "ema 4095 (3878429 / 1024) = 15828567 / 4096"
    by (simp add: ema_def ALPHA_def f32_evals)
  have m: "midi_of (15828567 / 4096) = Some 119"
    by (simp add: midi_of_def u8_of_f32_def f32_evals)
  show ?thesis by (simp add: process_input_def e m send_midi_cc_def consts_defs)
qed

lemma cold_step_11:
  "process_input 4095 True \<lparr>channel = 9, filtered_value = 15828567 / 4096, last_midi_value = 119, cc_number = 1\<rparr> =
     Some ([(0, [0xB0, 1, 121])], \<lparr>channel = 9, filtered_value = 16064705 / 4096, last_midi_value = 121, cc_number = 1\<rparr>)"
proof -
  have e: "ema 4095 (15828567 / 4096) = 16064705 / 4096"
    by (simp add: ema_def ALPHA_def f32_evals)
  have m: "midi_of (16064705 / 4096) = Some 121"
    by (simp add: midi_of_def u8_of_f32_def f32_evals)
  show ?thesis by (simp add: process_input_def e m send_midi_cc_def consts_defs)
qed

lemma cold_step_12:
  "process_input 4095 True \<lparr>channel = 9, filtered_value = 16064705 / 4096, last_midi_value = 121, cc_number = 1\<rparr> =
     Some ([(0, [0xB0, 1, 122])], \<lparr>channel = 9, filtered_value = 16241809 / 4096, last_midi_value = 122, cc_number = 1\<rparr>)"
proof -
  have e: "ema 4095 (16064705 / 4096) = 16241809 / 4096"
    by (simp add: ema_def ALPHA_def f32_evals)
  have m: "midi_of (16241809 / 4096) = Some 122"
    by (simp add: midi_of_def u8_of_f32_def f32_evals)
  show ?thesis by (simp add: process_input_def e m send_midi_cc_def consts_defs)
qed

lemma cold_step_13:
  "process_input 4095 True \<lparr>channel = 9, filtered_value = 16241809 / 4096, last_midi_value = 122, cc_number = 1\<rparr> =
     Some ([(0, [0xB0, 1, 123])], \<lparr>channel = 9, filtered_value = 16374637 / 4096, last_midi_value = 123, cc_number = 1\<rparr>)"
proof -
  have e: "ema 4095 (16241809 / 4096) = 16374637 / 4096"
    by (simp add: ema_def ALPHA_def f32_evals)
  have m: "midi_of (16374637 / 4096) = Some 123"
    by (simp add: midi_of_def u8_of_f32_def f32_evals)
  show ?thesis by (simp add: process_input_def e m send_midi_cc_def consts_defs)
qed

lemma cold_step_14:
  "process_input 4095 True \<lparr>channel = 9, filtered_value = 16374637 / 4096, last_midi_value = 123, cc_number = 1\<rparr> =
     Some ([(0, [0xB0, 1, 124])], \<lparr>channel = 9, filtered_value = 8237129 / 2048, last_midi_value = 124, cc_number = 1\<rparr>)"
proof -
  have e: "ema 4095 (16374637 / 4096) = 8237129 / 2048"
    by (simp add: ema_def ALPHA_def f32_evals)
  have m: "midi_of (8237129 / 2048) = Some 124"
    by (simp add: midi_of_def u8_of_f32_def f32_evals)
  show ?thesis by (simp add: process_input_def e m send_midi_cc_def consts_defs)
qed

lemma cold_step_15:
  "process_input 4095 True \<lparr>channel = 9, filtered_value = 8237129 / 2048, last_midi_value = 124, cc_number = 1\<rparr> =
     Some ([(0, [0xB0, 1, 125])], \<lparr>channel = 9, filtered_value = 8274487 / 2048, last_midi_value = 125, cc_number = 1\<rparr>)"
proof -
  have e: "ema 4095 (8237129 / 2048) = 8274487 / 2048"
    by (simp add: ema_def ALPHA_def f32_evals)
  have m: "midi_of (8274487 / 2048) = Some 125"
    by (simp add: midi_of_def u8_of_f32_def f32_evals)
  show ?thesis by (simp add: process_input_def e m send_midi_cc_def consts_defs)
qed

lemma cold_step_16:
  "process_input 4095 True \<lparr>channel = 9, filtered_value = 8274487 / 2048, last_midi_value = 125, cc_number = 1\<rparr> =
     Some ([], \<lparr>channel = 9, filtered_value = 8302505 / 2048, last_midi_value = 125, cc_number = 1\<rparr>)"
proof -
  have e: "ema 4095 (8274487 / 2048) = 8302505 / 2048"
    by (simp add: ema_def ALPHA_def f32_evals)
  have m: "midi_of (8302505 / 2048) = Some 125"
    by (simp add: midi_of_def u8_of_f32_def f32_evals)
  show ?thesis by (simp add: process_input_def e m send_midi_cc_def consts_defs)
qed

lemma cold_step_17:
  "process_input 4095 True \<lparr>channel = 9, filtered_value = 8302505 / 2048, last_midi_value = 125, cc_number = 1\<rparr> =
     Some ([(0, [0xB0, 1, 126])], \<lparr>channel = 9, filtered_value = 8323519 / 2048, last_midi_value = 126, cc_number = 1\<rparr>)"
proof -
  have e: "ema 4095 (8302505 / 2048) = 8323519 / 2048"
    by (simp add: ema_def ALPHA_def f32_evals)
  have m: "midi_of (8323519 / 2048) = Some 126"
    by (simp add: midi_of_def u8_of_f32_def f32_evals)
  show ?thesis by (simp add: process_input_def e m send_midi_cc_def consts_defs)
qed

lemma cold_step_18:
  "process_input 4095 True \<lparr>channel = 9, filtered_value = 8323519 / 2048, last_midi_value = 126, cc_number = 1\<rparr> =
     Some ([], \<lparr>channel = 9, filtered_value = 8339279 / 2048, last_midi_value = 126, cc_number = 1\<rparr>)"
proof -
  have e: "ema 4095 (8323519 / 2048) = 8339279 / 2048"
    by (simp add: ema_def ALPHA_def f32_evals)
  have m: "midi_of (8339279 / 2048) = Some 126"
    by (simp add: midi_of_def u8_of_f32_def f32_evals)
  show ?thesis by (simp add: process_input_def e m send_midi_cc_def consts_defs)
qed

lemma cold_step_19:
  "process_input 4095 True \<lparr>channel = 9, filtered_value = 8339279 / 2048, last_midi_value = 126, cc_number = 1\<rparr> =
     Some ([], \<lparr>channel = 9, filtered_value = 8351099 / 2048, last_midi_value = 126, cc_number = 1\<rparr>)"
proof -
  have e: "ema 4095 (8339279 / 2048) = 8351099 / 2048"
    by (simp add: ema_def ALPHA_def f32_evals)
  have m: "midi_of (8351099 / 2048) = Some 126"
    by (simp add: midi_of_def u8_of_f32_def f32_evals)
  show ?thesis by (simp add: process_input_def e m send_midi_cc_def consts_defs)
qed

lemma cold_step_20:
  "process_input 4095 True \<lparr>channel = 9, filtered_value = 8351099 / 2048, last_midi_value = 126, cc_number = 1\<rparr> =
     Some ([], \<lparr>channel = 9, filtered_value = 2089991 / 512, last_midi_value = 126, cc_number = 1\<rparr>)"
proof -
  have e: "ema 4095 (8351099 / 2048) = 2089991 / 512"
    by (simp add: ema_def ALPHA_def f32_evals)
  have m: "midi_of (2089991 / 512) = Some 126"
    by (simp add: midi_of_def u8_of_f32_def f32_evals)
  show ?thesis by (simp add: process_input_def e m send_midi_cc_def consts_defs)
qed

lemma cold_step_21:
  "process_input 4095 True \<lparr>channel = 9, filtered_value = 2089991 / 512, last_midi_value = 126, cc_number = 1\<rparr> =
     Some ([], \<lparr>channel = 9, filtered_value = 8366613 / 2048, last_midi_value = 126, cc_number = 1\<rparr>)"
proof -
  have e: "ema 4095 (2089991 / 512) = 8366613 / 2048"
    by (simp add: ema_def ALPHA_def f32_evals)
  have m: "midi_of (8366613 / 2048) = Some 126"
    by (simp add: midi_of_def u8_of_f32_def f32_evals)
  show ?thesis by (simp add: process_input_def e m send_midi_cc_def consts_defs)
qed

lemma cold_step_22:
  "process_input 4095 True \<lparr>channel = 9, filtered_value = 8366613 / 2048, last_midi_value = 126, cc_number = 1\<rparr> =
     Some ([], \<lparr>channel = 9, filtered_value = 523225 / 128, last_midi_value = 126, cc_number = 1\<rparr>)"
proof -
  have e: "ema 4095 (8366613 / 2048) = 523225 / 128"
    by (simp add: ema_def ALPHA_def f32_evals)
  have m: "midi_of (523225 / 128) = Some 126"
    by (simp add: midi_of_def u8_of_f32_def f32_evals)
  show ?thesis by (simp add: process_input_def e m send_midi_cc_def consts_defs)
qed

lemma cold_step_23:
  "process_input 4095 True \<lparr>channel = 9, filtered_value = 523225 / 128, last_midi_value = 126, cc_number = 1\<rparr> =
     Some ([], \<lparr>channel = 9, filtered_value = 2093835 / 512, last_midi_value = 126, cc_number = 1\<rparr>)"
proof -
  have e: "ema 4095 (523225 / 128) = 2093835 / 512"
    by (simp add: ema_def ALPHA_def f32_evals)
  have m: "midi_of (2093835 / 512) = Some 126"
    by (simp add: midi_of_def u8_of_f32_def f32_evals)
  show ?thesis by (simp add: process_input_def e m send_midi_cc_def consts_defs)
qed

lemma cold_step_24:
  "process_input 4095 True \<lparr>channel = 9, filtered_value = 2093835 / 512, last_midi_value = 126, cc_number = 1\<rparr> =
     Some ([], \<lparr>channel = 9, filtered_value = 8378145 / 2048, last_midi_value = 126, cc_number = 1\<rparr>)"
proof -
  have e: "ema 4095 (2093835 / 512) = 8378145 / 2048"
    by (simp add: ema_def ALPHA_def f32_evals)
  have m: "midi_of (8378145 / 2048) = Some 126"
    by (simp add: midi_of_def u8_of_f32_def f32_evals)
  show ?thesis by (simp add: process_input_def e m send_midi_cc_def consts_defs)
qed

lemma cold_step_25:
  "process_input 4095 True \<lparr>channel = 9, filtered_value = 8378145 / 2048, last_midi_value = 126, cc_number = 1\<rparr> =
     Some ([], \<lparr>channel = 9, filtered_value = 8380249 / 2048, last_midi_value = 126, cc_number = 1\<rparr>)"
proof -
  have e: "ema 4095 (8378145 / 2048) = 8380249 / 2048"
    by (simp add: ema_def ALPHA_def f32_evals)
  have m: "midi_of (8380249 / 2048) = Some 126"
    by (simp add: midi_of_def u8_of_f32_def f32_evals)
  show ?thesis by (simp add: process_input_def e m send_midi_cc_def consts_defs)
qed

lemma cold_step_26:
  "process_input 4095 True \<lparr>channel = 9, filtered_value = 8380249 / 2048, last_midi_value = 126, cc_number = 1\<rparr> =
     Some ([], \<lparr>channel = 9, filtered_value = 8381827 / 2048, last_midi_value = 126, cc_number = 1\<rparr>)"
proof -
  have e: "ema 4095 (8380249 / 2048) = 8381827 / 2048"
    by (simp add: ema_def ALPHA_def f32_evals)
  have m: "midi_of (8381827 / 2048) = Some 126"
    by (simp add: midi_of_def u8_of_f32_def f32_evals)
  show ?thesis by (simp add: process_input_def e m send_midi_cc_def consts_defs)
qed

lemma cold_step_27:
  "process_input 4095 True \<lparr>channel = 9, filtered_value = 8381827 / 2048, last_midi_value = 126, cc_number = 1\<rparr> =
     Some ([], \<lparr>channel = 9, filtered_value = 4191505 / 1024, last_midi_value = 126, cc_number = 1\<rparr>)"
proof -
  have e: "ema 4095 (8381827 / 2048) = 4191505 / 1024"
    by (simp add: ema_def ALPHA_def f32_evals)
  have m: "midi_of (4191505 / 1024) = Some 126"
    by (simp add: midi_of_def u8_of_f32_def f32_evals)
  show ?thesis by (simp add: process_input_def e m send_midi_cc_def consts_defs)
qed

lemma cold_step_28:
  "process_input 4095 True \<lparr>channel = 9, filtered_value = 4191505 / 1024, last_midi_value = 126, cc_number = 1\<rparr> =
     Some ([], \<lparr>channel = 9, filtered_value = 16767795 / 4096, last_midi_value = 126, cc_number = 1\<rparr>)"
proof -
  have e: "ema 4095 (4191505 / 1024) = 16767795 / 4096"
    by (simp add: ema_def ALPHA_def f32_evals)
  have m: "midi_of (16767795 / 4096) = Some 126"
    by (simp add: midi_of_def u8_of_f32_def f32_evals)
  show ?thesis by (simp add: process_input_def e m send_midi_cc_def consts_defs)
qed

lemma cold_step_29:
  "process_input 4095 True \<lparr>channel = 9, filtered_value = 16767795 / 4096, last_midi_value = 126, cc_number = 1\<rparr> =
     Some ([], \<lparr>channel = 9, filtered_value = 8384563 / 2048, last_midi_value = 126, cc_number = 1\<rparr>)"
proof -
  have e: "ema 4095 (16767795 / 4096) = 8384563 / 2048"
    by (simp add: ema_def ALPHA_def f32_evals)
  have m: "midi_of (8384563 / 2048) = Some 126"
    by (simp add: midi_of_def u8_of_f32_def f32_evals)
  show ?thesis by (simp add: process_input_def e m send_midi_cc_def consts_defs)
qed

lemma cold_step_30:
  "process_input 4095 True \<lparr>channel = 9, filtered_value = 8384563 / 2048, last_midi_value = 126, cc_number = 1\<rparr> =
     Some ([], \<lparr>channel = 9, filtered_value = 4192531 / 1024, last_midi_value = 126, cc_number = 1\<rparr>)"
proof -
  have e: "ema 4095 (8384563 / 2048) = 4192531 / 1024"
    by (simp add: ema_def ALPHA_def f32_evals)
  have m: "midi_of (4192531 / 1024) = Some 126"
    by (simp add: midi_of_def u8_of_f32_def f32_evals)
  show ?thesis by (simp add: process_input_def e m send_midi_cc_def consts_defs)
qed

lemma cold_step_31:
  "process_input 4095 True \<lparr>channel = 9, filtered_value = 4192531 / 1024, last_midi_value = 126, cc_number = 1\<rparr> =
     Some ([], \<lparr>channel = 9, filtered_value = 16770873 / 4096, last_midi_value = 126, cc_number = 1\<rparr>)"
proof -
  have e: "ema 4095 (4192531 / 1024) = 16770873 / 4096"
    by (simp add: ema_def ALPHA_def f32_evals)
  have m: "midi_of (16770873 / 4096) = Some 126"
    by (simp add: midi_of_def u8_of_f32_def f32_evals)
  show ?thesis by (simp add: process_input_def e m send_midi_cc_def consts_defs)
qed

lemma cold_step_32:
  "process_input 4095 True \<lparr>channel = 9, filtered_value = 16770873 / 4096, last_midi_value = 126, cc_number = 1\<rparr> =
     Some ([], \<lparr>channel = 9, filtered_value = 16771435 / 4096, last_midi_value = 126, cc_number = 1\<rparr>)"
proof -
  have e: "ema 4095 (16770873 / 4096) = 16771435 / 4096"
    by (simp add: ema_def ALPHA_def f32_evals)
  have m: "midi_of (16771435 / 4096) = Some 126"
    by (simp add: midi_of_def u8_of_f32_def f32_evals)
  show ?thesis by (simp add: process_input_def e m send_midi_cc_def consts_defs)
qed

lemma cold_step_33:
  "process_input 4095 True \<lparr>channel = 9, filtered_value = 16771435 / 4096, last_midi_value = 126, cc_number = 1\<rparr> =
     Some ([], \<lparr>channel = 9, filtered_value = 1048241 / 256, last_midi_value = 126, cc_number = 1\<rparr>)"
proof -
  have e: "ema 4095 (16771435 / 4096) = 1048241 / 256"
    by (simp add: ema_def ALPHA_def f32_evals)
  have m: "midi_of (1048241 / 256) = Some 126"
    by (simp add: midi_of_def u8_of_f32_def f32_evals)
  show ?thesis by (simp add: process_input_def e m send_midi_cc_def consts_defs)
qed

lemma cold_step_34:
  "process_input 4095 True \<lparr>channel = 9, filtered_value = 1048241 / 256, last_midi_value = 126, cc_number = 1\<rparr> =
     Some ([], \<lparr>channel = 9, filtered_value = 4193043 / 1024, last_midi_value = 126, cc_number = 1\<rparr>)"
proof -
  have e: "ema 4095 (1048241 / 256) = 4193043 / 1024"
    by (simp add: ema_def ALPHA_def f32_evals)
  have m: "midi_of (4193043 / 1024) = Some 126"
    by (simp add: midi_of_def u8_of_f32_def f32_evals)
  show ?thesis by (simp add: process_input_def e m send_midi_cc_def consts_defs)
qed

lemma cold_step_35:
  "process_input 4095 True \<lparr>channel = 9, filtered_value = 4193043 / 1024, last_midi_value = 126, cc_number = 1\<rparr> =
     Some ([], \<lparr>channel = 9, filtered_value = 16772409 / 4096, last_midi_value = 126, cc_number = 1\<rparr>)"
proof -
  have e: "ema 4095 (4193043 / 1024) = 16772409 / 4096"
    by (simp add: ema_def ALPHA_def f32_evals)
  have m: "midi_of (16772409 / 4096) = Some 126"
    by (simp add: midi_of_def u8_of_f32_def f32_evals)
  show ?thesis by (simp add: process_input_def e m send_midi_cc_def consts_defs)
qed

lemma cold_step_36:
  "process_input 4095 True \<lparr>channel = 9, filtered_value = 16772409 / 4096, last_midi_value = 126, cc_number = 1\<rparr> =
     Some ([], \<lparr>channel = 9, filtered_value = 16772587 / 4096, last_midi_value = 126, cc_number = 1\<rparr>)"
proof -
  have e: "ema 4095 (16772409 / 4096) = 16772587 / 4096"
    by (simp add: ema_def ALPHA_def f32_evals)
  have m: "midi_of (16772587 / 4096) = Some 126"
    by (simp add: midi_of_def u8_of_f32_def f32_evals)
  show ?thesis by (simp add: process_input_def e m send_midi_cc_def consts_defs)
qed

lemma cold_step_37:
  "process_input 4095 True \<lparr>channel = 9, filtered_value = 16772587 / 4096, last_midi_value = 126, cc_number = 1\<rparr> =
     Some ([], \<lparr>channel = 9, filtered_value = 1048295 / 256, last_midi_value = 126, cc_number = 1\<rparr>)"
proof -
  have e: "ema 4095 (16772587 / 4096) = 1048295 / 256"
    by (simp add: ema_def ALPHA_def f32_evals)
  have m: "midi_of (1048295 / 256) = Some 126"
    by (simp add: midi_of_def u8_of_f32_def f32_evals)
  show ?thesis by (simp add: process_input_def e m send_midi_cc_def consts_defs)
qed

lemma cold_step_38:
  "process_input 4095 True \<lparr>channel = 9, filtered_value = 1048295 / 256, last_midi_value = 126, cc_number = 1\<rparr> =
     Some ([], \<lparr>channel = 9, filtered_value = 4193205 / 1024, last_midi_value = 126, cc_number = 1\<rparr>)"
proof -
  have e: "ema 4095 (1048295 / 256) = 4193205 / 1024"
    by (simp add: ema_def ALPHA_def f32_evals)
  have m: "midi_of (4193205 / 1024) = Some 126"
    by (simp add: midi_of_def u8_of_f32_def f32_evals)
  show ?thesis by (simp add: process_input_def e m send_midi_cc_def consts_defs)
qed

lemma cold_step_39:
  "process_input 4095 True \<lparr>channel = 9, filtered_value = 4193205 / 1024, last_midi_value = 126, cc_number = 1\<rparr> =
     Some ([], \<lparr>channel = 9, filtered_value = 16772895 / 4096, last_midi_value = 126, cc_number = 1\<rparr>)"
proof -
  have e: "ema 4095 (4193205 / 1024) = 16772895 / 4096"
    by (simp add: ema_def ALPHA_def f32_evals)
  have m: "midi_of (16772895 / 4096) = Some 126"
    by (simp add: midi_of_def u8_of_f32_def f32_evals)
  show ?thesis by (simp add: process_input_def e m send_midi_cc_def consts_defs)
qed

lemma cold_step_40:
  "process_input 4095 True \<lparr>channel = 9, filtered_value = 16772895 / 4096, last_midi_value = 126, cc_number = 1\<rparr> =
     Some ([], \<lparr>channel = 9, filtered_value = 16772951 / 4096, last_midi_value = 126, cc_number = 1\<rparr>)"
proof -
  have e: "ema 4095 (16772895 / 4096) = 16772951 / 4096"
    by (simp add: ema_def ALPHA_def f32_evals)
  have m: "midi_of (16772951 / 4096) = Some 126"
    by (simp add: midi_of_def u8_of_f32_def f32_evals)
  show ?thesis by (simp add: process_input_def e m send_midi_cc_def consts_defs)
qed

lemma cold_step_41:
  "process_input 4095 True \<lparr>channel = 9, filtered_value = 16772951 / 4096, last_midi_value = 126, cc_number = 1\<rparr> =
     Some ([], \<lparr>channel = 9, filtered_value = 16772993 / 4096, last_midi_value = 126, cc_number = 1\<rparr>)"
proof -
  have e: "ema 4095 (16772951 / 4096) = 16772993 / 4096"
    by (simp add: ema_def ALPHA_def f32_evals)
  have m: "midi_of (16772993 / 4096) = Some 126"
    by (simp add: midi_of_def u8_of_f32_def f32_evals)
  show ?thesis by (simp add: process_input_def e m send_midi_cc_def consts_defs)
qed

lemma cold_step_42:
  "process_input 4095 True \<lparr>channel = 9, filtered_value = 16772993 / 4096, last_midi_value = 126, cc_number = 1\<rparr> =
     Some ([], \<lparr>channel = 9, filtered_value = 16773025 / 4096, last_midi_value = 126, cc_number = 1\<rparr>)"
proof -
  have e: "ema 4095 (16772993 / 4096) = 16773025 / 4096"
    by (simp add: ema_def ALPHA_def f32_evals)
  have m: "midi_of (16773025 / 4096) = Some 126"
    by (simp add: midi_of_def u8_of_f32_def f32_evals)
  show ?thesis by (simp add: process_input_def e m send_midi_cc_def consts_defs)
qed

lemma cold_step_43:
  "process_input 4095 True \<lparr>channel = 9, filtered_value = 16773025 / 4096, last_midi_value = 126, cc_number = 1\<rparr> =
     Some ([], \<lparr>channel = 9, filtered_value = 16773049 / 4096, last_midi_value = 126, cc_number = 1\<rparr>)"
proof -
  have e: "ema 4095 (16773025 / 4096) = 16773049 / 4096"
    by (simp add: ema_def ALPHA_def f32_evals)
  have m: "midi_of (16773049 / 4096) = Some 126"
    by (simp add: midi_of_def u8_of_f32_def f32_evals)
  show ?thesis by (simp add: process_input_def e m send_midi_cc_def consts_defs)
qed

lemma cold_step_44:
  "process_input 4095 True \<lparr>channel = 9, filtered_value = 16773049 / 4096, last_midi_value = 126, cc_number = 1\<rparr> =
     Some ([], \<lparr>channel = 9, filtered_value = 16773067 / 4096, last_midi_value = 126, cc_number = 1\<rparr>)"
proof -
  have e: "ema 4095 (16773049 / 4096) = 16773067 / 4096"
    by (simp add: ema_def ALPHA_def f32_evals)
  have m: "midi_of (16773067 / 4096) = Some 126"
    by (simp add: midi_of_def u8_of_f32_def f32_evals)
  show ?thesis by (simp add: process_input_def e m send_midi_cc_def consts_defs)
qed

lemma cold_step_45:
  "process_input 4095 True \<lparr>channel = 9, filtered_value = 16773067 / 4096, last_midi_value = 126, cc_number = 1\<rparr> =
     Some ([], \<lparr>channel = 9, filtered_value = 2096635 / 512, last_midi_value = 126, cc_number = 1\<rparr>)"
proof -
  have e: "ema 4095 (16773067 / 4096) = 2096635 / 512"
    by (simp add: ema_def ALPHA_def f32_evals)
  have m: "midi_of (2096635 / 512) = Some 126"
    by (simp add: midi_of_def u8_of_f32_def f32_evals)
  show ?thesis by (simp add: process_input_def e m send_midi_cc_def consts_defs)
qed

lemma cold_step_46:
  "process_input 4095 True \<lparr>channel = 9, filtered_value = 2096635 / 512, last_midi_value = 126, cc_number = 1\<rparr> =
     Some ([], \<lparr>channel = 9, filtered_value = 8386545 / 2048, last_midi_value = 126, cc_number = 1\<rparr>)"
proof -
  have e: "ema 4095 (2096635 / 512) = 8386545 / 2048"
    by (simp add: ema_def ALPHA_def f32_evals)
  have m: "midi_of (8386545 / 2048) = Some 126"
    by (simp add: midi_of_def u8_of_f32_def f32_evals)
  show ?thesis by (simp add: process_input_def e m send_midi_cc_def consts_defs)
qed

lemma cold_step_47:
  "process_input 4095 True \<lparr>channel = 9, filtered_value = 8386545 / 2048, last_midi_value = 126, cc_number = 1\<rparr> =
     Some ([], \<lparr>channel = 9, filtered_value = 8386549 / 2048, last_midi_value = 126, cc_number = 1\<rparr>)"
proof -
  have e: "ema 4095 (8386545 / 2048) = 8386549 / 2048"
    by (simp add: ema_def ALPHA_def f32_evals)
  have m: "midi_of (8386549 / 2048) = Some 126"
    by (simp add: midi_of_def u8_of_f32_def f32_evals)
  show ?thesis by (simp add: process_input_def e m send_midi_cc_def consts_defs)
qed

lemma cold_step_48:
  "process_input 4095 True \<lparr>channel = 9, filtered_value = 8386549 / 2048, last_midi_value = 126, cc_number = 1\<rparr> =
     Some ([], \<lparr>channel = 9, filtered_value = 1048319 / 256, last_midi_value = 126, cc_number = 1\<rparr>)"
proof -
  have e: "ema 4095 (8386549 / 2048) = 1048319 / 256"
    by (simp add: ema_def ALPHA_def f32_evals)
  have m: "midi_of (1048319 / 256) = Some 126"
    by (simp add: midi_of_def u8_of_f32_def f32_evals)
  show ?thesis by (simp add: process_input_def e m send_midi_cc_def consts_defs)
qed

lemma cold_step_49:
  "process_input 4095 True \<lparr>channel = 9, filtered_value = 1048319 / 256, last_midi_value = 126, cc_number = 1\<rparr> =
     Some ([], \<lparr>channel = 9, filtered_value = 4193277 / 1024, last_midi_value = 126, cc_number = 1\<rparr>)"
proof -
  have e: "ema 4095 (1048319 / 256) = 4193277 / 1024"
    by (simp add: ema_def ALPHA_def f32_evals)
  have m: "midi_of (4193277 / 1024) = Some 126"
    by (simp add: midi_of_def u8_of_f32_def f32_evals)
  show ?thesis by (simp add: process_input_def e m send_midi_cc_def consts_defs)
qed

lemma cold_step_50:
  "process_input 4095 True \<lparr>channel = 9, filtered_value = 4193277 / 1024, last_midi_value = 126, cc_number = 1\<rparr> =
     Some ([], \<lparr>channel = 9, filtered_value = 16773111 / 4096, last_midi_value = 126, cc_number = 1\<rparr>)"
proof -
  have e: "ema 4095 (4193277 / 1024) = 16773111 / 4096"
    by (simp add: ema_def ALPHA_def f32_evals)
  have m: "midi_of (16773111 / 4096) = Some 126"
    by (simp add: midi_of_def u8_of_f32_def f32_evals)
  show ?thesis by (simp add: process_input_def e m send_midi_cc_def consts_defs)
qed

lemma cold_step_51:
  "process_input 4095 True \<lparr>channel = 9, filtered_value = 16773111 / 4096, last_midi_value = 126, cc_number = 1\<rparr> =
     Some ([], \<lparr>channel = 9, filtered_value = 16773113 / 4096, last_midi_value = 126, cc_number = 1\<rparr>)"
proof -
  have e: "ema 4095 (16773111 / 4096) = 16773113 / 4096"
    by (simp add: ema_def ALPHA_def f32_evals)
  have m: "midi_of (16773113 / 4096) = Some 126"
    by (simp add: midi_of_def u8_of_f32_def f32_evals)
  show ?thesis by (simp add: process_input_def e m send_midi_cc_def consts_defs)
qed

lemma cold_step_52:
  "process_input 4095 True \<lparr>channel = 9, filtered_value = 16773113 / 4096, last_midi_value = 126, cc_number = 1\<rparr> =
     Some ([], \<lparr>channel = 9, filtered_value = 16773115 / 4096, last_midi_value = 126, cc_number = 1\<rparr>)"
proof -
  have e: "ema 4095 (16773113 / 4096) = 16773115 / 4096"
    by (simp add: ema_def ALPHA_def f32_evals)
  have m: "midi_of (16773115 / 4096) = Some 126"
    by (simp add: midi_of_def u8_of_f32_def f32_evals)
  show ?thesis by (simp add: process_input_def e m send_midi_cc_def consts_defs)
qed

lemma cold_step_53:
  "process_input 4095 True \<lparr>channel = 9, filtered_value = 16773115 / 4096, last_midi_value = 126, cc_number = 1\<rparr> =
     Some ([], \<lparr>channel = 9, filtered_value = 4193279 / 1024, last_midi_value = 126, cc_number = 1\<rparr>)"
proof -
  have e: "ema 4095 (16773115 / 4096) = 4193279 / 1024"
    by (simp add: ema_def ALPHA_def f32_evals)
  have m: "midi_of (4193279 / 1024) = Some 126"
    by (simp add: midi_of_def u8_of_f32_def f32_evals)
  show ?thesis by (simp add: process_input_def e m send_midi_cc_def consts_defs)
qed

lemma cold_step_54:
  "process_input 4095 True \<lparr>channel = 9, filtered_value = 4193279 / 1024, last_midi_value = 126, cc_number = 1\<rparr> =
     Some ([], \<lparr>channel = 9, filtered_value = 16773117 / 4096, last_midi_value = 126, cc_number = 1\<rparr>)"
proof -
  have e: "ema 4095 (4193279 / 1024) = 16773117 / 4096"
    by (simp add: ema_def ALPHA_def f32_evals)
  have m: "midi_of (16773117 / 4096) = Some 126"
    by (simp add: midi_of_def u8_of_f32_def f32_evals)
  show ?thesis by (simp add: process_input_def e m send_midi_cc_def consts_defs)
qed

lemma cold_step_55:
  "process_input 4095 True \<lparr>channel = 9, filtered_value = 16773117 / 4096, last_midi_value = 126, cc_number = 1\<rparr> =
     Some ([], \<lparr>channel = 9, filtered_value = 8386559 / 2048, last_midi_value = 126, cc_number = 1\<rparr>)"
proof -
  have e: "ema 4095 (16773117 / 4096) = 8386559 / 2048"
    by (simp add: ema_def ALPHA_def f32_evals)
  have m: "midi_of (8386559 / 2048) = Some 126"
    by (simp add: midi_of_def u8_of_f32_def f32_evals)
  show ?thesis by (simp add: process_input_def e m send_midi_cc_def consts_defs)
qed

lemma cold_step_56:
  "process_input 4095 True \<lparr>channel = 9, filtered_value = 8386559 / 2048, last_midi_value = 126, cc_number = 1\<rparr> =
     Some ([], \<lparr>channel = 9, filtered_value = 8386559 / 2048, last_midi_value = 126, cc_number = 1\<rparr>)"
proof -
  have e: "ema 4095 (8386559 / 2048) = 8386559 / 2048"
    by (simp add: ema_def ALPHA_def f32_evals)
  have m: "midi_of (8386559 / 2048) = Some 126"
    by (simp add: midi_of_def u8_of_f32_def f32_evals)
  show ?thesis by (simp add: process_input_def e m send_midi_cc_def consts_defs)
qed

lemma run_replicate_next:
  assumes "run_input (replicate n (r, m)) a = Some (ws, a1)"
    and "process_input r m a1 = Some (w, a2)"
    and "k = n + 1" and "ws' = ws @ w"
  shows "run_input (replicate k (r, m)) a = Some (ws', a2)"
proof -
  have e: "replicate k (r, m) = replicate n (r, m) @ [(r, m)]"
    unfolding assms(3) by (simp add: replicate_append_same)
  have "run_input (replicate n (r, m) @ [(r, m)]) a = Some (ws @ w, a2)"
    by (simp add: run_input_append assms(1,2))
  then show ?thesis unfolding e assms(4) .
qed

lemma cold_run_0:
  "run_input (replicate 0 (4095, True)) (analog_inputs ! 0) = Some ([], \<lparr>channel = 9, filtered_value = 0, last_midi_value = 0, cc_number = 1\<rparr>)"
  by (simp add: analog_inputs_def consts_defs)

lemma cold_run_1:
  "run_input (replicate 1 (4095, True)) (analog_inputs ! 0) =
     Some ([(0, [0xB0, 1, 31])],
           \<lparr>channel = 9, filtered_value = 4095 / 4, last_midi_value = 31, cc_number = 1\<rparr>)"
  by (rule run_replicate_next [OF cold_run_0 cold_step_1]) simp_all

lemma cold_run_2:
  "run_input (replicate 2 (4095, True)) (analog_inputs ! 0) =
     Some ([(0, [0xB0, 1, 31]), (0, [0xB0, 1, 55])],
           \<lparr>channel = 9, filtered_value = 28665 / 16, last_midi_value = 55, cc_number = 1\<rparr>)"
  by (rule run_replicate_next [OF cold_run_1 cold_step_2]) simp_all

lemma cold_run_3:
  "run_input (replicate 3 (4095, True)) (analog_inputs ! 0) =
     Some ([(0, [0xB0, 1, 31]), (0, [0xB0, 1, 55]), (0, [0xB0, 1, 73])],
           \<lparr>channel = 9, filtered_value = 151515 / 64, last_midi_value = 73, cc_number = 1\<rparr>)"
  by (rule run_replicate_next [OF cold_run_2 cold_step_3]) simp_all

lemma cold_run_4:
  "run_input (replicate 4 (4095, True)) (analog_inputs ! 0) =
     Some ([(0, [0xB0, 1, 31]), (0, [0xB0, 1, 55]), (0, [0xB0, 1, 73]), (0, [0xB0, 1, 86])],
           \<lparr>channel = 9, filtered_value = 716625 / 256, last_midi_value = 86, cc_number = 1\<rparr>)"
  by (rule run_replicate_next [OF cold_run_3 cold_step_4]) simp_all

lemma cold_run_5:
  "run_input (replicate 5 (4095, True)) (analog_inputs ! 0) =
     Some ([(0, [0xB0, 1, 31]), (0, [0xB0, 1, 55]), (0, [0xB0, 1, 73]), (0, [0xB0, 1, 86]), (0, [0xB0, 1, 96])],
           \<lparr>channel = 9, filtered_value = 3198195 / 1024, last_midi_value = 96, cc_number = 1\<rparr>)"
  by (rule run_replicate_next [OF cold_run_4 cold_step_5]) simp_all

lemma cold_run_6:
  "run_input (replicate 6 (4095, True)) (analog_inputs ! 0) =
     Some ([(0, [0xB0, 1, 31]), (0, [0xB0, 1, 55]), (0, [0xB0, 1, 73]), (0, [0xB0, 1, 86]), (0, [0xB0, 1, 96]), (0, [0xB0, 1, 104])],
           \<lparr>channel = 9, filtered_value = 13787865 / 4096, last_midi_value = 104, cc_number = 1\<rparr>)"
  by (rule run_replicate_next [OF cold_run_5 cold_step_6]) simp_all

lemma cold_run_7:
  "run_input (replicate 7 (4095, True)) (analog_inputs ! 0) =
     Some ([(0, [0xB0, 1, 31]), (0, [0xB0, 1, 55]), (0, [0xB0, 1, 73]), (0, [0xB0, 1, 86]), (0, [0xB0, 1, 96]), (0, [0xB0, 1, 104]), (0, [0xB0, 1, 110])],
           \<lparr>channel = 9, filtered_value = 14534179 / 4096, last_midi_value = 110, cc_number = 1\<rparr>)"
  by (rule run_replicate_next [OF cold_run_6 cold_step_7]) simp_all

lemma cold_run_8:
  "run_input (replicate 8 (4095, True)) (analog_inputs ! 0) =
     Some ([(0, [0xB0, 1, 31]), (0, [0xB0, 1, 55]), (0, [0xB0, 1, 73]), (0, [0xB0, 1, 86]), (0, [0xB0, 1, 96]), (0, [0xB0, 1, 104]), (0, [0xB0, 1, 110]), (0, [0xB0, 1, 114])],
           \<lparr>channel = 9, filtered_value = 7546957 / 2048, last_midi_value = 114, cc_number = 1\<rparr>)"
  by (rule run_replicate_next [OF cold_run_7 cold_step_8]) simp_all

lemma cold_run_9:
  "run_input (replicate 9 (4095, True)) (analog_inputs ! 0) =
     Some ([(0, [0xB0, 1, 31]), (0, [0xB0, 1, 55]), (0, [0xB0, 1, 73]), (0, [0xB0, 1, 86]), (0, [0xB0, 1, 96]), (0, [0xB0, 1, 104]), (0, [0xB0, 1, 110]), (0, [0xB0, 1, 114]), (0, [0xB0, 1, 117])],
           \<lparr>channel = 9, filtered_value = 3878429 / 1024, last_midi_value = 117, cc_number = 1\<rparr>)"
  by (rule run_replicate_next [OF cold_run_8 cold_step_9]) simp_all

lemma cold_run_10:
  "run_input (replicate 10 (4095, True)) (analog_inputs ! 0) =
     Some ([(0, [0xB0, 1, 31]), (0, [0xB0, 1, 55]), (0, [0xB0, 1, 73]), (0, [0xB0, 1, 86]), (0, [0xB0, 1, 96]), (0, [0xB0, 1, 104]), (0, [0xB0, 1, 110]), (0, [0xB0, 1, 114]), (0, [0xB0, 1, 117]), (0, [0xB0, 1, 119])],
           \<lparr>channel = 9, filtered_value = 15828567 / 4096, last_midi_value = 119, cc_number = 1\<rparr>)"
  by (rule run_replicate_next [OF cold_run_9 cold_step_10]) simp_all

lemma cold_run_11:
  "run_input (replicate 11 (4095, True)) (analog_inputs ! 0) =
     Some ([(0, [0xB0, 1, 31]), (0, [0xB0, 1, 55]), (0, [0xB0, 1, 73]), (0, [0xB0, 1, 86]), (0, [0xB0, 1, 96]), (0, [0xB0, 1, 104]), (0, [0xB0, 1, 110]), (0, [0xB0, 1, 114]), (0, [0xB0, 1, 117]), (0, [0xB0, 1, 119]), (0, [0xB0, 1, 121])],
           \<lparr>channel = 9, filtered_value = 16064705 / 4096, last_midi_value = 121, cc_number = 1\<rparr>)"
  by (rule run_replicate_next [OF cold_run_10 cold_step_11]) simp_all

lemma cold_run_12:
  "run_input (replicate 12 (4095, True)) (analog_inputs ! 0) =
     Some ([(0, [0xB0, 1, 31]), (0, [0xB0, 1, 55]), (0, [0xB0, 1, 73]), (0, [0xB0, 1, 86]), (0, [0xB0, 1, 96]), (0, [0xB0, 1, 104]), (0, [0xB0, 1, 110]), (0, [0xB0, 1, 114]), (0, [0xB0, 1, 117]), (0, [0xB0, 1, 119]), (0, [0xB0, 1, 121]), (0, [0xB0, 1, 122])],
           \<lparr>channel = 9, filtered_value = 16241809 / 4096, last_midi_value = 122, cc_number = 1\<rparr>)"
  by (rule run_replicate_next [OF cold_run_11 cold_step_12]) simp_all

lemma cold_run_13:
  "run_input (replicate 13 (4095, True)) (analog_inputs ! 0) =
     Some ([(0, [0xB0, 1, 31]), (0, [0xB0, 1, 55]), (0, [0xB0, 1, 73]), (0, [0xB0, 1, 86]), (0, [0xB0, 1, 96]), (0, [0xB0, 1, 104]), (0, [0xB0, 1, 110]), (0, [0xB0, 1, 114]), (0, [0xB0, 1, 117]), (0, [0xB0, 1, 119]), (0, [0xB0, 1, 121]), (0, [0xB0, 1, 122]), (0, [0xB0, 1, 123])],
           \<lparr>channel = 9, filtered_value = 16374637 / 4096, last_midi_value = 123, cc_number = 1\<rparr>)"
  by (rule run_replicate_next [OF cold_run_12 cold_step_13]) simp_all

lemma cold_run_14:
  "run_input (replicate 14 (4095, True)) (analog_inputs ! 0) =
     Some ([(0, [0xB0, 1, 31]), (0, [0xB0, 1, 55]), (0, [0xB0, 1, 73]), (0, [0xB0, 1, 86]), (0, [0xB0, 1, 96]), (0, [0xB0, 1, 104]), (0, [0xB0, 1, 110]), (0, [0xB0, 1, 114]), (0, [0xB0, 1, 117]), (0, [0xB0, 1, 119]), (0, [0xB0, 1, 121]), (0, [0xB0, 1, 122]), (0, [0xB0, 1, 123]), (0, [0xB0, 1, 124])],
           \<lparr>channel = 9, filtered_value = 8237129 / 2048, last_midi_value = 124, cc_number = 1\<rparr>)"
  by (rule run_replicate_next [OF cold_run_13 cold_step_14]) simp_all

lemma cold_run_15:
  "run_input (replicate 15 (4095, True)) (analog_inputs ! 0) =
     Some ([(0, [0xB0, 1, 31]), (0, [0xB0, 1, 55]), (0, [0xB0, 1, 73]), (0, [0xB0, 1, 86]), (0, [0xB0, 1, 96]), (0, [0xB0, 1, 104]), (0, [0xB0, 1, 110]), (0, [0xB0, 1, 114]), (0, [0xB0, 1, 117]), (0, [0xB0, 1, 119]), (0, [0xB0, 1, 121]), (0, [0xB0, 1, 122]), (0, [0xB0, 1, 123]), (0, [0xB0, 1, 124]), (0, [0xB0, 1, 125])],
           \<lparr>channel = 9, filtered_value = 8274487 / 2048, last_midi_value = 125, cc_number = 1\<rparr>)"
  by (rule run_replicate_next [OF cold_run_14 cold_step_15]) simp_all

lemma cold_run_16:
  "run_input (replicate 16 (4095, True)) (analog_inputs ! 0) =
     Some ([(0, [0xB0, 1, 31]), (0, [0xB0, 1, 55]), (0, [0xB0, 1, 73]), (0, [0xB0, 1, 86]), (0, [0xB0, 1, 96]), (0, [0xB0, 1, 104]), (0, [0xB0, 1, 110]), (0, [0xB0, 1, 114]), (0, [0xB0, 1, 117]), (0, [0xB0, 1, 119]), (0, [0xB0, 1, 121]), (0, [0xB0, 1, 122]), (0, [0xB0, 1, 123]), (0, [0xB0, 1, 124]), (0, [0xB0, 1, 125])],
           \<lparr>channel = 9, filtered_value = 8302505 / 2048, last_midi_value = 125, cc_number = 1\<rparr>)"
  by (rule run_replicate_next [OF cold_run_15 cold_step_16]) simp_all

lemma cold_run_17:
  "run_input (replicate 17 (4095, True)) (analog_inputs ! 0) =
     Some ([(0, [0xB0, 1, 31]), (0, [0xB0, 1, 55]), (0, [0xB0, 1, 73]), (0, [0xB0, 1, 86]), (0, [0xB0, 1, 96]), (0, [0xB0, 1, 104]), (0, [0xB0, 1, 110]), (0, [0xB0, 1, 114]), (0, [0xB0, 1, 117]), (0, [0xB0, 1, 119]), (0, [0xB0, 1, 121]), (0, [0xB0, 1, 122]), (0, [0xB0, 1, 123]), (0, [0xB0, 1, 124]), (0, [0xB0, 1, 125]), (0, [0xB0, 1, 126])],
           \<lparr>channel = 9, filtered_value = 8323519 / 2048, last_midi_value = 126, cc_number = 1\<rparr>)"
  by (rule run_replicate_next [OF cold_run_16 cold_step_17]) simp_all

lemma cold_run_18:
  "run_input (replicate 18 (4095, True)) (analog_inputs ! 0) =
     Some ([(0, [0xB0, 1, 31]), (0, [0xB0, 1, 55]), (0, [0xB0, 1, 73]), (0, [0xB0, 1, 86]), (0, [0xB0, 1, 96]), (0, [0xB0, 1, 104]), (0, [0xB0, 1, 110]), (0, [0xB0, 1, 114]), (0, [0xB0, 1, 117]), (0, [0xB0, 1, 119]), (0, [0xB0, 1, 121]), (0, [0xB0, 1, 122]), (0, [0xB0, 1, 123]), (0, [0xB0, 1, 124]), (0, [0xB0, 1, 125]), (0, [0xB0, 1, 126])],
           \<lparr>channel = 9, filtered_value = 8339279 / 2048, last_midi_value = 126, cc_number = 1\<rparr>)"
  by (rule run_replicate_next [OF cold_run_17 cold_step_18]) simp_all

lemma cold_run_19:
  "run_input (replicate 19 (4095, True)) (analog_inputs ! 0) =
     Some ([(0, [0xB0, 1, 31]), (0, [0xB0, 1, 55]), (0, [0xB0, 1, 73]), (0, [0xB0, 1, 86]), (0, [0xB0, 1, 96]), (0, [0xB0, 1, 104]), (0, [0xB0, 1, 110]), (0, [0xB0, 1, 114]), (0, [0xB0, 1, 117]), (0, [0xB0, 1, 119]), (0, [0xB0, 1, 121]), (0, [0xB0, 1, 122]), (0, [0xB0, 1, 123]), (0, [0xB0, 1, 124]), (0, [0xB0, 1, 125]), (0, [0xB0, 1, 126])],
           \<lparr>channel = 9, filtered_value = 8351099 / 2048, last_midi_value = 126, cc_number = 1\<rparr>)"
  by (rule run_replicate_next [OF cold_run_18 cold_step_19]) simp_all

lemma cold_run_20:
  "run_input (replicate 20 (4095, True)) (analog_inputs ! 0) =
     Some ([(0, [0xB0, 1, 31]), (0, [0xB0, 1, 55]), (0, [0xB0, 1, 73]), (0, [0xB0, 1, 86]), (0, [0xB0, 1, 96]), (0, [0xB0, 1, 104]), (0, [0xB0, 1, 110]), (0, [0xB0, 1, 114]), (0, [0xB0, 1, 117]), (0, [0xB0, 1, 119]), (0, [0xB0, 1, 121]), (0, [0xB0, 1, 122]), (0, [0xB0, 1, 123]), (0, [0xB0, 1, 124]), (0, [0xB0, 1, 125]), (0, [0xB0, 1, 126])],
           \<lparr>channel = 9, filtered_value = 2089991 / 512, last_midi_value = 126, cc_number = 1\<rparr>)"
  by (rule run_replicate_next [OF cold_run_19 cold_step_20]) simp_all

lemma cold_run_21:
  "run_input (replicate 21 (4095, True)) (analog_inputs ! 0) =
     Some ([(0, [0xB0, 1, 31]), (0, [0xB0, 1, 55]), (0, [0xB0, 1, 73]), (0, [0xB0, 1, 86]), (0, [0xB0, 1, 96]), (0, [0xB0, 1, 104]), (0, [0xB0, 1, 110]), (0, [0xB0, 1, 114]), (0, [0xB0, 1, 117]), (0, [0xB0, 1, 119]), (0, [0xB0, 1, 121]), (0, [0xB0, 1, 122]), (0, [0xB0, 1, 123]), (0, [0xB0, 1, 124]), (0, [0xB0, 1, 125]), (0, [0xB0, 1, 126])],
           \<lparr>channel = 9, filtered_value = 8366613 / 2048, last_midi_value = 126, cc_number = 1\<rparr>)"
  by (rule run_replicate_next [OF cold_run_20 cold_step_21]) simp_all

lemma cold_run_22:
  "run_input (replicate 22 (4095, True)) (analog_inputs ! 0) =
     Some ([(0, [0xB0, 1, 31]), (0, [0xB0, 1, 55]), (0, [0xB0, 1, 73]), (0, [0xB0, 1, 86]), (0, [0xB0, 1, 96]), (0, [0xB0, 1, 104]), (0, [0xB0, 1, 110]), (0, [0xB0, 1, 114]), (0, [0xB0, 1, 117]), (0, [0xB0, 1, 119]), (0, [0xB0, 1, 121]), (0, [0xB0, 1, 122]), (0, [0xB0, 1, 123]), (0, [0xB0, 1, 124]), (0, [0xB0, 1, 125]), (0, [0xB0, 1, 126])],
           \<lparr>channel = 9, filtered_value = 523225 / 128, last_midi_value = 126, cc_number = 1\<rparr>)"
  by (rule run_replicate_next [OF cold_run_21 cold_step_22]) simp_all

lemma cold_run_23:
  "run_input (replicate 23 (4095, True)) (analog_inputs ! 0) =
     Some ([(0, [0xB0, 1, 31]), (0, [0xB0, 1, 55]), (0, [0xB0, 1, 73]), (0, [0xB0, 1, 86]), (0, [0xB0, 1, 96]), (0, [0xB0, 1, 104]), (0, [0xB0, 1, 110]), (0, [0xB0, 1, 114]), (0, [0xB0, 1, 117]), (0, [0xB0, 1, 119]), (0, [0xB0, 1, 121]), (0, [0xB0, 1, 122]), (0, [0xB0, 1, 123]), (0, [0xB0, 1, 124]), (0, [0xB0, 1, 125]), (0, [0xB0, 1, 126])],
           \<lparr>channel = 9, filtered_value = 2093835 / 512, last_midi_value = 126, cc_number = 1\<rparr>)"
  by (rule run_replicate_next [OF cold_run_22 cold_step_23]) simp_all

lemma cold_run_24:
  "run_input (replicate 24 (4095, True)) (analog_inputs ! 0) =
     Some ([(0, [0xB0, 1, 31]), (0, [0xB0, 1, 55]), (0, [0xB0, 1, 73]), (0, [0xB0, 1, 86]), (0, [0xB0, 1, 96]), (0, [0xB0, 1, 104]), (0, [0xB0, 1, 110]), (0, [0xB0, 1, 114]), (0, [0xB0, 1, 117]), (0, [0xB0, 1, 119]), (0, [0xB0, 1, 121]), (0, [0xB0, 1, 122]), (0, [0xB0, 1, 123]), (0, [0xB0, 1, 124]), (0, [0xB0, 1, 125]), (0, [0xB0, 1, 126])],
           \<lparr>channel = 9, filtered_value = 8378145 / 2048, last_midi_value = 126, cc_number = 1\<rparr>)"
  by (rule run_replicate_next [OF cold_run_23 cold_step_24]) simp_all

lemma cold_run_25:
  "run_input (replicate 25 (4095, True)) (analog_inputs ! 0) =
     Some ([(0, [0xB0, 1, 31]), (0, [0xB0, 1, 55]), (0, [0xB0, 1, 73]), (0, [0xB0, 1, 86]), (0, [0xB0, 1, 96]), (0, [0xB0, 1, 104]), (0, [0xB0, 1, 110]), (0, [0xB0, 1, 114]), (0, [0xB0, 1, 117]), (0, [0xB0, 1, 119]), (0, [0xB0, 1, 121]), (0, [0xB0, 1, 122]), (0, [0xB0, 1, 123]), (0, [0xB0, 1, 124]), (0, [0xB0, 1, 125]), (0, [0xB0, 1, 126])],
           \<lparr>channel = 9, filtered_value = 8380249 / 2048, last_midi_value = 126, cc_number = 1\<rparr>)"
  by (rule run_replicate_next [OF cold_run_24 cold_step_25]) simp_all

lemma cold_run_26:
  "run_input (replicate 26 (4095, True)) (analog_inputs ! 0) =
     Some ([(0, [0xB0, 1, 31]), (0, [0xB0, 1, 55]), (0, [0xB0, 1, 73]), (0, [0xB0, 1, 86]), (0, [0xB0, 1, 96]), (0, [0xB0, 1, 104]), (0, [0xB0, 1, 110]), (0, [0xB0, 1, 114]), (0, [0xB0, 1, 117]), (0, [0xB0, 1, 119]), (0, [0xB0, 1, 121]), (0, [0xB0, 1, 122]), (0, [0xB0, 1, 123]), (0, [0xB0, 1, 124]), (0, [0xB0, 1, 125]), (0, [0xB0, 1, 126])],
           \<lparr>channel = 9, filtered_value = 8381827 / 2048, last_midi_value = 126, cc_number = 1\<rparr>)"
  by (rule run_replicate_next [OF cold_run_25 cold_step_26]) simp_all

lemma cold_run_27:
  "run_input (replicate 27 (4095, True)) (analog_inputs ! 0) =
     Some ([(0, [0xB0, 1, 31]), (0, [0xB0, 1, 55]), (0, [0xB0, 1, 73]), (0, [0xB0, 1, 86]), (0, [0xB0, 1, 96]), (0, [0xB0, 1, 104]), (0, [0xB0, 1, 110]), (0, [0xB0, 1, 114]), (0, [0xB0, 1, 117]), (0, [0xB0, 1, 119]), (0, [0xB0, 1, 121]), (0, [0xB0, 1, 122]), (0, [0xB0, 1, 123]), (0, [0xB0, 1, 124]), (0, [0xB0, 1, 125]), (0, [0xB0, 1, 126])],
           \<lparr>channel = 9, filtered_value = 4191505 / 1024, last_midi_value = 126, cc_number = 1\<rparr>)"
  by (rule run_replicate_next [OF cold_run_26 cold_step_27]) simp_all

lemma cold_run_28:
  "run_input (replicate 28 (4095, True)) (analog_inputs ! 0) =
     Some ([(0, [0xB0, 1, 31]), (0, [0xB0, 1, 55]), (0, [0xB0, 1, 73]), (0, [0xB0, 1, 86]), (0, [0xB0, 1, 96]), (0, [0xB0, 1, 104]), (0, [0xB0, 1, 110]), (0, [0xB0, 1, 114]), (0, [0xB0, 1, 117]), (0, [0xB0, 1, 119]), (0, [0xB0, 1, 121]), (0, [0xB0, 1, 122]), (0, [0xB0, 1, 123]), (0, [0xB0, 1, 124]), (0, [0xB0, 1, 125]), (0, [0xB0, 1, 126])],
           \<lparr>channel = 9, filtered_value = 16767795 / 4096, last_midi_value = 126, cc_number = 1\<rparr>)"
  by (rule run_replicate_next [OF cold_run_27 cold_step_28]) simp_all

lemma cold_run_29:
  "run_input (replicate 29 (4095, True)) (analog_inputs ! 0) =
     Some ([(0, [0xB0, 1, 31]), (0, [0xB0, 1, 55]), (0, [0xB0, 1, 73]), (0, [0xB0, 1, 86]), (0, [0xB0, 1, 96]), (0, [0xB0, 1, 104]), (0, [0xB0, 1, 110]), (0, [0xB0, 1, 114]), (0, [0xB0, 1, 117]), (0, [0xB0, 1, 119]), (0, [0xB0, 1, 121]), (0, [0xB0, 1, 122]), (0, [0xB0, 1, 123]), (0, [0xB0, 1, 124]), (0, [0xB0, 1, 125]), (0, [0xB0, 1, 126])],
           \<lparr>channel = 9, filtered_value = 8384563 / 2048, last_midi_value = 126, cc_number = 1\<rparr>)"
  by (rule run_replicate_next [OF cold_run_28 cold_step_29]) simp_all

lemma cold_run_30:
  "run_input (replicate 30 (4095, True)) (analog_inputs ! 0) =
     Some ([(0, [0xB0, 1, 31]), (0, [0xB0, 1, 55]), (0, [0xB0, 1, 73]), (0, [0xB0, 1, 86]), (0, [0xB0, 1, 96]), (0, [0xB0, 1, 104]), (0, [0xB0, 1, 110]), (0, [0xB0, 1, 114]), (0, [0xB0, 1, 117]), (0, [0xB0, 1, 119]), (0, [0xB0, 1, 121]), (0, [0xB0, 1, 122]), (0, [0xB0, 1, 123]), (0, [0xB0, 1, 124]), (0, [0xB0, 1, 125]), (0, [0xB0, 1, 126])],
           \<lparr>channel = 9, filtered_value = 4192531 / 1024, last_midi_value = 126, cc_number = 1\<rparr>)"
  by (rule run_replicate_next [OF cold_run_29 cold_step_30]) simp_all

lemma cold_run_31:
  "run_input (replicate 31 (4095, True)) (analog_inputs ! 0) =
     Some ([(0, [0xB0, 1, 31]), (0, [0xB0, 1, 55]), (0, [0xB0, 1, 73]), (0, [0xB0, 1, 86]), (0, [0xB0, 1, 96]), (0, [0xB0, 1, 104]), (0, [0xB0, 1, 110]), (0, [0xB0, 1, 114]), (0, [0xB0, 1, 117]), (0, [0xB0, 1, 119]), (0, [0xB0, 1, 121]), (0, [0xB0, 1, 122]), (0, [0xB0, 1, 123]), (0, [0xB0, 1, 124]), (0, [0xB0, 1, 125]), (0, [0xB0, 1, 126])],
           \<lparr>channel = 9, filtered_value = 16770873 / 4096, last_midi_value = 126, cc_number = 1\<rparr>)"
  by (rule run_replicate_next [OF cold_run_30 cold_step_31]) simp_all

lemma cold_run_32:
  "run_input (replicate 32 (4095, True)) (analog_inputs ! 0) =
     Some ([(0, [0xB0, 1, 31]), (0, [0xB0, 1, 55]), (0, [0xB0, 1, 73]), (0, [0xB0, 1, 86]), (0, [0xB0, 1, 96]), (0, [0xB0, 1, 104]), (0, [0xB0, 1, 110]), (0, [0xB0, 1, 114]), (0, [0xB0, 1, 117]), (0, [0xB0, 1, 119]), (0, [0xB0, 1, 121]), (0, [0xB0, 1, 122]), (0, [0xB0, 1, 123]), (0, [0xB0, 1, 124]), (0, [0xB0, 1, 125]), (0, [0xB0, 1, 126])],
           \<lparr>channel = 9, filtered_value = 16771435 / 4096, last_midi_value = 126, cc_number = 1\<rparr>)"
  by (rule run_replicate_next [OF cold_run_31 cold_step_32]) simp_all

lemma cold_run_33:
  "run_input (replicate 33 (4095, True)) (analog_inputs ! 0) =
     Some ([(0, [0xB0, 1, 31]), (0, [0xB0, 1, 55]), (0, [0xB0, 1, 73]), (0, [0xB0, 1, 86]), (0, [0xB0, 1, 96]), (0, [0xB0, 1, 104]), (0, [0xB0, 1, 110]), (0, [0xB0, 1, 114]), (0, [0xB0, 1, 117]), (0, [0xB0, 1, 119]), (0, [0xB0, 1, 121]), (0, [0xB0, 1, 122]), (0, [0xB0, 1, 123]), (0, [0xB0, 1, 124]), (0, [0xB0, 1, 125]), (0, [0xB0, 1, 126])],
           \<lparr>channel = 9, filtered_value = 1048241 / 256, last_midi_value = 126, cc_number = 1\<rparr>)"
  by (rule run_replicate_next [OF cold_run_32 cold_step_33]) simp_all

lemma cold_run_34:
  "run_input (replicate 34 (4095, True)) (analog_inputs ! 0) =
     Some ([(0, [0xB0, 1, 31]), (0, [0xB0, 1, 55]), (0, [0xB0, 1, 73]), (0, [0xB0, 1, 86]), (0, [0xB0, 1, 96]), (0, [0xB0, 1, 104]), (0, [0xB0, 1, 110]), (0, [0xB0, 1, 114]), (0, [0xB0, 1, 117]), (0, [0xB0, 1, 119]), (0, [0xB0, 1, 121]), (0, [0xB0, 1, 122]), (0, [0xB0, 1, 123]), (0, [0xB0, 1, 124]), (0, [0xB0, 1, 125]), (0, [0xB0, 1, 126])],
           \<lparr>channel = 9, filtered_value = 4193043 / 1024, last_midi_value = 126, cc_number = 1\<rparr>)"
  by (rule run_replicate_next [OF cold_run_33 cold_step_34]) simp_all

lemma cold_run_35:
  "run_input (replicate 35 (4095, True)) (analog_inputs ! 0) =
     Some ([(0, [0xB0, 1, 31]), (0, [0xB0, 1, 55]), (0, [0xB0, 1, 73]), (0, [0xB0, 1, 86]), (0, [0xB0, 1, 96]), (0, [0xB0, 1, 104]), (0, [0xB0, 1, 110]), (0, [0xB0, 1, 114]), (0, [0xB0, 1, 117]), (0, [0xB0, 1, 119]), (0, [0xB0, 1, 121]), (0, [0xB0, 1, 122]), (0, [0xB0, 1, 123]), (0, [0xB0, 1, 124]), (0, [0xB0, 1, 125]), (0, [0xB0, 1, 126])],
           \<lparr>channel = 9, filtered_value = 16772409 / 4096, last_midi_value = 126, cc_number = 1\<rparr>)"
  by (rule run_replicate_next [OF cold_run_34 cold_step_35]) simp_all

lemma cold_run_36:
  "run_input (replicate 36 (4095, True)) (analog_inputs ! 0) =
     Some ([(0, [0xB0, 1, 31]), (0, [0xB0, 1, 55]), (0, [0xB0, 1, 73]), (0, [0xB0, 1, 86]), (0, [0xB0, 1, 96]), (0, [0xB0, 1, 104]), (0, [0xB0, 1, 110]), (0, [0xB0, 1, 114]), (0, [0xB0, 1, 117]), (0, [0xB0, 1, 119]), (0, [0xB0, 1, 121]), (0, [0xB0, 1, 122]), (0, [0xB0, 1, 123]), (0, [0xB0, 1, 124]), (0, [0xB0, 1, 125]), (0, [0xB0, 1, 126])],
           \<lparr>channel = 9, filtered_value = 16772587 / 4096, last_midi_value = 126, cc_number = 1\<rparr>)"
  by (rule run_replicate_next [OF cold_run_35 cold_step_36]) simp_all

lemma cold_run_37:
  "run_input (replicate 37 (4095, True)) (analog_inputs ! 0) =
     Some ([(0, [0xB0, 1, 31]), (0, [0xB0, 1, 55]), (0, [0xB0, 1, 73]), (0, [0xB0, 1, 86]), (0, [0xB0, 1, 96]), (0, [0xB0, 1, 104]), (0, [0xB0, 1, 110]), (0, [0xB0, 1, 114]), (0, [0xB0, 1, 117]), (0, [0xB0, 1, 119]), (0, [0xB0, 1, 121]), (0, [0xB0, 1, 122]), (0, [0xB0, 1, 123]), (0, [0xB0, 1, 124]), (0, [0xB0, 1, 125]), (0, [0xB0, 1, 126])],
           \<lparr>channel = 9, filtered_value = 1048295 / 256, last_midi_value = 126, cc_number = 1\<rparr>)"
  by (rule run_replicate_next [OF cold_run_36 cold_step_37]) simp_all

lemma cold_run_38:
  "run_input (replicate 38 (4095, True)) (analog_inputs ! 0) =
     Some ([(0, [0xB0, 1, 31]), (0, [0xB0, 1, 55]), (0, [0xB0, 1, 73]), (0, [0xB0, 1, 86]), (0, [0xB0, 1, 96]), (0, [0xB0, 1, 104]), (0, [0xB0, 1, 110]), (0, [0xB0, 1, 114]), (0, [0xB0, 1, 117]), (0, [0xB0, 1, 119]), (0, [0xB0, 1, 121]), (0, [0xB0, 1, 122]), (0, [0xB0, 1, 123]), (0, [0xB0, 1, 124]), (0, [0xB0, 1, 125]), (0, [0xB0, 1, 126])],
           \<lparr>channel = 9, filtered_value = 4193205 / 1024, last_midi_value = 126, cc_number = 1\<rparr>)"
  by (rule run_replicate_next [OF cold_run_37 cold_step_38]) simp_all

lemma cold_run_39:
  "run_input (replicate 39 (4095, True)) (analog_inputs ! 0) =
     Some ([(0, [0xB0, 1, 31]), (0, [0xB0, 1, 55]), (0, [0xB0, 1, 73]), (0, [0xB0, 1, 86]), (0, [0xB0, 1, 96]), (0, [0xB0, 1, 104]), (0, [0xB0, 1, 110]), (0, [0xB0, 1, 114]), (0, [0xB0, 1, 117]), (0, [0xB0, 1, 119]), (0, [0xB0, 1, 121]), (0, [0xB0, 1, 122]), (0, [0xB0, 1, 123]), (0, [0xB0, 1, 124]), (0, [0xB0, 1, 125]), (0, [0xB0, 1, 126])],
           \<lparr>channel = 9, filtered_value = 16772895 / 4096, last_midi_value = 126, cc_number = 1\<rparr>)"
  by (rule run_replicate_next [OF cold_run_38 cold_step_39]) simp_all

lemma cold_run_40:
  "run_input (replicate 40 (4095, True)) (analog_inputs ! 0) =
     Some ([(0, [0xB0, 1, 31]), (0, [0xB0, 1, 55]), (0, [0xB0, 1, 73]), (0, [0xB0, 1, 86]), (0, [0xB0, 1, 96]), (0, [0xB0, 1, 104]), (0, [0xB0, 1, 110]), (0, [0xB0, 1, 114]), (0, [0xB0, 1, 117]), (0, [0xB0, 1, 119]), (0, [0xB0, 1, 121]), (0, [0xB0, 1, 122]), (0, [0xB0, 1, 123]), (0, [0xB0, 1, 124]), (0, [0xB0, 1, 125]), (0, [0xB0, 1, 126])],
           \<lparr>channel = 9, filtered_value = 16772951 / 4096, last_midi_value = 126, cc_number = 1\<rparr>)"
  by (rule run_replicate_next [OF cold_run_39 cold_step_40]) simp_all

lemma cold_run_41:
  "run_input (replicate 41 (4095, True)) (analog_inputs ! 0) =
     Some ([(0, [0xB0, 1, 31]), (0, [0xB0, 1, 55]), (0, [0xB0, 1, 73]), (0, [0xB0, 1, 86]), (0, [0xB0, 1, 96]), (0, [0xB0, 1, 104]), (0, [0xB0, 1, 110]), (0, [0xB0, 1, 114]), (0, [0xB0, 1, 117]), (0, [0xB0, 1, 119]), (0, [0xB0, 1, 121]), (0, [0xB0, 1, 122]), (0, [0xB0, 1, 123]), (0, [0xB0, 1, 124]), (0, [0xB0, 1, 125]), (0, [0xB0, 1, 126])],
           \<lparr>channel = 9, filtered_value = 16772993 / 4096, last_midi_value = 126, cc_number = 1\<rparr>)"
  by (rule run_replicate_next [OF cold_run_40 cold_step_41]) simp_all

lemma cold_run_42:
  "run_input (replicate 42 (4095, True)) (analog_inputs ! 0) =
     Some ([(0, [0xB0, 1, 31]), (0, [0xB0, 1, 55]), (0, [0xB0, 1, 73]), (0, [0xB0, 1, 86]), (0, [0xB0, 1, 96]), (0, [0xB0, 1, 104]), (0, [0xB0, 1, 110]), (0, [0xB0, 1, 114]), (0, [0xB0, 1, 117]), (0, [0xB0, 1, 119]), (0, [0xB0, 1, 121]), (0, [0xB0, 1, 122]), (0, [0xB0, 1, 123]), (0, [0xB0, 1, 124]), (0, [0xB0, 1, 125]), (0, [0xB0, 1, 126])],
           \<lparr>channel = 9, filtered_value = 16773025 / 4096, last_midi_value = 126, cc_number = 1\<rparr>)"
  by (rule run_replicate_next [OF cold_run_41 cold_step_42]) simp_all

lemma cold_run_43:
  "run_input (replicate 43 (4095, True)) (analog_inputs ! 0) =
     Some ([(0, [0xB0, 1, 31]), (0, [0xB0, 1, 55]), (0, [0xB0, 1, 73]), (0, [0xB0, 1, 86]), (0, [0xB0, 1, 96]), (0, [0xB0, 1, 104]), (0, [0xB0, 1, 110]), (0, [0xB0, 1, 114]), (0, [0xB0, 1, 117]), (0, [0xB0, 1, 119]), (0, [0xB0, 1, 121]), (0, [0xB0, 1, 122]), (0, [0xB0, 1, 123]), (0, [0xB0, 1, 124]), (0, [0xB0, 1, 125]), (0, [0xB0, 1, 126])],
           \<lparr>channel = 9, filtered_value = 16773049 / 4096, last_midi_value = 126, cc_number = 1\<rparr>)"
  by (rule run_replicate_next [OF cold_run_42 cold_step_43]) simp_all

lemma cold_run_44:
  "run_input (replicate 44 (4095, True)) (analog_inputs ! 0) =
     Some ([(0, [0xB0, 1, 31]), (0, [0xB0, 1, 55]), (0, [0xB0, 1, 73]), (0, [0xB0, 1, 86]), (0, [0xB0, 1, 96]), (0, [0xB0, 1, 104]), (0, [0xB0, 1, 110]), (0, [0xB0, 1, 114]), (0, [0xB0, 1, 117]), (0, [0xB0, 1, 119]), (0, [0xB0, 1, 121]), (0, [0xB0, 1, 122]), (0, [0xB0, 1, 123]), (0, [0xB0, 1, 124]), (0, [0xB0, 1, 125]), (0, [0xB0, 1, 126])],
           \<lparr>channel = 9, filtered_value = 16773067 / 4096, last_midi_value = 126, cc_number = 1\<rparr>)"
  by (rule run_replicate_next [OF cold_run_43 cold_step_44]) simp_all

lemma cold_run_45:
  "run_input (replicate 45 (4095, True)) (analog_inputs ! 0) =
     Some ([(0, [0xB0, 1, 31]), (0, [0xB0, 1, 55]), (0, [0xB0, 1, 73]), (0, [0xB0, 1, 86]), (0, [0xB0, 1, 96]), (0, [0xB0, 1, 104]), (0, [0xB0, 1, 110]), (0, [0xB0, 1, 114]), (0, [0xB0, 1, 117]), (0, [0xB0, 1, 119]), (0, [0xB0, 1, 121]), (0, [0xB0, 1, 122]), (0, [0xB0, 1, 123]), (0, [0xB0, 1, 124]), (0, [0xB0, 1, 125]), (0, [0xB0, 1, 126])],
           \<lparr>channel = 9, filtered_value = 2096635 / 512, last_midi_value = 126, cc_number = 1\<rparr>)"
  by (rule run_replicate_next [OF cold_run_44 cold_step_45]) simp_all

lemma cold_run_46:
  "run_input (replicate 46 (4095, True)) (analog_inputs ! 0) =
     Some ([(0, [0xB0, 1, 31]), (0, [0xB0, 1, 55]), (0, [0xB0, 1, 73]), (0, [0xB0, 1, 86]), (0, [0xB0, 1, 96]), (0, [0xB0, 1, 104]), (0, [0xB0, 1, 110]), (0, [0xB0, 1, 114]), (0, [0xB0, 1, 117]), (0, [0xB0, 1, 119]), (0, [0xB0, 1, 121]), (0, [0xB0, 1, 122]), (0, [0xB0, 1, 123]), (0, [0xB0, 1, 124]), (0, [0xB0, 1, 125]), (0, [0xB0, 1, 126])],
           \<lparr>channel = 9, filtered_value = 8386545 / 2048, last_midi_value = 126, cc_number = 1\<rparr>)"
  by (rule run_replicate_next [OF cold_run_45 cold_step_46]) simp_all

lemma cold_run_47:
  "run_input (replicate 47 (4095, True)) (analog_inputs ! 0) =
     Some ([(0, [0xB0, 1, 31]), (0, [0xB0, 1, 55]), (0, [0xB0, 1, 73]), (0, [0xB0, 1, 86]), (0, [0xB0, 1, 96]), (0, [0xB0, 1, 104]), (0, [0xB0, 1, 110]), (0, [0xB0, 1, 114]), (0, [0xB0, 1, 117]), (0, [0xB0, 1, 119]), (0, [0xB0, 1, 121]), (0, [0xB0, 1, 122]), (0, [0xB0, 1, 123]), (0, [0xB0, 1, 124]), (0, [0xB0, 1, 125]), (0, [0xB0, 1, 126])],
           \<lparr>channel = 9, filtered_value = 8386549 / 2048, last_midi_value = 126, cc_number = 1\<rparr>)"
  by (rule run_replicate_next [OF cold_run_46 cold_step_47]) simp_all

lemma cold_run_48:
  "run_input (replicate 48 (4095, True)) (analog_inputs ! 0) =
     Some ([(0, [0xB0, 1, 31]), (0, [0xB0, 1, 55]), (0, [0xB0, 1, 73]), (0, [0xB0, 1, 86]), (0, [0xB0, 1, 96]), (0, [0xB0, 1, 104]), (0, [0xB0, 1, 110]), (0, [0xB0, 1, 114]), (0, [0xB0, 1, 117]), (0, [0xB0, 1, 119]), (0, [0xB0, 1, 121]), (0, [0xB0, 1, 122]), (0, [0xB0, 1, 123]), (0, [0xB0, 1, 124]), (0, [0xB0, 1, 125]), (0, [0xB0, 1, 126])],
           \<lparr>channel = 9, filtered_value = 1048319 / 256, last_midi_value = 126, cc_number = 1\<rparr>)"
  by (rule run_replicate_next [OF cold_run_47 cold_step_48]) simp_all

lemma cold_run_49:
  "run_input (replicate 49 (4095, True)) (analog_inputs ! 0) =
     Some ([(0, [0xB0, 1, 31]), (0, [0xB0, 1, 55]), (0, [0xB0, 1, 73]), (0, [0xB0, 1, 86]), (0, [0xB0, 1, 96]), (0, [0xB0, 1, 104]), (0, [0xB0, 1, 110]), (0, [0xB0, 1, 114]), (0, [0xB0, 1, 117]), (0, [0xB0, 1, 119]), (0, [0xB0, 1, 121]), (0, [0xB0, 1, 122]), (0, [0xB0, 1, 123]), (0, [0xB0, 1, 124]), (0, [0xB0, 1, 125]), (0, [0xB0, 1, 126])],
           \<lparr>channel = 9, filtered_value = 4193277 / 1024, last_midi_value = 126, cc_number = 1\<rparr>)"
  by (rule run_replicate_next [OF cold_run_48 cold_step_49]) simp_all

lemma cold_run_50:
  "run_input (replicate 50 (4095, True)) (analog_inputs ! 0) =
     Some ([(0, [0xB0, 1, 31]), (0, [0xB0, 1, 55]), (0, [0xB0, 1, 73]), (0, [0xB0, 1, 86]), (0, [0xB0, 1, 96]), (0, [0xB0, 1, 104]), (0, [0xB0, 1, 110]), (0, [0xB0, 1, 114]), (0, [0xB0, 1, 117]), (0, [0xB0, 1, 119]), (0, [0xB0, 1, 121]), (0, [0xB0, 1, 122]), (0, [0xB0, 1, 123]), (0, [0xB0, 1, 124]), (0, [0xB0, 1, 125]), (0, [0xB0, 1, 126])],
           \<lparr>channel = 9, filtered_value = 16773111 / 4096, last_midi_value = 126, cc_number = 1\<rparr>)"
  by (rule run_replicate_next [OF cold_run_49 cold_step_50]) simp_all

lemma cold_run_51:
  "run_input (replicate 51 (4095, True)) (analog_inputs ! 0) =
     Some ([(0, [0xB0, 1, 31]), (0, [0xB0, 1, 55]), (0, [0xB0, 1, 73]), (0, [0xB0, 1, 86]), (0, [0xB0, 1, 96]), (0, [0xB0, 1, 104]), (0, [0xB0, 1, 110]), (0, [0xB0, 1, 114]), (0, [0xB0, 1, 117]), (0, [0xB0, 1, 119]), (0, [0xB0, 1, 121]), (0, [0xB0, 1, 122]), (0, [0xB0, 1, 123]), (0, [0xB0, 1, 124]), (0, [0xB0, 1, 125]), (0, [0xB0, 1, 126])],
           \<lparr>channel = 9, filtered_value = 16773113 / 4096, last_midi_value = 126, cc_number = 1\<rparr>)"
  by (rule run_replicate_next [OF cold_run_50 cold_step_51]) simp_all

lemma cold_run_52:
  "run_input (replicate 52 (4095, True)) (analog_inputs ! 0) =
     Some ([(0, [0xB0, 1, 31]), (0, [0xB0, 1, 55]), (0, [0xB0, 1, 73]), (0, [0xB0, 1, 86]), (0, [0xB0, 1, 96]), (0, [0xB0, 1, 104]), (0, [0xB0, 1, 110]), (0, [0xB0, 1, 114]), (0, [0xB0, 1, 117]), (0, [0xB0, 1, 119]), (0, [0xB0, 1, 121]), (0, [0xB0, 1, 122]), (0, [0xB0, 1, 123]), (0, [0xB0, 1, 124]), (0, [0xB0, 1, 125]), (0, [0xB0, 1, 126])],
           \<lparr>channel = 9, filtered_value = 16773115 / 4096, last_midi_value = 126, cc_number = 1\<rparr>)"
  by (rule run_replicate_next [OF cold_run_51 cold_step_52]) simp_all

lemma cold_run_53:
  "run_input (replicate 53 (4095, True)) (analog_inputs ! 0) =
     Some ([(0, [0xB0, 1, 31]), (0, [0xB0, 1, 55]), (0, [0xB0, 1, 73]), (0, [0xB0, 1, 86]), (0, [0xB0, 1, 96]), (0, [0xB0, 1, 104]), (0, [0xB0, 1, 110]), (0, [0xB0, 1, 114]), (0, [0xB0, 1, 117]), (0, [0xB0, 1, 119]), (0, [0xB0, 1, 121]), (0, [0xB0, 1, 122]), (0, [0xB0, 1, 123]), (0, [0xB0, 1, 124]), (0, [0xB0, 1, 125]), (0, [0xB0, 1, 126])],
           \<lparr>channel = 9, filtered_value = 4193279 / 1024, last_midi_value = 126, cc_number = 1\<rparr>)"
  by (rule run_replicate_next [OF cold_run_52 cold_step_53]) simp_all

lemma cold_run_54:
  "run_input (replicate 54 (4095, True)) (analog_inputs ! 0) =
     Some ([(0, [0xB0, 1, 31]), (0, [0xB0, 1, 55]), (0, [0xB0, 1, 73]), (0, [0xB0, 1, 86]), (0, [0xB0, 1, 96]), (0, [0xB0, 1, 104]), (0, [0xB0, 1, 110]), (0, [0xB0, 1, 114]), (0, [0xB0, 1, 117]), (0, [0xB0, 1, 119]), (0, [0xB0, 1, 121]), (0, [0xB0, 1, 122]), (0, [0xB0, 1, 123]), (0, [0xB0, 1, 124]), (0, [0xB0, 1, 125]), (0, [0xB0, 1, 126])],
           \<lparr>channel = 9, filtered_value = 16773117 / 4096, last_midi_value = 126, cc_number = 1\<rparr>)"
  by (rule run_replicate_next [OF cold_run_53 cold_step_54]) simp_all

lemma cold_run_55:
  "run_input (replicate 55 (4095, True)) (analog_inputs ! 0) =
     Some ([(0, [0xB0, 1, 31]), (0, [0xB0, 1, 55]), (0, [0xB0, 1, 73]), (0, [0xB0, 1, 86]), (0, [0xB0, 1, 96]), (0, [0xB0, 1, 104]), (0, [0xB0, 1, 110]), (0, [0xB0, 1, 114]), (0, [0xB0, 1, 117]), (0, [0xB0, 1, 119]), (0, [0xB0, 1, 121]), (0, [0xB0, 1, 122]), (0, [0xB0, 1, 123]), (0, [0xB0, 1, 124]), (0, [0xB0, 1, 125]), (0, [0xB0, 1, 126])],
           \<lparr>channel = 9, filtered_value = 8386559 / 2048, last_midi_value = 126, cc_number = 1\<rparr>)"
  by (rule run_replicate_next [OF cold_run_54 cold_step_55]) simp_all

lemma all_less_next:
  assumes "\<forall>n<k. P n" and "P k" and "k' = k + 1"
  shows "\<forall>n<k'. P (n::nat)"
  using assms by (simp add: less_Suc_eq)

lemma cold_climb:
  "\<forall>n<55. \<exists>ws a ws' a'. run_input (replicate n (4095, True)) (analog_inputs ! 0) = Some (ws, a)
        \<and> run_input (replicate (n + 1) (4095, True)) (analog_inputs ! 0) = Some (ws', a')
        \<and> filtered_value a < filtered_value a'"
proof -
  define P where "P = (\<lambda>n. \<exists>ws a ws' a'. run_input (replicate n (4095, True)) (analog_inputs ! 0) = Some (ws, a)
        \<and> run_input (replicate (n + 1) (4095, True)) (analog_inputs ! 0) = Some (ws', a')
        \<and> filtered_value a < filtered_value a')"
  have step: "P n"
    if "run_input (replicate n (4095, True)) (analog_inputs ! 0) = Some (ws, a)"
      and "run_input (replicate k (4095, True)) (analog_inputs ! 0) = Some (ws', a')"
      and "k = n + 1" and "filtered_value a < filtered_value a'" for n k ws a ws' a'
    unfolding P_def using that by blast
  have q0: "\<forall>n<(0::nat). P n" by simp
  have p0: "P 0" by (rule step [OF cold_run_0 cold_run_1]) simp_all
  have q1: "\<forall>n<(1::nat). P n" by (rule all_less_next [OF q0 p0]) simp
  have p1: "P 1" by (rule step [OF cold_run_1 cold_run_2]) simp_all
  have q2: "\<forall>n<(2::nat). P n" by (rule all_less_next [OF q1 p1]) simp
  have p2: "P 2" by (rule step [OF cold_run_2 cold_run_3]) simp_all
  have q3: "\<forall>n<(3::nat). P n" by (rule all_less_next [OF q2 p2]) simp
  have p3: "P 3" by (rule step [OF cold_run_3 cold_run_4]) simp_all
  have q4: "\<forall>n<(4::nat). P n" by (rule all_less_next [OF q3 p3]) simp
  have p4: "P 4" by (rule step [OF cold_run_4 cold_run_5]) simp_all
  have q5: "\<forall>n<(5::nat). P n" by (rule all_less_next [OF q4 p4]) simp
  have p5: "P 5" by (rule step [OF cold_run_5 cold_run_6]) simp_all
  have q6: "\<forall>n<(6::nat). P n" by (rule all_less_next [OF q5 p5]) simp
  have p6: "P 6" by (rule step [OF cold_run_6 cold_run_7]) simp_all
  have q7: "\<forall>n<(7::nat). P n" by (rule all_less_next [OF q6 p6]) simp
  have p7: "P 7" by (rule step [OF cold_run_7 cold_run_8]) simp_all
  have q8: "\<forall>n<(8::nat). P n" by (rule all_less_next [OF q7 p7]) simp
  have p8: "P 8" by (rule step [OF cold_run_8 cold_run_9]) simp_all
  have q9: "\<forall>n<(9::nat). P n" by (rule all_less_next [OF q8 p8]) simp
  have p9: "P 9" by (rule step [OF cold_run_9 cold_run_10]) simp_all
  have q10: "\<forall>n<(10::nat). P n" by (rule all_less_next [OF q9 p9]) simp
  have p10: "P 10" by (rule step [OF cold_run_10 cold_run_11]) simp_all
  have q11: "\<forall>n<(11::nat). P n" by (rule all_less_next [OF q10 p10]) simp
  have p11: "P 11" by (rule step [OF cold_run_11 cold_run_12]) simp_all
  have q12: "\<forall>n<(12::nat). P n" by (rule all_less_next [OF q11 p11]) simp
  have p12: "P 12" by (rule step [OF cold_run_12 cold_run_13]) simp_all
  have q13: "\<forall>n<(13::nat). P n" by (rule all_less_next [OF q12 p12]) simp
  have p13: "P 13" by (rule step [OF cold_run_13 cold_run_14]) simp_all
  have q14: "\<forall>n<(14::nat). P n" by (rule all_less_next [OF q13 p13]) simp
  have p14: "P 14" by (rule step [OF cold_run_14 cold_run_15]) simp_all
  have q15: "\<forall>n<(15::nat). P n" by (rule all_less_next [OF q14 p14]) simp
  have p15: "P 15" by (rule step [OF cold_run_15 cold_run_16]) simp_all
  have q16: "\<forall>n<(16::nat). P n" by (rule all_less_next [OF q15 p15]) simp
  have p16: "P 16" by (rule step [OF cold_run_16 cold_run_17]) simp_all
  have q17: "\<forall>n<(17::nat). P n" by (rule all_less_next [OF q16 p16]) simp
  have p17: "P 17" by (rule step [OF cold_run_17 cold_run_18]) simp_all
  have q18: "\<forall>n<(18::nat). P n" by (rule all_less_next [OF q17 p17]) simp
  have p18: "P 18" by (rule step [OF cold_run_18 cold_run_19]) simp_all
  have q19: "\<forall>n<(19::nat). P n" by (rule all_less_next [OF q18 p18]) simp
  have p19: "P 19" by (rule step [OF cold_run_19 cold_run_20]) simp_all
  have q20: "\<forall>n<(20::nat). P n" by (rule all_less_next [OF q19 p19]) simp
  have p20: "P 20" by (rule step [OF cold_run_20 cold_run_21]) simp_all
  have q21: "\<forall>n<(21::nat). P n" by (rule all_less_next [OF q20 p20]) simp
  have p21: "P 21" by (rule step [OF cold_run_21 cold_run_22]) simp_all
  have q22: "\<forall>n<(22::nat). P n" by (rule all_less_next [OF q21 p21]) simp
  have p22: "P 22" by (rule step [OF cold_run_22 cold_run_23]) simp_all
  have q23: "\<forall>n<(23::nat). P n" by (rule all_less_next [OF q22 p22]) simp
  have p23: "P 23" by (rule step [OF cold_run_23 cold_run_24]) simp_all
  have q24: "\<forall>n<(24::nat). P n" by (rule all_less_next [OF q23 p23]) simp
  have p24: "P 24" by (rule step [OF cold_run_24 cold_run_25]) simp_all
  have q25: "\<forall>n<(25::nat). P n" by (rule all_less_next [OF q24 p24]) simp
  have p25: "P 25" by (rule step [OF cold_run_25 cold_run_26]) simp_all
  have q26: "\<forall>n<(26::nat). P n" by (rule all_less_next [OF q25 p25]) simp
  have p26: "P 26" by (rule step [OF cold_run_26 cold_run_27]) simp_all
  have q27: "\<forall>n<(27::nat). P n" by (rule all_less_next [OF q26 p26]) simp
  have p27: "P 27" by (rule step [OF cold_run_27 cold_run_28]) simp_all
  have q28: "\<forall>n<(28::nat). P n" by (rule all_less_next [OF q27 p27]) simp
  have p28: "P 28" by (rule step [OF cold_run_28 cold_run_29]) simp_all
  have q29: "\<forall>n<(29::nat). P n" by (rule all_less_next [OF q28 p28]) simp
  have p29: "P 29" by (rule step [OF cold_run_29 cold_run_30]) simp_all
  have q30: "\<forall>n<(30::nat). P n" by (rule all_less_next [OF q29 p29]) simp
  have p30: "P 30" by (rule step [OF cold_run_30 cold_run_31]) simp_all
  have q31: "\<forall>n<(31::nat). P n" by (rule all_less_next [OF q30 p30]) simp
  have p31: "P 31" by (rule step [OF cold_run_31 cold_run_32]) simp_all
  have q32: "\<forall>n<(32::nat). P n" by (rule all_less_next [OF q31 p31]) simp
  have p32: "P 32" by (rule step [OF cold_run_32 cold_run_33]) simp_all
  have q33: "\<forall>n<(33::nat). P n" by (rule all_less_next [OF q32 p32]) simp
  have p33: "P 33" by (rule step [OF cold_run_33 cold_run_34]) simp_all
  have q34: "\<forall>n<(34::nat). P n" by (rule all_less_next [OF q33 p33]) simp
  have p34: "P 34" by (rule step [OF cold_run_34 cold_run_35]) simp_all
  have q35: "\<forall>n<(35::nat). P n" by (rule all_less_next [OF q34 p34]) simp
  have p35: "P 35" by (rule step [OF cold_run_35 cold_run_36]) simp_all
  have q36: "\<forall>n<(36::nat). P n" by (rule all_less_next [OF q35 p35]) simp
  have p36: "P 36" by (rule step [OF cold_run_36 cold_run_37]) simp_all
  have q37: "\<forall>n<(37::nat). P n" by (rule all_less_next [OF q36 p36]) simp
  have p37: "P 37" by (rule step [OF cold_run_37 cold_run_38]) simp_all
  have q38: "\<forall>n<(38::nat). P n" by (rule all_less_next [OF q37 p37]) simp
  have p38: "P 38" by (rule step [OF cold_run_38 cold_run_39]) simp_all
  have q39: "\<forall>n<(39::nat). P n" by (rule all_less_next [OF q38 p38]) simp
  have p39: "P 39" by (rule step [OF cold_run_39 cold_run_40]) simp_all
  have q40: "\<forall>n<(40::nat). P n" by (rule all_less_next [OF q39 p39]) simp
  have p40: "P 40" by (rule step [OF cold_run_40 cold_run_41]) simp_all
  have q41: "\<forall>n<(41::nat). P n" by (rule all_less_next [OF q40 p40]) simp
  have p41: "P 41" by (rule step [OF cold_run_41 cold_run_42]) simp_all
  have q42: "\<forall>n<(42::nat). P n" by (rule all_less_next [OF q41 p41]) simp
  have p42: "P 42" by (rule step [OF cold_run_42 cold_run_43]) simp_all
  have q43: "\<forall>n<(43::nat). P n" by (rule all_less_next [OF q42 p42]) simp
  have p43: "P 43" by (rule step [OF cold_run_43 cold_run_44]) simp_all
  have q44: "\<forall>n<(44::nat). P n" by (rule all_less_next [OF q43 p43]) simp
  have p44: "P 44" by (rule step [OF cold_run_44 cold_run_45]) simp_all
  have q45: "\<forall>n<(45::nat). P n" by (rule all_less_next [OF q44 p44]) simp
  have p45: "P 45" by (rule step [OF cold_run_45 cold_run_46]) simp_all
  have q46: "\<forall>n<(46::nat). P n" by (rule all_less_next [OF q45 p45]) simp
  have p46: "P 46" by (rule step [OF cold_run_46 cold_run_47]) simp_all
  have q47: "\<forall>n<(47::nat). P n" by (rule all_less_next [OF q46 p46]) simp
  have p47: "P 47" by (rule step [OF cold_run_47 cold_run_48]) simp_all
  have q48: "\<forall>n<(48::nat). P n" by (rule all_less_next [OF q47 p47]) simp
  have p48: "P 48" by (rule step [OF cold_run_48 cold_run_49]) simp_all
  have q49: "\<forall>n<(49::nat). P n" by (rule all_less_next [OF q48 p48]) simp
  have p49: "P 49" by (rule step [OF cold_run_49 cold_run_50]) simp_all
  have q50: "\<forall>n<(50::nat). P n" by (rule all_less_next [OF q49 p49]) simp
  have p50: "P 50" by (rule step [OF cold_run_50 cold_run_51]) simp_all
  have q51: "\<forall>n<(51::nat). P n" by (rule all_less_next [OF q50 p50]) simp
  have p51: "P 51" by (rule step [OF cold_run_51 cold_run_52]) simp_all
  have q52: "\<forall>n<(52::nat). P n" by (rule all_less_next [OF q51 p51]) simp
  have p52: "P 52" by (rule step [OF cold_run_52 cold_run_53]) simp_all
  have q53: "\<forall>n<(53::nat). P n" by (rule all_less_next [OF q52 p52]) simp
  have p53: "P 53" by (rule step [OF cold_run_53 cold_run_54]) simp_all
  have q54: "\<forall>n<(54::nat). P n" by (rule all_less_next [OF q53 p53]) simp
  have p54: "P 54" by (rule step [OF cold_run_54 cold_run_55]) simp_all
  have q55: "\<forall>n<(55::nat). P n" by (rule all_less_next [OF q54 p54]) simp
  show ?thesis using q55 unfolding P_def .
qed

lemma cold_fixed:
  "55 \<le> n \<Longrightarrow> run_input (replicate n (4095, True)) (analog_inputs ! 0) =
     Some ([(0, [0xB0, 1, 31]), (0, [0xB0, 1, 55]), (0, [0xB0, 1, 73]), (0, [0xB0, 1, 86]), (0, [0xB0, 1, 96]), (0, [0xB0, 1, 104]), (0, [0xB0, 1, 110]), (0, [0xB0, 1, 114]), (0, [0xB0, 1, 117]), (0, [0xB0, 1, 119]), (0, [0xB0, 1, 121]), (0, [0xB0, 1, 122]), (0, [0xB0, 1, 123]), (0, [0xB0, 1, 124]), (0, [0xB0, 1, 125]), (0, [0xB0, 1, 126])],
           \<lparr>channel = 9, filtered_value = 8386559 / 2048, last_midi_value = 126, cc_number = 1\<rparr>)"
proof (induction n rule: nat_induct_at_least)
  case base
  show ?case by (rule cold_run_55)
next
  case (Suc n)
  show ?case by (rule run_replicate_next [OF Suc.IH cold_step_56]) simp_all
qed

lemma cold_quiet:
  "\<forall>n\<ge>17. \<exists>a. run_input (replicate n (4095, True)) (analog_inputs ! 0) =
          Some ([(0, [0xB0, 1, 31]), (0, [0xB0, 1, 55]), (0, [0xB0, 1, 73]), (0, [0xB0, 1, 86]), (0, [0xB0, 1, 96]), (0, [0xB0, 1, 104]), (0, [0xB0, 1, 110]), (0, [0xB0, 1, 114]), (0, [0xB0, 1, 117]), (0, [0xB0, 1, 119]), (0, [0xB0, 1, 121]), (0, [0xB0, 1, 122]), (0, [0xB0, 1, 123]), (0, [0xB0, 1, 124]), (0, [0xB0, 1, 125]), (0, [0xB0, 1, 126])], a)
        \<and> last_midi_value a = 126"
proof -
  define Q where "Q = (\<lambda>n. 17 \<le> n \<longrightarrow> (\<exists>a. run_input (replicate n (4095, True)) (analog_inputs ! 0) =
          Some ([(0, [0xB0, 1, 31]), (0, [0xB0, 1, 55]), (0, [0xB0, 1, 73]), (0, [0xB0, 1, 86]), (0, [0xB0, 1, 96]), (0, [0xB0, 1, 104]), (0, [0xB0, 1, 110]), (0, [0xB0, 1, 114]), (0, [0xB0, 1, 117]), (0, [0xB0, 1, 119]), (0, [0xB0, 1, 121]), (0, [0xB0, 1, 122]), (0, [0xB0, 1, 123]), (0, [0xB0, 1, 124]), (0, [0xB0, 1, 125]), (0, [0xB0, 1, 126])], a)
        \<and> last_midi_value a = 126))"
  have early: "Q n" if "n < 17" for n unfolding Q_def using that by simp
  have step: "Q n"
    if "run_input (replicate n (4095, True)) (analog_inputs ! 0) =
          Some ([(0, [0xB0, 1, 31]), (0, [0xB0, 1, 55]), (0, [0xB0, 1, 73]), (0, [0xB0, 1, 86]), (0, [0xB0, 1, 96]), (0, [0xB0, 1, 104]), (0, [0xB0, 1, 110]), (0, [0xB0, 1, 114]), (0, [0xB0, 1, 117]), (0, [0xB0, 1, 119]), (0, [0xB0, 1, 121]), (0, [0xB0, 1, 122]), (0, [0xB0, 1, 123]), (0, [0xB0, 1, 124]), (0, [0xB0, 1, 125]), (0, [0xB0, 1, 126])], a)"
      and "last_midi_value a = 126" for n a
    unfolding Q_def using that by blast
  have q0: "\<forall>n<(0::nat). Q n" by simp
  have p0: "Q 0" by (rule early) simp
  have q1: "\<forall>n<(1::nat). Q n" by (rule all_less_next [OF q0 p0]) simp
  have p1: "Q 1" by (rule early) simp
  have q2: "\<forall>n<(2::nat). Q n" by (rule all_less_next [OF q1 p1]) simp
  have p2: "Q 2" by (rule early) simp
  have q3: "\<forall>n<(3::nat). Q n" by (rule all_less_next [OF q2 p2]) simp
  have p3: "Q 3" by (rule early) simp
  have q4: "\<forall>n<(4::nat). Q n" by (rule all_less_next [OF q3 p3]) simp
  have p4: "Q 4" by (rule early) simp
  have q5: "\<forall>n<(5::nat). Q n" by (rule all_less_next [OF q4 p4]) simp
  have p5: "Q 5" by (rule early) simp
  have q6: "\<forall>n<(6::nat). Q n" by (rule all_less_next [OF q5 p5]) simp
  have p6: "Q 6" by (rule early) simp
  have q7: "\<forall>n<(7::nat). Q n" by (rule all_less_next [OF q6 p6]) simp
  have p7: "Q 7" by (rule early) simp
  have q8: "\<forall>n<(8::nat). Q n" by (rule all_less_next [OF q7 p7]) simp
  have p8: "Q 8" by (rule early) simp
  have q9: "\<forall>n<(9::nat). Q n" by (rule all_less_next [OF q8 p8]) simp
  have p9: "Q 9" by (rule early) simp
  have q10: "\<forall>n<(10::nat). Q n" by (rule all_less_next [OF q9 p9]) simp
  have p10: "Q 10" by (rule early) simp
  have q11: "\<forall>n<(11::nat). Q n" by (rule all_less_next [OF q10 p10]) simp
  have p11: "Q 11" by (rule early) simp
  have q12: "\<forall>n<(12::nat). Q n" by (rule all_less_next [OF q11 p11]) simp
  have p12: "Q 12" by (rule early) simp
  have q13: "\<forall>n<(13::nat). Q n" by (rule all_less_next [OF q12 p12]) simp
  have p13: "Q 13" by (rule early) simp
  have q14: "\<forall>n<(14::nat). Q n" by (rule all_less_next [OF q13 p13]) simp
  have p14: "Q 14" by (rule early) simp
  have q15: "\<forall>n<(15::nat). Q n" by (rule all_less_next [OF q14 p14]) simp
  have p15: "Q 15" by (rule early) simp
  have q16: "\<forall>n<(16::nat). Q n" by (rule all_less_next [OF q15 p15]) simp
  have p16: "Q 16" by (rule early) simp
  have q17: "\<forall>n<(17::nat). Q n" by (rule all_less_next [OF q16 p16]) simp
  have p17: "Q 17" by (rule step [OF cold_run_17]) simp
  have q18: "\<forall>n<(18::nat). Q n" by (rule all_less_next [OF q17 p17]) simp
  have p18: "Q 18" by (rule step [OF cold_run_18]) simp
  have q19: "\<forall>n<(19::nat). Q n" by (rule all_less_next [OF q18 p18]) simp
  have p19: "Q 19" by (rule step [OF cold_run_19]) simp
  have q20: "\<forall>n<(20::nat). Q n" by (rule all_less_next [OF q19 p19]) simp
  have p20: "Q 20" by (rule step [OF cold_run_20]) simp
  have q21: "\<forall>n<(21::nat). Q n" by (rule all_less_next [OF q20 p20]) simp
  have p21: "Q 21" by (rule step [OF cold_run_21]) simp
  have q22: "\<forall>n<(22::nat). Q n" by (rule all_less_next [OF q21 p21]) simp
  have p22: "Q 22" by (rule step [OF cold_run_22]) simp
  have q23: "\<forall>n<(23::nat). Q n" by (rule all_less_next [OF q22 p22]) simp
  have p23: "Q 23" by (rule step [OF cold_run_23]) simp
  have q24: "\<forall>n<(24::nat). Q n" by (rule all_less_next [OF q23 p23]) simp
  have p24: "Q 24" by (rule step [OF cold_run_24]) simp
  have q25: "\<forall>n<(25::nat). Q n" by (rule all_less_next [OF q24 p24]) simp
  have p25: "Q 25" by (rule step [OF cold_run_25]) simp
  have q26: "\<forall>n<(26::nat). Q n" by (rule all_less_next [OF q25 p25]) simp
  have p26: "Q 26" by (rule step [OF cold_run_26]) simp
  have q27: "\<forall>n<(27::nat). Q n" by (rule all_less_next [OF q26 p26]) simp
  have p27: "Q 27" by (rule step [OF cold_run_27]) simp
  have q28: "\<forall>n<(28::nat). Q n" by (rule all_less_next [OF q27 p27]) simp
  have p28: "Q 28" by (rule step [OF cold_run_28]) simp
  have q29: "\<forall>n<(29::nat). Q n" by (rule all_less_next [OF q28 p28]) simp
  have p29: "Q 29" by (rule step [OF cold_run_29]) simp
  have q30: "\<forall>n<(30::nat). Q n" by (rule all_less_next [OF q29 p29]) simp
  have p30: "Q 30" by (rule step [OF cold_run_30]) simp
  have q31: "\<forall>n<(31::nat). Q n" by (rule all_less_next [OF q30 p30]) simp
  have p31: "Q 31" by (rule step [OF cold_run_31]) simp
  have q32: "\<forall>n<(32::nat). Q n" by (rule all_less_next [OF q31 p31]) simp
  have p32: "Q 32" by (rule step [OF cold_run_32]) simp
  have q33: "\<forall>n<(33::nat). Q n" by (rule all_less_next [OF q32 p32]) simp
  have p33: "Q 33" by (rule step [OF cold_run_33]) simp
  have q34: "\<forall>n<(34::nat). Q n" by (rule all_less_next [OF q33 p33]) simp
  have p34: "Q 34" by (rule step [OF cold_run_34]) simp
  have q35: "\<forall>n<(35::nat). Q n" by (rule all_less_next [OF q34 p34]) simp
  have p35: "Q 35" by (rule step [OF cold_run_35]) simp
  have q36: "\<forall>n<(36::nat). Q n" by (rule all_less_next [OF q35 p35]) simp
  have p36: "Q 36" by (rule step [OF cold_run_36]) simp
  have q37: "\<forall>n<(37::nat). Q n" by (rule all_less_next [OF q36 p36]) simp
  have p37: "Q 37" by (rule step [OF cold_run_37]) simp
  have q38: "\<forall>n<(38::nat). Q n" by (rule all_less_next [OF q37 p37]) simp
  have p38: "Q 38" by (rule step [OF cold_run_38]) simp
  have q39: "\<forall>n<(39::nat). Q n" by (rule all_less_next [OF q38 p38]) simp
  have p39: "Q 39" by (rule step [OF cold_run_39]) simp
  have q40: "\<forall>n<(40::nat). Q n" by (rule all_less_next [OF q39 p39]) simp
  have p40: "Q 40" by (rule step [OF cold_run_40]) simp
  have q41: "\<forall>n<(41::nat). Q n" by (rule all_less_next [OF q40 p40]) simp
  have p41: "Q 41" by (rule step [OF cold_run_41]) simp
  have q42: "\<forall>n<(42::nat). Q n" by (rule all_less_next [OF q41 p41]) simp
  have p42: "Q 42" by (rule step [OF cold_run_42]) simp
  have q43: "\<forall>n<(43::nat). Q n" by (rule all_less_next [OF q42 p42]) simp
  have p43: "Q 43" by (rule step [OF cold_run_43]) simp
  have q44: "\<forall>n<(44::nat). Q n" by (rule all_less_next [OF q43 p43]) simp
  have p44: "Q 44" by (rule step [OF cold_run_44]) simp
  have q45: "\<forall>n<(45::nat). Q n" by (rule all_less_next [OF q44 p44]) simp
  have p45: "Q 45" by (rule step [OF cold_run_45]) simp
  have q46: "\<forall>n<(46::nat). Q n" by (rule all_less_next [OF q45 p45]) simp
  have p46: "Q 46" by (rule step [OF cold_run_46]) simp
  have q47: "\<forall>n<(47::nat). Q n" by (rule all_less_next [OF q46 p46]) simp
  have p47: "Q 47" by (rule step [OF cold_run_47]) simp
  have q48: "\<forall>n<(48::nat). Q n" by (rule all_less_next [OF q47 p47]) simp
  have p48: "Q 48" by (rule step [OF cold_run_48]) simp
  have q49: "\<forall>n<(49::nat). Q n" by (rule all_less_next [OF q48 p48]) simp
  have p49: "Q 49" by (rule step [OF cold_run_49]) simp
  have q50: "\<forall>n<(50::nat). Q n" by (rule all_less_next [OF q49 p49]) simp
  have p50: "Q 50" by (rule step [OF cold_run_50]) simp
  have q51: "\<forall>n<(51::nat). Q n" by (rule all_less_next [OF q50 p50]) simp
  have p51: "Q 51" by (rule step [OF cold_run_51]) simp
  have q52: "\<forall>n<(52::nat). Q n" by (rule all_less_next [OF q51 p51]) simp
  have p52: "Q 52" by (rule step [OF cold_run_52]) simp
  have q53: "\<forall>n<(53::nat). Q n" by (rule all_less_next [OF q52 p52]) simp
  have p53: "Q 53" by (rule step [OF cold_run_53]) simp
  have q54: "\<forall>n<(54::nat). Q n" by (rule all_less_next [OF q53 p53]) simp
  have p54: "Q 54" by (rule step [OF cold_run_54]) simp
  have q55: "\<forall>n<(55::nat). Q n" by (rule all_less_next [OF q54 p54]) simp
  have "Q n" for n
  proof (cases "n < 55")
    case True
    then show ?thesis using q55 by simp
  next
    case False
    then have "55 \<le> n" by simp
    from cold_fixed [OF this] show ?thesis unfolding Q_def by simp
  qed
  then show ?thesis unfolding Q_def by simp
qed

text \<open>
  C5, amended. From the cold start (\<open>filtered_value\<close> 0, \<open>last_midi_value\<close> 0) with the
  sample 4095 held constant and the USB stack mounted: after cycle 1 \<open>filtered_value\<close> is
  1023.75 and 31 is emitted; after cycle 2 it is 1791.5625 and 55 is emitted;
  \<open>filtered_value\<close> climbs strictly in each of the first 55 cycles and is
  \<open>4095 - 2^-11 = 8386559/2048\<close> after cycle 55 and after every later one; the quantized
  value is 126 after cycle 17 and after every later one, and the messages of any run of
  17 cycles or more are the sixteen emitted up to cycle 17: none is emitted afterwards.
\<close>

theorem cold_start_4095:
  "run_input (replicate 1 (4095, True)) (analog_inputs ! 0) =
     Some ([(0, [0xB0, 1, 31])], \<lparr>channel = 9, filtered_value = 4095 / 4, last_midi_value = 31, cc_number = 1\<rparr>)
   \<and> run_input (replicate 2 (4095, True)) (analog_inputs ! 0) =
     Some ([(0, [0xB0, 1, 31]), (0, [0xB0, 1, 55])], \<lparr>channel = 9, filtered_value = 28665 / 16, last_midi_value = 55, cc_number = 1\<rparr>)
   \<and> (\<forall>n<55. \<exists>ws a ws' a'. run_input (replicate n (4095, True)) (analog_inputs ! 0) = Some (ws, a)
        \<and> run_input (replicate (n + 1) (4095, True)) (analog_inputs ! 0) = Some (ws', a')
        \<and> filtered_value a < filtered_value a')
   \<and> (\<forall>n\<ge>55. \<exists>ws a. run_input (replicate n (4095, True)) (analog_inputs ! 0) = Some (ws, a)
        \<and> filtered_value a = 8386559 / 2048)
   \<and> (\<forall>n\<ge>17. \<exists>a. run_input (replicate n (4095, True)) (analog_inputs ! 0) =
          Some ([(0, [0xB0, 1, 31]), (0, [0xB0, 1, 55]), (0, [0xB0, 1, 73]), (0, [0xB0, 1, 86]), (0, [0xB0, 1, 96]), (0, [0xB0, 1, 104]), (0, [0xB0, 1, 110]), (0, [0xB0, 1, 114]), (0, [0xB0, 1, 117]), (0, [0xB0, 1, 119]), (0, [0xB0, 1, 121]), (0, [0xB0, 1, 122]), (0, [0xB0, 1, 123]), (0, [0xB0, 1, 124]), (0, [0xB0, 1, 125]), (0, [0xB0, 1, 126])], a)
        \<and> last_midi_value a = 126)"
proof -
  have "\<forall>n\<ge>55. \<exists>ws a. run_input (replicate n (4095, True)) (analog_inputs ! 0) = Some (ws, a)
        \<and> filtered_value a = 8386559 / 2048"
    using cold_fixed by simp
  then show ?thesis using cold_run_1 cold_run_2 cold_climb cold_quiet by (intro conjI)
qed

text \<open>
  C5, as stated, fails: after cycle 2 \<open>filtered_value\<close> is 1791.5625 and the value
  emitted is 55, not 1535.6 and 47; and the quantized value settles at 126, not 127:
  after 56 cycles \<open>filtered_value\<close> is \<open>4095 - 2^-11\<close>, a value the update maps to itself
  and which quantizes to 126.
\<close>

theorem cold_start_4095_counterexample:
  "run_input [(4095, True), (4095, True)] (analog_inputs ! 0) =
     Some ([(0, [0xB0, 1, 31]), (0, [0xB0, 1, 55])], \<lparr>channel = 9, filtered_value = 28665 / 16, last_midi_value = 55, cc_number = 1\<rparr>)
   \<and> filtered_value \<lparr>channel = 9, filtered_value = 28665 / 16, last_midi_value = 55, cc_number = 1\<rparr> \<noteq> 7678 / 5
   \<and> last_midi_value \<lparr>channel = 9, filtered_value = 28665 / 16, last_midi_value = 55, cc_number = 1\<rparr> \<noteq> 47
   \<and> run_input (replicate 56 (4095, True)) (analog_inputs ! 0) =
     Some ([(0, [0xB0, 1, 31]), (0, [0xB0, 1, 55]), (0, [0xB0, 1, 73]), (0, [0xB0, 1, 86]), (0, [0xB0, 1, 96]), (0, [0xB0, 1, 104]), (0, [0xB0, 1, 110]), (0, [0xB0, 1, 114]), (0, [0xB0, 1, 117]), (0, [0xB0, 1, 119]), (0, [0xB0, 1, 121]), (0, [0xB0, 1, 122]), (0, [0xB0, 1, 123]), (0, [0xB0, 1, 124]), (0, [0xB0, 1, 125]), (0, [0xB0, 1, 126])],
           \<lparr>channel = 9, filtered_value = 8386559 / 2048, last_midi_value = 126, cc_number = 1\<rparr>)
   \<and> ema 4095 (8386559 / 2048) = 8386559 / 2048
   \<and> midi_of (8386559 / 2048) = Some 126"
proof -
  have 1: "filtered_value \<lparr>channel = 9, filtered_value = 28665 / 16, last_midi_value = 55, cc_number = 1\<rparr> \<noteq> 7678 / 5" by simp
  have 2: "last_midi_value \<lparr>channel = 9, filtered_value = 28665 / 16, last_midi_value = 55, cc_number = 1\<rparr> \<noteq> 47" by simp
  have 3: "run_input (replicate 56 (4095, True)) (analog_inputs ! 0) =
     Some ([(0, [0xB0, 1, 31]), (0, [0xB0, 1, 55]), (0, [0xB0, 1, 73]), (0, [0xB0, 1, 86]), (0, [0xB0, 1, 96]), (0, [0xB0, 1, 104]), (0, [0xB0, 1, 110]), (0, [0xB0, 1, 114]), (0, [0xB0, 1, 117]), (0, [0xB0, 1, 119]), (0, [0xB0, 1, 121]), (0, [0xB0, 1, 122]), (0, [0xB0, 1, 123]), (0, [0xB0, 1, 124]), (0, [0xB0, 1, 125]), (0, [0xB0, 1, 126])],
           \<lparr>channel = 9, filtered_value = 8386559 / 2048, last_midi_value = 126, cc_number = 1\<rparr>)"
    by (rule cold_fixed) simp
  have 4: "ema 4095 (8386559 / 2048) = 8386559 / 2048"
    by (simp add: ema_def ALPHA_def f32_evals)
  have 5: "midi_of (8386559 / 2048) = Some 126"
    by (simp add: midi_of_def u8_of_f32_def f32_evals)
  show ?thesis by (intro conjI) (rule cold_two_cycles 1 2 3 4 5)+
qed

theorem cold_start_4095_witness:
  "(3::nat) < 55 \<and> (60::nat) \<ge> 55 \<and> (60::nat) \<ge> 17
   \<and> run_input (replicate 3 (4095, True)) (analog_inputs ! 0) =
       Some ([(0, [0xB0, 1, 31]), (0, [0xB0, 1, 55]), (0, [0xB0, 1, 73])], \<lparr>channel = 9, filtered_value = 151515 / 64, last_midi_value = 73, cc_number = 1\<rparr>)
   \<and> run_input (replicate (3 + 1) (4095, True)) (analog_inputs ! 0) =
       Some ([(0, [0xB0, 1, 31]), (0, [0xB0, 1, 55]), (0, [0xB0, 1, 73]), (0, [0xB0, 1, 86])], \<lparr>channel = 9, filtered_value = 716625 / 256, last_midi_value = 86, cc_number = 1\<rparr>)
   \<and> filtered_value \<lparr>channel = 9, filtered_value = 151515 / 64, last_midi_value = 73, cc_number = 1\<rparr> < filtered_value \<lparr>channel = 9, filtered_value = 716625 / 256, last_midi_value = 86, cc_number = 1\<rparr>
   \<and> run_input (replicate 60 (4095, True)) (analog_inputs ! 0) =
       Some ([(0, [0xB0, 1, 31]), (0, [0xB0, 1, 55]), (0, [0xB0, 1, 73]), (0, [0xB0, 1, 86]), (0, [0xB0, 1, 96]), (0, [0xB0, 1, 104]), (0, [0xB0, 1, 110]), (0, [0xB0, 1, 114]), (0, [0xB0, 1, 117]), (0, [0xB0, 1, 119]), (0, [0xB0, 1, 121]), (0, [0xB0, 1, 122]), (0, [0xB0, 1, 123]), (0, [0xB0, 1, 124]), (0, [0xB0, 1, 125]), (0, [0xB0, 1, 126])],
             \<lparr>channel = 9, filtered_value = 8386559 / 2048, last_midi_value = 126, cc_number = 1\<rparr>)"
proof -
  have 1: "run_input (replicate (3 + 1) (4095, True)) (analog_inputs ! 0) =
       Some ([(0, [0xB0, 1, 31]), (0, [0xB0, 1, 55]), (0, [0xB0, 1, 73]), (0, [0xB0, 1, 86])], \<lparr>channel = 9, filtered_value = 716625 / 256, last_midi_value = 86, cc_number = 1\<rparr>)"
    using cold_run_4 by simp
  have 2: "filtered_value \<lparr>channel = 9, filtered_value = 151515 / 64, last_midi_value = 73, cc_number = 1\<rparr> < filtered_value \<lparr>channel = 9, filtered_value = 716625 / 256, last_midi_value = 86, cc_number = 1\<rparr>" by simp
  have 3: "run_input (replicate 60 (4095, True)) (analog_inputs ! 0) =
       Some ([(0, [0xB0, 1, 31]), (0, [0xB0, 1, 55]), (0, [0xB0, 1, 73]), (0, [0xB0, 1, 86]), (0, [0xB0, 1, 96]), (0, [0xB0, 1, 104]), (0, [0xB0, 1, 110]), (0, [0xB0, 1, 114]), (0, [0xB0, 1, 117]), (0, [0xB0, 1, 119]), (0, [0xB0, 1, 121]), (0, [0xB0, 1, 122]), (0, [0xB0, 1, 123]), (0, [0xB0, 1, 124]), (0, [0xB0, 1, 125]), (0, [0xB0, 1, 126])],
             \<lparr>channel = 9, filtered_value = 8386559 / 2048, last_midi_value = 126, cc_number = 1\<rparr>)"
    by (rule cold_fixed) simp
  have rest: ?thesis
    by (intro conjI; (rule cold_run_3 1 2 3 | simp))
  show ?thesis using cold_start_4095 by - (rule rest)
qed

lemma ema_0_from_1023_75: "ema 0 (4095 / 4) = 12285 / 16"
  by (simp add: ema_def ALPHA_def f32_evals)

lemma midi_of_767_8125: "midi_of (12285 / 16) = Some 23"
  by (simp add: midi_of_def u8_of_f32_def f32_evals)

lemma down_one_cycle:
  "run_input [(0, True)]
      \<lparr>channel = 9, filtered_value = 4095 / 4, last_midi_value = 31, cc_number = 1\<rparr> =
     Some ([(0, [0xB0, 1, 23])],
           \<lparr>channel = 9, filtered_value = 12285 / 16, last_midi_value = 23, cc_number = 1\<rparr>)"
  by (simp add: process_input_def ema_0_from_1023_75 midi_of_767_8125 send_midi_cc_def consts_defs)

text \<open>
  C7, as stated, fails in its strict part: \<open>filtered_value\<close> does not increase
  strictly while it is below \<open>v\<close>, and need not come arbitrarily close to \<open>v\<close>. With
  the sample 4095 from the initial state it is \<open>4095 - 2^-11\<close> after 55 cycles, below
  4095, and the update maps that value to itself.
\<close>

theorem constant_sample_settles_counterexample:
  "run_input (replicate 55 (4095, True)) (analog_inputs ! 0) =
     Some ([(0, [0xB0, 1, 31]), (0, [0xB0, 1, 55]), (0, [0xB0, 1, 73]), (0, [0xB0, 1, 86]), (0, [0xB0, 1, 96]), (0, [0xB0, 1, 104]), (0, [0xB0, 1, 110]), (0, [0xB0, 1, 114]), (0, [0xB0, 1, 117]), (0, [0xB0, 1, 119]), (0, [0xB0, 1, 121]), (0, [0xB0, 1, 122]), (0, [0xB0, 1, 123]), (0, [0xB0, 1, 124]), (0, [0xB0, 1, 125]), (0, [0xB0, 1, 126])],
           \<lparr>channel = 9, filtered_value = 8386559 / 2048, last_midi_value = 126, cc_number = 1\<rparr>)
   \<and> filtered_value \<lparr>channel = 9, filtered_value = 8386559 / 2048, last_midi_value = 126, cc_number = 1\<rparr> < 4095
   \<and> ema 4095 (filtered_value \<lparr>channel = 9, filtered_value = 8386559 / 2048, last_midi_value = 126, cc_number = 1\<rparr>)
       = filtered_value \<lparr>channel = 9, filtered_value = 8386559 / 2048, last_midi_value = 126, cc_number = 1\<rparr>"
proof -
  have 1: "filtered_value \<lparr>channel = 9, filtered_value = 8386559 / 2048, last_midi_value = 126, cc_number = 1\<rparr> < 4095" by simp
  have 2: "ema 4095 (filtered_value \<lparr>channel = 9, filtered_value = 8386559 / 2048, last_midi_value = 126, cc_number = 1\<rparr>)
       = filtered_value \<lparr>channel = 9, filtered_value = 8386559 / 2048, last_midi_value = 126, cc_number = 1\<rparr>"
    by (simp add: ema_def ALPHA_def f32_evals)
  show ?thesis by (intro conjI) (rule cold_run_55 1 2)+
qed

theorem constant_sample_settles_witness:
  "(0::int) \<le> 4095 \<and> (4095::int) \<le> 4095
   \<and> f32 (filtered_value (analog_inputs ! 0)) = filtered_value (analog_inputs ! 0)
   \<and> 0 \<le> filtered_value (analog_inputs ! 0)
   \<and> filtered_value (analog_inputs ! 0) \<le> 4095
   \<and> filtered_value (analog_inputs ! 0) \<le> of_int 4095
   \<and> run_input [(4095, True), (4095, True)] (analog_inputs ! 0) =
       Some ([(0, [0xB0, 1, 31]), (0, [0xB0, 1, 55])],
             \<lparr>channel = 9, filtered_value = 28665 / 16, last_midi_value = 55, cc_number = 1\<rparr>)
   \<and> filtered_value (analog_inputs ! 0) \<le> 28665 / 16
   \<and> ema 4095 (28665 / 16) = 151515 / 64
   \<and> (28665 / 16 :: rat) < 151515 / 64
   \<and> (0::int) \<le> 0 \<and> (0::int) \<le> 4095
   \<and> f32 (filtered_value \<lparr>channel = 9, filtered_value = 4095 / 4, last_midi_value = 31, cc_number = 1\<rparr>)
       = filtered_value \<lparr>channel = 9, filtered_value = 4095 / 4, last_midi_value = 31, cc_number = 1\<rparr>
   \<and> 0 \<le> filtered_value \<lparr>channel = 9, filtered_value = 4095 / 4, last_midi_value = 31, cc_number = 1\<rparr>
   \<and> filtered_value \<lparr>channel = 9, filtered_value = 4095 / 4, last_midi_value = 31, cc_number = 1\<rparr> \<le> 4095
   \<and> of_int 0 \<le> filtered_value \<lparr>channel = 9, filtered_value = 4095 / 4, last_midi_value = 31, cc_number = 1\<rparr>
   \<and> run_input [(0, True)]
        \<lparr>channel = 9, filtered_value = 4095 / 4, last_midi_value = 31, cc_number = 1\<rparr> =
       Some ([(0, [0xB0, 1, 23])],
             \<lparr>channel = 9, filtered_value = 12285 / 16, last_midi_value = 23, cc_number = 1\<rparr>)
   \<and> (12285 / 16 :: rat) < 4095 / 4
   \<and> ema 0 (12285 / 16) = 36855 / 64
   \<and> (36855 / 64 :: rat) < 12285 / 16"
proof -
  have a: "(0::int) \<le> 4095" "(4095::int) \<le> 4095" by simp_all
  have b: "f32 (filtered_value (analog_inputs ! 0)) = filtered_value (analog_inputs ! 0)"
    "0 \<le> filtered_value (analog_inputs ! 0)"
    "filtered_value (analog_inputs ! 0) \<le> 4095"
    by (simp_all add: analog_inputs_def f32_0)
  have b': "filtered_value (analog_inputs ! 0) \<le> of_int 4095" by (simp add: analog_inputs_def)
  have c: "filtered_value (analog_inputs ! 0) \<le> 28665 / 16" by (simp add: analog_inputs_def)
  have d: "ema 4095 (28665 / 16) = 151515 / 64"
    by (simp add: ema_def ALPHA_def f32_evals)
  have e: "(28665 / 16 :: rat) < 151515 / 64" by simp
  have a2: "(0::int) \<le> 0" "(0::int) \<le> 4095" by simp_all
  have b2: "f32 (filtered_value \<lparr>channel = 9, filtered_value = 4095 / 4, last_midi_value = 31, cc_number = 1\<rparr>)
       = filtered_value \<lparr>channel = 9, filtered_value = 4095 / 4, last_midi_value = 31, cc_number = 1\<rparr>"
    "0 \<le> filtered_value \<lparr>channel = 9, filtered_value = 4095 / 4, last_midi_value = 31, cc_number = 1\<rparr>"
    "filtered_value \<lparr>channel = 9, filtered_value = 4095 / 4, last_midi_value = 31, cc_number = 1\<rparr> \<le> 4095"
    by (simp_all add: f32_evals)
  have b2': "of_int 0 \<le> filtered_value \<lparr>channel = 9, filtered_value = 4095 / 4, last_midi_value = 31, cc_number = 1\<rparr>"
    by simp
  have c2: "(12285 / 16 :: rat) < 4095 / 4" by simp
  have d2: "ema 0 (12285 / 16) = 36855 / 64"
    by (simp add: ema_def ALPHA_def f32_evals)
  have e2: "(36855 / 64 :: rat) < 12285 / 16" by simp
  have rest: ?thesis
    by (intro conjI) (rule a b b' c d e cold_two_cycles a2 b2 b2' c2 d2 e2 down_one_cycle)+
  show ?thesis
    using constant_sample_settles [OF a b] constant_sample_settles [OF a2 b2]
    by - (rule rest)
qed

end
